theory Spec2Isabelle
  imports Complex_Main "HOL-Library.Signed_Division"
begin

section \<open>PlantPipingSystemsManager: ground heat-exchanger mesh and solver\<close>

text \<open>
  The definitions below embed functions of \<^verbatim>\<open>PlantPipingSystemsManager.cc\<close>.
  \<^verbatim>\<open>Real64\<close> values are modelled as \<^typ>\<open>real\<close>: every statement about them is a
  statement of exact real arithmetic. \<^verbatim>\<open>int\<close> values are modelled as \<^typ>\<open>int\<close>;
  where the source increments one, the theorem that depends on it bounds the value below
  the largest 32-bit integer. \<^verbatim>\<open>ShowFatalError\<close> terminates the program; in the
  model a function that can reach it returns a sum whose left side is the error.
\<close>

subsection \<open>Fatal errors and messages\<close>

datatype error =
    InvalidPartitionLocation
  | PartitionsOverlapping
  | OutOfRangeTemperatures
  | InvalidFlowDirection
  | ArrayIndexOutOfBounds

datatype Message =
    ShowWarningError string
  | ShowSevereError string
  | ShowContinueError string

subsection \<open>Soil freeze/thaw volumetric heat capacity (EvaluateSoilRhoCp)\<close>

text \<open>
  The source keeps the values computed by the \<^verbatim>\<open>InitOnly\<close> call in static variables;
  the record \<open>SoilStatics\<close> holds the four of them that later calls read.
\<close>

record SoilStatics =
  rhoCp_soil_liq_1 :: real
  rhoCP_soil_liq :: real
  rhoCP_soil_transient :: real
  rhoCP_soil_ice :: real

definition EvaluateSoilRhoCp_InitOnly :: "real \<Rightarrow> real \<Rightarrow> SoilStatics" where
  "EvaluateSoilRhoCp_InitOnly Theta_liq Theta_sat =
     (let Theta_ice = Theta_liq;
          rho_ice = 917;
          rho_liq = 1000;
          liq_1 = 1225000 / (1 - Theta_sat);
          CP_liq = 4180;
          CP_ice = 2066;
          Lat_fus = 334000;
          Cp_transient = Lat_fus / (4 / 10) + ((5 / 10) * CP_ice - (CP_liq + CP_ice) / 2 * (1 / 10)) / (4 / 10)
      in \<lparr> rhoCp_soil_liq_1 = liq_1,
           rhoCP_soil_liq = liq_1 * (1 - Theta_sat) + rho_liq * CP_liq * Theta_liq,
           rhoCP_soil_transient = liq_1 * (1 - Theta_sat) + ((rho_liq + rho_ice) / 2) * Cp_transient * Theta_ice,
           rhoCP_soil_ice = liq_1 * (1 - Theta_sat) + rho_ice * CP_ice * Theta_ice \<rparr>)"

definition frzAllIce :: real where "frzAllIce = - (5 / 10)"

definition frzIceTrans :: real where "frzIceTrans = - (4 / 10)"

definition frzLiqTrans :: real where "frzLiqTrans = - (1 / 10)"

definition frzAllLiq :: real where "frzAllLiq = 0"

text \<open>
  The five branches follow the source's order. Over the reals they are exhaustive, so the
  final \<open>else\<close> (where the source leaves the local unassigned) is never taken.
\<close>

definition LiquidTransitionBlend :: "SoilStatics \<Rightarrow> real \<Rightarrow> real" where
  "LiquidTransitionBlend s CellTemp =
     rhoCp_soil_liq_1 s
       + (rhoCP_soil_transient s - rhoCP_soil_liq s) / (frzAllLiq - frzLiqTrans) * (frzAllLiq - CellTemp)"

definition IceTransitionBlend :: "SoilStatics \<Rightarrow> real \<Rightarrow> real" where
  "IceTransitionBlend s CellTemp =
     rhoCP_soil_ice s
       + (rhoCP_soil_transient s - rhoCP_soil_ice s) / (frzIceTrans - frzAllIce) * (CellTemp - frzAllIce)"

definition EvaluateSoilRhoCp :: "SoilStatics \<Rightarrow> real \<Rightarrow> real" where
  "EvaluateSoilRhoCp s CellTemp =
     (if CellTemp \<ge> frzAllLiq then rhoCp_soil_liq_1 s
      else if CellTemp \<le> frzAllIce then rhoCP_soil_ice s
      else if CellTemp < frzAllLiq \<and> CellTemp > frzLiqTrans then LiquidTransitionBlend s CellTemp
      else if CellTemp \<le> frzLiqTrans \<and> CellTemp \<ge> frzIceTrans then rhoCP_soil_transient s
      else if CellTemp < frzIceTrans \<and> CellTemp > frzAllIce then IceTransitionBlend s CellTemp
      else 0)"

subsection \<open>Mesh inputs of a general domain (ReadGeneralDomainInputs)\<close>

datatype MeshDistribution =
    MeshDistribution_Unset
  | MeshDistribution_Uniform
  | MeshDistribution_SymmetricGeometric

record DistributionStructure =
  MeshDistribution :: MeshDistribution
  RegionMeshCount :: int
  GeometricSeriesCoefficient :: real

record MeshProperties =
  MeshX :: DistributionStructure
  MeshY :: DistributionStructure
  MeshZ :: DistributionStructure

text \<open>Conversion of a \<^verbatim>\<open>Real64\<close> to \<^verbatim>\<open>int\<close> by assignment: truncation toward zero.\<close>

definition Real64_to_int :: "real \<Rightarrow> int" where
  "Real64_to_int r = (if r \<ge> 0 then \<lfloor>r\<rfloor> else \<lceil>r\<rceil>)"

text \<open>ObjexxFCL's \<^verbatim>\<open>mod\<close> on integers is the remainder of truncating division.\<close>

definition Fmod :: "int \<Rightarrow> int \<Rightarrow> int" where
  "Fmod x y = x smod y"

text \<open>
  One axis block of \<^verbatim>\<open>ReadGeneralDomainInputs\<close>. The three blocks of the source differ in
  the axis letter of the message, in the numeric and alpha fields read, and in the string
  function applied to the key (\<^verbatim>\<open>uppercased\<close> for X, \<^verbatim>\<open>stripped\<close> for Y and Z);
  \<open>meshDistribution\<close> is the key after that function. The state threaded through is the
  axis' mesh structure, the messages shown so far and the \<^verbatim>\<open>ErrorsFound\<close> flag.
  \<open>OddCountWarning\<close> is the warning with its two continuation lines; the line naming
  the domain instance is left out.
\<close>

definition OddCountWarning :: "string \<Rightarrow> Message list" where
  "OddCountWarning axis =
     [ShowWarningError ''PipingSystems:ReadGeneralDomainInputs: Invalid mesh type-count combination.'',
      ShowContinueError (''An ODD-valued '' @ axis @ '' mesh count was found in the input for symmetric geometric configuration.''),
      ShowContinueError ''This is invalid, mesh count incremented UP by one to next EVEN value.'']"

definition ReadMeshAxis ::
  "string \<Rightarrow> real \<Rightarrow> string \<Rightarrow> real \<Rightarrow> DistributionStructure \<times> Message list \<times> bool
     \<Rightarrow> DistributionStructure \<times> Message list \<times> bool" where
  "ReadMeshAxis axis countArg meshDistribution coeffArg st =
     (case st of (m0, msgs, ErrorsFound) \<Rightarrow>
        let m1 = m0\<lparr>RegionMeshCount := Real64_to_int countArg\<rparr> in
        if meshDistribution = ''UNIFORM'' then
          (m1\<lparr>MeshDistribution := MeshDistribution_Uniform\<rparr>, msgs, ErrorsFound)
        else if meshDistribution = ''SYMMETRICGEOMETRIC'' then
          let m2 = m1\<lparr>MeshDistribution := MeshDistribution_SymmetricGeometric\<rparr> in
          if Fmod (RegionMeshCount m2) 2 \<noteq> 0 then
            (m2\<lparr>RegionMeshCount := RegionMeshCount m2 + 1, GeometricSeriesCoefficient := coeffArg\<rparr>,
             msgs @ OddCountWarning axis, ErrorsFound)
          else
            (m2\<lparr>GeometricSeriesCoefficient := 1\<rparr>, msgs, ErrorsFound)
        else
          (m1, msgs @ [ShowSevereError ''Use a choice from the available mesh type keys.''], True))"

text \<open>
  The mesh part of \<^verbatim>\<open>ReadGeneralDomainInputs\<close> for one domain: X from numeric fields 4, 5
  and alpha field 2, Y from 6, 7 and 3, Z from 8, 9 and 4. \<open>uppercased\<close> and \<open>stripped\<close>
  are the ObjexxFCL string functions, taken as parameters.
\<close>

definition ReadGeneralDomainInputs_Mesh ::
  "(string \<Rightarrow> string) \<Rightarrow> (string \<Rightarrow> string) \<Rightarrow> (nat \<Rightarrow> string) \<Rightarrow> (nat \<Rightarrow> real)
     \<Rightarrow> MeshProperties \<times> Message list \<times> bool \<Rightarrow> MeshProperties \<times> Message list \<times> bool" where
  "ReadGeneralDomainInputs_Mesh uppercased stripped cAlphaArgs rNumericArgs st =
     (case st of (mesh, msgs0, err0) \<Rightarrow>
        case ReadMeshAxis ''X'' (rNumericArgs 4) (uppercased (cAlphaArgs 2)) (rNumericArgs 5) (MeshX mesh, msgs0, err0) of
          (mx, msgs1, err1) \<Rightarrow>
        case ReadMeshAxis ''Y'' (rNumericArgs 6) (stripped (cAlphaArgs 3)) (rNumericArgs 7) (MeshY mesh, msgs1, err1) of
          (my, msgs2, err2) \<Rightarrow>
        case ReadMeshAxis ''Z'' (rNumericArgs 8) (stripped (cAlphaArgs 4)) (rNumericArgs 9) (MeshZ mesh, msgs2, err2) of
          (mz, msgs3, err3) \<Rightarrow>
        (mesh\<lparr>MeshX := mx, MeshY := my, MeshZ := mz\<rparr>, msgs3, err3))"

subsection \<open>Cell widths of a mesh region (GetCellWidths)\<close>

text \<open>
  An array of the source is a list. \<open>allocated n xs\<close> is an array of \<open>n\<close> elements of
  which the source has assigned the leading ones, \<open>xs\<close>; the elements it never assigns
  are modelled as 0.
\<close>

definition allocated :: "nat \<Rightarrow> real list \<Rightarrow> real list" where
  "allocated n xs = take n (xs @ replicate (n - length xs) 0)"

text \<open>The loop \<^verbatim>\<open>for I = 1 .. NumCellsOnEachSide: SummationTerm += pow(c, I - 1)\<close>.\<close>

fun SummationTerm :: "real \<Rightarrow> nat \<Rightarrow> real" where
  "SummationTerm c 0 = 0"
| "SummationTerm c (Suc n) = SummationTerm c n + c ^ n"

text \<open>
  The loop \<^verbatim>\<open>for I = 1 .. NumCellsOnEachSide - 1: CellWidth *= c; RetVal(I) = CellWidth\<close>:
  the widths written at indices 1, 2, ... from the running \<open>CellWidth\<close>.
\<close>

fun GrowingWidths :: "real \<Rightarrow> real \<Rightarrow> nat \<Rightarrow> real list" where
  "GrowingWidths c CellWidth 0 = []"
| "GrowingWidths c CellWidth (Suc k) = (CellWidth * c) # GrowingWidths c (CellWidth * c) k"

text \<open>
  \<open>GetCellWidths ThisMesh gMin gMax\<close> is the local array \<^verbatim>\<open>RetVal\<close> at the end of the
  source function, for the mesh structure selected by the region's type and the region's
  bounds. The mirror loop copies \<^verbatim>\<open>RetVal(I)\<close>, \<open>I\<close> from \<open>NumCellsOnEachSide - 1\<close> down
  to 0, to the indices from \<open>NumCellsOnEachSide\<close> upwards, which appends the first half
  reversed.
\<close>

definition GetCellWidths :: "DistributionStructure \<Rightarrow> real \<Rightarrow> real \<Rightarrow> real list" where
  "GetCellWidths ThisMesh gMin gMax =
     (let size = (if RegionMeshCount ThisMesh > 0 then nat (RegionMeshCount ThisMesh) else 1);
          GridWidth = gMax - gMin
      in if MeshDistribution ThisMesh = MeshDistribution_Uniform then
           allocated size (replicate (nat (RegionMeshCount ThisMesh)) (GridWidth / of_int (RegionMeshCount ThisMesh)))
         else if MeshDistribution ThisMesh = MeshDistribution_SymmetricGeometric then
           (let NumCellsOnEachSide = nat (RegionMeshCount ThisMesh sdiv 2);
                CellWidth = (GridWidth / 2) / SummationTerm (GeometricSeriesCoefficient ThisMesh) NumCellsOnEachSide;
                half = CellWidth # GrowingWidths (GeometricSeriesCoefficient ThisMesh) CellWidth (NumCellsOnEachSide - 1)
            in allocated size (half @ (if NumCellsOnEachSide = 0 then [] else rev half)))
         else allocated size [])"

text \<open>A mesh structure before any input is read; used as the starting state of examples.\<close>

definition UnsetMesh :: MeshProperties where
  "UnsetMesh =
     \<lparr>MeshX = \<lparr>MeshDistribution = MeshDistribution_Unset, RegionMeshCount = 0, GeometricSeriesCoefficient = 0\<rparr>,
      MeshY = \<lparr>MeshDistribution = MeshDistribution_Unset, RegionMeshCount = 0, GeometricSeriesCoefficient = 0\<rparr>,
      MeshZ = \<lparr>MeshDistribution = MeshDistribution_Unset, RegionMeshCount = 0, GeometricSeriesCoefficient = 0\<rparr>\<rparr>"

subsection \<open>Forced partitions of an axis (CreatePartitionRegionList)\<close>

datatype PartitionType =
    PartitionType_BasementWall
  | PartitionType_BasementFloor
  | PartitionType_Pipe
  | PartitionType_XSide
  | PartitionType_XSideWall
  | PartitionType_HorizInsXSide
  | PartitionType_ZSide
  | PartitionType_ZSideWall
  | PartitionType_HorizInsZSide
  | PartitionType_FloorInside
  | PartitionType_UnderFloor
  | PartitionType_VertInsLowerEdge

text \<open>\<open>RegionType_Unset\<close> is the value 0 of a region whose type was never assigned.\<close>

datatype RegionType =
    RegionType_Unset
  | RegionType_Pipe
  | RegionType_BasementWall
  | RegionType_BasementFloor
  | RegionType_XDirection
  | RegionType_YDirection
  | RegionType_ZDirection
  | RegionType_XSide
  | RegionType_XSideWall
  | RegionType_ZSide
  | RegionType_ZSideWall
  | RegionType_FloorInside
  | RegionType_UnderFloor
  | RegionType_HorizInsXSide
  | RegionType_HorizInsZSide
  | RegionType_VertInsLowerEdge

record MeshPartition =
  rDimension :: real
  PartitionType :: PartitionType
  TotalWidth :: real

text \<open>The fields \<^verbatim>\<open>Min\<close> and \<^verbatim>\<open>Max\<close> of the source are \<open>Min_r\<close> and \<open>Max_r\<close> here.\<close>

record GridRegion =
  Min_r :: real
  Max_r :: real
  RegionType :: RegionType
  CellWidths :: "real list"

definition DefaultGridRegion :: GridRegion where
  "DefaultGridRegion = \<lparr>Min_r = 0, Max_r = 0, RegionType = RegionType_Unset, CellWidths = []\<rparr>"

definition IsInRange :: "real \<Rightarrow> real \<Rightarrow> real \<Rightarrow> bool" where
  "IsInRange r lower upper = (r \<ge> lower \<and> r \<le> upper)"

definition IsInRange_BasementModel :: "real \<Rightarrow> real \<Rightarrow> real \<Rightarrow> bool" where
  "IsInRange_BasementModel r lower upper = (r \<ge> lower \<and> r < upper)"

definition CellLeft :: "MeshPartition \<Rightarrow> real" where
  "CellLeft p = rDimension p - TotalWidth p / 2"

definition CellRight :: "MeshPartition \<Rightarrow> real" where
  "CellRight p = rDimension p + TotalWidth p / 2"

text \<open>The mapping of partition types to region types at the end of the loop body.\<close>

fun PartitionRegionType :: "PartitionType \<Rightarrow> RegionType" where
  "PartitionRegionType PartitionType_BasementWall = RegionType_BasementWall"
| "PartitionRegionType PartitionType_BasementFloor = RegionType_BasementFloor"
| "PartitionRegionType PartitionType_Pipe = RegionType_Pipe"
| "PartitionRegionType PartitionType_XSide = RegionType_XSide"
| "PartitionRegionType PartitionType_XSideWall = RegionType_XSideWall"
| "PartitionRegionType PartitionType_HorizInsXSide = RegionType_HorizInsXSide"
| "PartitionRegionType PartitionType_ZSide = RegionType_ZSide"
| "PartitionRegionType PartitionType_ZSideWall = RegionType_ZSideWall"
| "PartitionRegionType PartitionType_HorizInsZSide = RegionType_HorizInsZSide"
| "PartitionRegionType PartitionType_FloorInside = RegionType_FloorInside"
| "PartitionRegionType PartitionType_UnderFloor = RegionType_UnderFloor"
| "PartitionRegionType PartitionType_VertInsLowerEdge = RegionType_VertInsLowerEdge"

definition PartitionRegion :: "MeshPartition \<Rightarrow> GridRegion" where
  "PartitionRegion p =
     \<lparr>Min_r = CellLeft p, Max_r = CellRight p, RegionType = PartitionRegionType (PartitionType p), CellWidths = []\<rparr>"

text \<open>
  The test of the inner loop against one region entered earlier. \<open>Index\<close> is the index
  of the partition being entered; the coupled-basement model has adjacent partitions at
  indices 0 and 1, and for index 1 its left end is tested against a half-open range.
\<close>

definition PartitionConflict :: "bool \<Rightarrow> nat \<Rightarrow> real \<Rightarrow> real \<Rightarrow> GridRegion \<Rightarrow> bool" where
  "PartitionConflict HasCoupledBasement Index cLeft cRight prev =
     (if HasCoupledBasement \<and> Index = 1 then
        IsInRange_BasementModel cLeft (Min_r prev) (Max_r prev) \<or> IsInRange cRight (Min_r prev) (Max_r prev)
      else
        IsInRange cLeft (Min_r prev) (Max_r prev) \<or> IsInRange cRight (Min_r prev) (Max_r prev))"

text \<open>
  The loop over the partitions: \<open>entered\<close> holds the regions of the partitions with
  smaller index, so the index of the next partition is its length.
\<close>

fun CreatePartitionRegionList_loop ::
  "bool \<Rightarrow> real \<Rightarrow> GridRegion list \<Rightarrow> MeshPartition list \<Rightarrow> error + GridRegion list" where
  "CreatePartitionRegionList_loop HasCoupledBasement DirExtentMax entered [] = Inr entered"
| "CreatePartitionRegionList_loop HasCoupledBasement DirExtentMax entered (p # rest) =
     (if CellLeft p < 0 \<or> CellRight p > DirExtentMax then Inl InvalidPartitionLocation
      else if list_ex (PartitionConflict HasCoupledBasement (length entered) (CellLeft p) (CellRight p)) entered
        then Inl PartitionsOverlapping
      else CreatePartitionRegionList_loop HasCoupledBasement DirExtentMax (entered @ [PartitionRegion p]) rest)"

definition CreatePartitionRegionList ::
  "bool \<Rightarrow> MeshPartition list \<Rightarrow> bool \<Rightarrow> real \<Rightarrow> error + GridRegion list" where
  "CreatePartitionRegionList HasCoupledBasement ThesePartitionCenters PartitionsExist DirExtentMax =
     (if \<not> PartitionsExist then Inr (replicate (length ThesePartitionCenters) DefaultGridRegion)
      else CreatePartitionRegionList_loop HasCoupledBasement DirExtentMax [] ThesePartitionCenters)"

subsection \<open>Mesh regions and boundary points of an axis\<close>

definition IsPartitionRegionType :: "RegionType \<Rightarrow> bool" where
  "IsPartitionRegionType t =
     (t \<in> {RegionType_Pipe, RegionType_BasementFloor, RegionType_BasementWall, RegionType_XSide,
            RegionType_XSideWall, RegionType_ZSide, RegionType_ZSideWall, RegionType_HorizInsXSide,
            RegionType_HorizInsZSide, RegionType_FloorInside, RegionType_UnderFloor,
            RegionType_VertInsLowerEdge})"

definition CreateRegionListCount :: "bool \<Rightarrow> GridRegion list \<Rightarrow> real \<Rightarrow> bool \<Rightarrow> int" where
  "CreateRegionListCount AnyBasementsInModel ThesePartitionRegions DirExtentMax PartitionsExist =
     (if PartitionsExist then
        fold (\<lambda>Index RetVal.
                RetVal
                + (if \<not> AnyBasementsInModel \<or> (AnyBasementsInModel \<and> (Index = 0 \<or> Index = 2)) then 1 else 0)
                + 1
                + (if (Index = 0 \<and> length ThesePartitionRegions = 1)
                      \<or> (Index = length ThesePartitionRegions - 1
                          \<and> Max_r (ThesePartitionRegions ! Index) < DirExtentMax)
                   then 1 else 0))
             [0 ..< length ThesePartitionRegions] 0
      else 1)"

text \<open>The mesh structure \<^verbatim>\<open>GetCellWidths\<close> selects by the type of the region.\<close>

definition UnsetDistribution :: DistributionStructure where
  "UnsetDistribution =
     \<lparr>MeshDistribution = MeshDistribution_Unset, RegionMeshCount = 0, GeometricSeriesCoefficient = 0\<rparr>"

definition ThisMesh :: "MeshProperties \<Rightarrow> RegionType \<Rightarrow> DistributionStructure" where
  "ThisMesh mesh t =
     (if t = RegionType_XDirection then MeshX mesh
      else if t = RegionType_YDirection then MeshY mesh
      else if t = RegionType_ZDirection then MeshZ mesh
      else UnsetDistribution)"

definition GetCellWidthsCount :: "MeshProperties \<Rightarrow> RegionType \<Rightarrow> int" where
  "GetCellWidthsCount mesh dir =
     (if dir = RegionType_XDirection then RegionMeshCount (MeshX mesh)
      else if dir = RegionType_YDirection then RegionMeshCount (MeshY mesh)
      else if dir = RegionType_ZDirection then RegionMeshCount (MeshZ mesh)
      else 0)"

text \<open>
  The first loop of \<^verbatim>\<open>CreateRegionList\<close> appends to \<^verbatim>\<open>TempRegions\<close>; the list below is
  the part of that array written so far. The cell counts reported through the optional
  index arguments do not enter the returned list and are left out.
\<close>

definition TempGridRegionData :: "real \<Rightarrow> real \<Rightarrow> RegionType \<Rightarrow> GridRegion" where
  "TempGridRegionData a b t = \<lparr>Min_r = a, Max_r = b, RegionType = t, CellWidths = []\<rparr>"

definition CreateRegionList_step ::
  "bool \<Rightarrow> GridRegion list \<Rightarrow> real \<Rightarrow> RegionType \<Rightarrow> nat \<Rightarrow> GridRegion list \<Rightarrow> GridRegion list" where
  "CreateRegionList_step HasCoupledBasement ThesePartitionRegions DirExtentMax DirDirection Index TempRegions =
     (let ThisRegion = ThesePartitionRegions ! Index;
          LeftRegionExtent = (if Index = 0 then 0 else Max_r (ThesePartitionRegions ! (Index - 1)));
          t1 = (if \<not> HasCoupledBasement \<or> (HasCoupledBasement \<and> (Index = 0 \<or> Index = 2))
                then TempRegions @ [TempGridRegionData LeftRegionExtent (Min_r ThisRegion) DirDirection]
                else TempRegions);
          t2 = t1 @ [TempGridRegionData (Min_r ThisRegion) (Max_r ThisRegion) (RegionType ThisRegion)]
      in if (Index = 0 \<and> length ThesePartitionRegions = 1)
            \<or> (Index = length ThesePartitionRegions - 1 \<and> Max_r ThisRegion < DirExtentMax)
         then t2 @ [TempGridRegionData (Max_r ThisRegion) DirExtentMax DirDirection]
         else t2)"

text \<open>
  The second loop copies each temporary region and fills its cell widths: the array
  \<^verbatim>\<open>CellWidths\<close> is allocated with the mesh count of the axis and receives the leading
  elements of the array \<^verbatim>\<open>GetCellWidths\<close> computes for the region's own type.
\<close>

definition Repackage :: "MeshProperties \<Rightarrow> RegionType \<Rightarrow> GridRegion \<Rightarrow> GridRegion" where
  "Repackage mesh DirDirection t =
     t\<lparr>CellWidths := allocated (nat (GetCellWidthsCount mesh DirDirection))
                        (GetCellWidths (ThisMesh mesh (RegionType t)) (Min_r t) (Max_r t))\<rparr>"

definition CreateRegionList ::
  "bool \<Rightarrow> MeshProperties \<Rightarrow> GridRegion list \<Rightarrow> real \<Rightarrow> RegionType \<Rightarrow> int \<Rightarrow> bool
     \<Rightarrow> error + GridRegion list" where
  "CreateRegionList HasCoupledBasement mesh ThesePartitionRegions DirExtentMax DirDirection RetValUBound PartitionsExist =
     (let TempRegions =
            (if PartitionsExist then
               fold (CreateRegionList_step HasCoupledBasement ThesePartitionRegions DirExtentMax DirDirection)
                    [0 ..< length ThesePartitionRegions] []
             else [TempGridRegionData 0 DirExtentMax DirDirection])
      in if int (length TempRegions) > RetValUBound + 1 then Inl ArrayIndexOutOfBounds
         else Inr (map (Repackage mesh DirDirection)
                     (TempRegions @ replicate (nat (RetValUBound + 1) - length TempRegions) DefaultGridRegion)))"

definition CreateBoundaryListCount :: "GridRegion list \<Rightarrow> RegionType \<Rightarrow> int" where
  "CreateBoundaryListCount RegionList DirDirection =
     fold (\<lambda>r RetVal.
             if IsPartitionRegionType (RegionType r) then RetVal + 1
             else if RegionType r = DirDirection then RetVal + int (length (CellWidths r))
             else RetVal)
          RegionList 0
     + 1"

text \<open>
  The points one region contributes: its lower bound for a partition region, the running
  \<^verbatim>\<open>StartingPointCounter\<close> before each cell width for a mesh region of this axis.
\<close>

fun StartingPoints :: "real \<Rightarrow> real list \<Rightarrow> real list" where
  "StartingPoints StartingPointCounter [] = []"
| "StartingPoints StartingPointCounter (w # ws) =
     StartingPointCounter # StartingPoints (StartingPointCounter + w) ws"

definition RegionPoints :: "RegionType \<Rightarrow> GridRegion \<Rightarrow> real list" where
  "RegionPoints DirDirection r =
     (if IsPartitionRegionType (RegionType r) then [Min_r r]
      else if RegionType r = DirDirection then StartingPoints (Min_r r) (CellWidths r)
      else [])"

definition CreateBoundaryList ::
  "GridRegion list \<Rightarrow> real \<Rightarrow> RegionType \<Rightarrow> int \<Rightarrow> error + real list" where
  "CreateBoundaryList RegionList DirExtentMax DirDirection RetValUBound =
     (let points = concat (map (RegionPoints DirDirection) RegionList)
      in if RetValUBound < 0 \<or> int (length points) > RetValUBound + 1 then Inl ArrayIndexOutOfBounds
         else Inr ((allocated (nat (RetValUBound + 1)) points)[nat RetValUBound := DirExtentMax]))"

text \<open>
  The part of \<^verbatim>\<open>DevelopMesh\<close> that turns the (sorted) partitions of one axis into its
  boundary points. An empty list of partitions stands for an unallocated array, which
  \<^verbatim>\<open>DevelopMesh\<close> replaces by one default element.
\<close>

definition DefaultMeshPartition :: MeshPartition where
  "DefaultMeshPartition = \<lparr>rDimension = 0, PartitionType = PartitionType_BasementWall, TotalWidth = 0\<rparr>"

definition DevelopMesh_BoundaryPoints ::
  "bool \<Rightarrow> bool \<Rightarrow> MeshProperties \<Rightarrow> RegionType \<Rightarrow> MeshPartition list \<Rightarrow> real \<Rightarrow> error + real list" where
  "DevelopMesh_BoundaryPoints HasCoupledBasement AnyBasementsInModel mesh DirDirection Partitions DirExtentMax =
     (let PartitionsExist = (Partitions \<noteq> []);
          centers = (if PartitionsExist then Partitions else [DefaultMeshPartition])
      in case CreatePartitionRegionList HasCoupledBasement centers PartitionsExist DirExtentMax of
           Inl e \<Rightarrow> Inl e
         | Inr PartitionRegions \<Rightarrow>
             (let RegionListCount = CreateRegionListCount AnyBasementsInModel PartitionRegions DirExtentMax PartitionsExist
              in case CreateRegionList HasCoupledBasement mesh PartitionRegions DirExtentMax DirDirection
                        (RegionListCount - 1) PartitionsExist of
                   Inl e \<Rightarrow> Inl e
                 | Inr Regions \<Rightarrow>
                     CreateBoundaryList Regions DirExtentMax DirDirection
                       (CreateBoundaryListCount Regions DirDirection - 1)))"

text \<open>The number of cells along the axis: one per partition region, the cell widths of a mesh region.\<close>

definition RegionCellCount :: "RegionType \<Rightarrow> GridRegion \<Rightarrow> nat" where
  "RegionCellCount DirDirection r =
     (if IsPartitionRegionType (RegionType r) then 1
      else if RegionType r = DirDirection then length (CellWidths r)
      else 0)"

text \<open>
  What the loop decides: it succeeds exactly when every partition lies within the axis
  and no partition has an end point that the test finds in the range of an earlier one;
  the regions it then returns are those of the partitions, in order.
\<close>

definition PartitionAccepted :: "bool \<Rightarrow> real \<Rightarrow> MeshPartition list \<Rightarrow> nat \<Rightarrow> bool" where
  "PartitionAccepted hcb dmax ps j =
     (\<not> (CellLeft (ps ! j) < 0 \<or> CellRight (ps ! j) > dmax)
      \<and> (\<forall>i<j. \<not> PartitionConflict hcb j (CellLeft (ps ! j)) (CellRight (ps ! j)) (PartitionRegion (ps ! i))))"

text \<open>Partitions used in examples: a pipe partition, and the two adjacent X partitions of a
  coupled basement with perimeter offset 2 and vertical insulation thickness 0.1
  (interface cell width 0.008).\<close>

definition PipeAt :: "real \<Rightarrow> real \<Rightarrow> MeshPartition" where
  "PipeAt x w = \<lparr>rDimension = x, PartitionType = PartitionType_Pipe, TotalWidth = w\<rparr>"

definition BasementXSide :: MeshPartition where
  "BasementXSide = \<lparr>rDimension = 2 - 8 / 1000 - (1 / 10) / 2, PartitionType = PartitionType_XSide, TotalWidth = 1 / 10\<rparr>"

definition BasementXSideWall :: MeshPartition where
  "BasementXSideWall = \<lparr>rDimension = 2 - (8 / 1000) / 2, PartitionType = PartitionType_XSideWall, TotalWidth = 8 / 1000\<rparr>"

subsection \<open>Cells, domains and circuits\<close>

text \<open>
  The records hold the fields the embedded functions read or write. A three-dimensional
  array with lower bounds 0 is its three upper bounds and the element at each index
  triple; the thermal properties a fluid property set inherits through \<^verbatim>\<open>MyBase\<close> are
  the fields of the record it extends; of each radial sub-cell of a pipe cell only its
  \<^verbatim>\<open>MyBase\<close> part is kept.
\<close>

datatype Direction =
    Direction_PositiveY
  | Direction_NegativeY
  | Direction_PositiveX
  | Direction_NegativeX
  | Direction_PositiveZ
  | Direction_NegativeZ

datatype CellType =
    CellType_Unknown
  | CellType_Pipe
  | CellType_GeneralField
  | CellType_GroundSurface
  | CellType_FarfieldBoundary
  | CellType_AdiabaticWall
  | CellType_BasementWall
  | CellType_BasementFloor
  | CellType_BasementCorner
  | CellType_BasementCutaway
  | CellType_Slab
  | CellType_HorizInsulation
  | CellType_VertInsulation
  | CellType_ZoneGroundInterface

record BaseThermalPropertySet =
  Conductivity :: real
  Density :: real
  SpecificHeat :: real

record ExtendedFluidProperties = BaseThermalPropertySet +
  Viscosity :: real
  Prandtl :: real

record BaseCell =
  Beta :: real
  Properties :: BaseThermalPropertySet
  Temperature :: real
  Temperature_PrevIteration :: real
  Temperature_PrevTimeStep :: real

record NeighborInformation =
  ThisCentroidToNeighborCentroid :: real
  ThisCentroidToNeighborWall :: real
  ThisWallToNeighborCentroid :: real
  ConductionResistance :: real

record CartesianPipeCellInformation =
  Soil :: "BaseCell list"
  Insulation :: BaseCell
  Pipe :: BaseCell
  Fluid :: BaseCell

record Point3DReal =
  PointX :: real
  PointY :: real
  PointZ :: real

record Point3DInteger =
  IndexX :: int
  IndexY :: int
  IndexZ :: int

record CartesianCell =
  X_index :: int
  Y_index :: int
  Z_index :: int
  X_min :: real
  X_max :: real
  Y_min :: real
  Y_max :: real
  Z_min :: real
  Z_max :: real
  Centroid :: Point3DReal
  CellType :: CellType
  MyBase :: BaseCell
  NeighborInfo :: "(Direction \<times> NeighborInformation) list"
  PipeCellData :: CartesianPipeCellInformation

record FArray3D_Cells =
  u1 :: int
  u2 :: int
  u3 :: int
  Cell :: "int \<times> int \<times> int \<Rightarrow> CartesianCell"

record MeshExtents =
  Xmax :: real
  Ymax :: real
  Zmax :: real

record FarfieldInfo =
  AverageGroundTemperature :: real
  AverageGroundTemperatureAmplitude :: real
  PhaseShiftOfMinGroundTemp :: real

record SimulationControl =
  MinimumTemperatureLimit :: real
  MaximumTemperatureLimit :: real
  Convergence_CurrentToPrevIteration :: real
  MaxIterationsPerTS :: int

record CurSimConditionsInfo =
  CurSimTimeSeconds :: real

record FullDomainStructureInfo =
  Extents :: MeshExtents
  Mesh :: MeshProperties
  GroundProperties :: BaseThermalPropertySet
  Farfield :: FarfieldInfo
  SimControls :: SimulationControl
  Cur :: CurSimConditionsInfo
  HasAPipeCircuit :: bool
  DomainNeedsSimulation :: bool
  HasBasement :: bool
  HasCoupledBasement :: bool
  IsZoneCoupledSlab :: bool
  Cells :: FArray3D_Cells

record RadialSizing =
  InnerDia :: real
  OuterDia :: real

record PipeCircuitInfo =
  PipeSize :: RadialSizing
  CurFluidPropertySet :: ExtendedFluidProperties
  CurCircuitFlowRate :: real
  CurCircuitConvectionCoefficient :: real
  CircuitInletCell :: Point3DInteger
  ParentDomainIndex :: int

text \<open>
  The index triples of a cell array in the order of the loops over it (Z outermost,
  X innermost).
\<close>

definition CellIndices :: "FArray3D_Cells \<Rightarrow> (int \<times> int \<times> int) list" where
  "CellIndices cells = concat (map (\<lambda>Z. concat (map (\<lambda>Y. map (\<lambda>X. (X, Y, Z)) [0..u1 cells]) [0..u2 cells])) [0..u3 cells])"

definition CellList :: "FArray3D_Cells \<Rightarrow> CartesianCell list" where
  "CellList cells = map (Cell cells) (CellIndices cells)"

text \<open>Element \<open>i\<close> of a one-dimensional array with lower bound 1; none outside the bounds.\<close>

definition FArray1D_at :: "'a list \<Rightarrow> int \<Rightarrow> 'a option" where
  "FArray1D_at xs i = (if 1 \<le> i \<and> i \<le> int (length xs) then Some (xs ! nat (i - 1)) else None)"

definition InBounds :: "FArray3D_Cells \<Rightarrow> int \<times> int \<times> int \<Rightarrow> bool" where
  "InBounds cells idx =
     (case idx of (X, Y, Z) \<Rightarrow> 0 \<le> X \<and> X \<le> u1 cells \<and> 0 \<le> Y \<and> Y \<le> u2 cells \<and> 0 \<le> Z \<and> Z \<le> u3 cells)"

subsection \<open>Far-field temperature (GetFarfieldTemp)\<close>

text \<open>
  Modelled from the spec: \<^verbatim>\<open>DataGlobals::SecsInDay\<close> is declared outside the given
  sources; the spec counts a year of 365 days as 365 * 86400 seconds.
\<close>

definition SecsInDay :: real where
  "SecsInDay = 86400"

definition BaseThermalPropertySet_Diffusivity :: "'a BaseThermalPropertySet_scheme \<Rightarrow> real" where
  "BaseThermalPropertySet_Diffusivity p = Conductivity p / (Density p * SpecificHeat p)"

definition GetFarfieldTemp :: "FullDomainStructureInfo \<Rightarrow> CartesianCell \<Rightarrow> real" where
  "GetFarfieldTemp d cell =
     (let KATemp = AverageGroundTemperature (Farfield d);
          KAAmp = AverageGroundTemperatureAmplitude (Farfield d);
          KAPhase = PhaseShiftOfMinGroundTemp (Farfield d);
          CurTime = CurSimTimeSeconds (Cur d);
          SecondsInYear = SecsInDay * 365;
          z = Ymax (Extents d) - PointY (Centroid cell);
          Diffusivity = BaseThermalPropertySet_Diffusivity (GroundProperties d);
          Term1 = - z * sqrt (pi / (SecondsInYear * Diffusivity));
          Term2 = (2 * pi / SecondsInYear) * (CurTime - KAPhase - (z / 2) * sqrt (SecondsInYear / (pi * Diffusivity)))
      in KATemp - KAAmp * exp Term1 * cos Term2)"

text \<open>
  The closed form as the specification writes it, with the depth-dependent lag
  subtracted from the angle outside the factor \<open>2 pi / year\<close>.
\<close>

definition KusudaAchenbach_spec :: "real \<Rightarrow> real \<Rightarrow> real \<Rightarrow> real \<Rightarrow> real \<Rightarrow> real \<Rightarrow> real" where
  "KusudaAchenbach_spec T_avg T_amp phaseShift \<alpha> z t =
     T_avg - T_amp * exp (- z * sqrt (pi / (365 * 86400 * \<alpha>)))
               * cos (2 * pi / (365 * 86400) * (t - phaseShift) - (z / 2) * sqrt (365 * 86400 / (pi * \<alpha>)))"

text \<open>
  An example domain for the far-field temperature: ground diffusivity 31536000 m2/s
  (conductivity 31536000, density 1, specific heat 1), average 10, amplitude 5, no phase
  shift, time 0, height 2; the centroid of the example cell lies at the bottom, so its
  depth is 2.
\<close>

definition GetFarfieldTemp_spec :: "FullDomainStructureInfo \<Rightarrow> CartesianCell \<Rightarrow> real" where
  "GetFarfieldTemp_spec d cell =
     KusudaAchenbach_spec (AverageGroundTemperature (Farfield d)) (AverageGroundTemperatureAmplitude (Farfield d))
       (PhaseShiftOfMinGroundTemp (Farfield d))
       (Conductivity (GroundProperties d) / (Density (GroundProperties d) * SpecificHeat (GroundProperties d)))
       (Ymax (Extents d) - PointY (Centroid cell)) (CurSimTimeSeconds (Cur d))"

text \<open>Cells with every field zero, from which the example cells are made.\<close>

definition ZeroBaseCell :: BaseCell where
  "ZeroBaseCell =
     \<lparr>Beta = 0, Properties = \<lparr>Conductivity = 0, Density = 0, SpecificHeat = 0\<rparr>,
      Temperature = 0, Temperature_PrevIteration = 0, Temperature_PrevTimeStep = 0\<rparr>"

definition ZeroCell :: CartesianCell where
  "ZeroCell =
     \<lparr>X_index = 0, Y_index = 0, Z_index = 0,
      X_min = 0, X_max = 0, Y_min = 0, Y_max = 0, Z_min = 0, Z_max = 0,
      Centroid = \<lparr>PointX = 0, PointY = 0, PointZ = 0\<rparr>,
      CellType = CellType_Unknown, MyBase = ZeroBaseCell, NeighborInfo = [],
      PipeCellData = \<lparr>Soil = [], Insulation = ZeroBaseCell, Pipe = ZeroBaseCell, Fluid = ZeroBaseCell\<rparr>\<rparr>"

definition FarfieldExampleDomain :: FullDomainStructureInfo where
  "FarfieldExampleDomain =
     \<lparr>Extents = \<lparr>Xmax = 2, Ymax = 2, Zmax = 2\<rparr>,
      Mesh = UnsetMesh,
      GroundProperties = \<lparr>Conductivity = 31536000, Density = 1, SpecificHeat = 1\<rparr>,
      Farfield = \<lparr>AverageGroundTemperature = 10, AverageGroundTemperatureAmplitude = 5, PhaseShiftOfMinGroundTemp = 0\<rparr>,
      SimControls = \<lparr>MinimumTemperatureLimit = - 1000, MaximumTemperatureLimit = 1000,
                     Convergence_CurrentToPrevIteration = 1 / 1000, MaxIterationsPerTS = 10\<rparr>,
      Cur = \<lparr>CurSimTimeSeconds = 0\<rparr>,
      HasAPipeCircuit = False, DomainNeedsSimulation = True, HasBasement = False,
      HasCoupledBasement = False, IsZoneCoupledSlab = False,
      Cells = \<lparr>u1 = 0, u2 = 0, u3 = 0, Cell = (\<lambda>idx. ZeroCell)\<rparr>\<rparr>"

definition FarfieldExampleCell :: CartesianCell where
  "FarfieldExampleCell = ZeroCell\<lparr>Centroid := \<lparr>PointX = 1, PointY = 0, PointZ = 1\<rparr>\<rparr>"

subsection \<open>Convection coefficient of a circuit (PreparePipeCircuitSimulation)\<close>

definition pow_2 :: "real \<Rightarrow> real" where
  "pow_2 x = x * x"

definition StagnantFluidConvCoeff :: real where
  "StagnantFluidConvCoeff = 200"

text \<open>
  \<open>PipingSystemDomains\<close> and \<open>PipingSystemCircuits\<close> are the two global arrays, indexed
  from 1; the result is the array of circuits after the assignment to
  \<^verbatim>\<open>CurCircuitConvectionCoefficient\<close>. The Reynolds number is positive where
  \<^verbatim>\<open>std::pow\<close> is applied to it, and there \<^verbatim>\<open>std::pow\<close> is \<open>powr\<close>. The primed
  names are the locals of the source that have the name of a field.
\<close>

definition PreparePipeCircuitSimulation ::
  "FullDomainStructureInfo list \<Rightarrow> PipeCircuitInfo list \<Rightarrow> int \<Rightarrow> int \<Rightarrow> error + PipeCircuitInfo list" where
  "PreparePipeCircuitSimulation PipingSystemDomains PipingSystemCircuits DomainNum CircuitNum =
     (case FArray1D_at PipingSystemCircuits CircuitNum of
        None \<Rightarrow> Inl ArrayIndexOutOfBounds
      | Some circuit \<Rightarrow>
          let CellX = IndexX (CircuitInletCell circuit);
              CellY = IndexY (CircuitInletCell circuit);
              CellZ = IndexZ (CircuitInletCell circuit);
              Density' = Density (CurFluidPropertySet circuit);
              Viscosity' = Viscosity (CurFluidPropertySet circuit);
              Conductivity' = Conductivity (CurFluidPropertySet circuit);
              Prandtl' = Prandtl (CurFluidPropertySet circuit);
              Area_c = (pi / 4) * pow_2 (InnerDia (PipeSize circuit));
              Velocity = CurCircuitFlowRate circuit / (Density' * Area_c);
              assign = (\<lambda>ConvCoefficient.
                          PipingSystemCircuits[nat (CircuitNum - 1) :=
                            circuit\<lparr>CurCircuitConvectionCoefficient := ConvCoefficient\<rparr>])
          in if Velocity > 0 then
               (case FArray1D_at PipingSystemDomains DomainNum of
                  None \<Rightarrow> Inl ArrayIndexOutOfBounds
                | Some domain \<Rightarrow>
                    if \<not> InBounds (Cells domain) (CellX, CellY, CellZ) then Inl ArrayIndexOutOfBounds
                    else
                      let Reynolds = Density' * InnerDia (PipeSize circuit) * Velocity / Viscosity';
                          cell = Cell (Cells domain) (CellX, CellY, CellZ);
                          ExponentTerm = (if Temperature (Fluid (PipeCellData cell)) > Temperature (Pipe (PipeCellData cell))
                                          then 3 / 10 else 4 / 10);
                          Nusselt = (23 / 1000) * Reynolds powr (4 / 5) * Prandtl' powr ExponentTerm
                      in case FArray1D_at PipingSystemCircuits DomainNum of
                           None \<Rightarrow> Inl ArrayIndexOutOfBounds
                         | Some other \<Rightarrow> Inr (assign (Nusselt * Conductivity' / InnerDia (PipeSize other))))
             else Inr (assign StagnantFluidConvCoeff))"

text \<open>
  The coefficient as the specification words it, for a circuit and the fluid and
  pipe-wall temperatures of its inlet cell: Dittus-Boelter with the circuit's own inner
  diameter when the bulk velocity is positive, the stagnant value otherwise.
\<close>

definition ConvectionCoefficient_spec :: "PipeCircuitInfo \<Rightarrow> real \<Rightarrow> real \<Rightarrow> real" where
  "ConvectionCoefficient_spec circuit T_fluid T_wall =
     (let A_crossSection = (pi / 4) * (InnerDia (PipeSize circuit))\<^sup>2;
          velocity = CurCircuitFlowRate circuit / (Density (CurFluidPropertySet circuit) * A_crossSection);
          Re = Density (CurFluidPropertySet circuit) * InnerDia (PipeSize circuit) * velocity
                 / Viscosity (CurFluidPropertySet circuit);
          n = (if T_fluid > T_wall then 3 / 10 else 4 / 10);
          Nu = (23 / 1000) * Re powr (8 / 10) * Prandtl (CurFluidPropertySet circuit) powr n
      in if velocity > 0 then Nu * Conductivity (CurFluidPropertySet circuit) / InnerDia (PipeSize circuit)
         else 200)"

text \<open>
  An example: one domain with two circuits carrying the same water flow (0.1 kg/s,
  density 1000, viscosity 0.001, conductivity 0.6, Prandtl number 7) through pipes of
  inner diameter 0.02 and 0.04; in the inlet cell (0, 0, 0) the fluid is at 20 and the
  pipe wall at 15.
\<close>

definition ExampleWater :: ExtendedFluidProperties where
  "ExampleWater = \<lparr>Conductivity = 6 / 10, Density = 1000, SpecificHeat = 4180, Viscosity = 1 / 1000, Prandtl = 7\<rparr>"

definition ExampleCircuit :: "real \<Rightarrow> PipeCircuitInfo" where
  "ExampleCircuit dia =
     \<lparr>PipeSize = \<lparr>InnerDia = dia, OuterDia = dia + 1 / 100\<rparr>,
      CurFluidPropertySet = ExampleWater,
      CurCircuitFlowRate = 1 / 10,
      CurCircuitConvectionCoefficient = 0,
      CircuitInletCell = \<lparr>IndexX = 0, IndexY = 0, IndexZ = 0\<rparr>,
      ParentDomainIndex = 1\<rparr>"

definition ExamplePipeCell :: CartesianCell where
  "ExamplePipeCell =
     ZeroCell\<lparr>CellType := CellType_Pipe,
              PipeCellData := \<lparr>Soil = [], Insulation = ZeroBaseCell,
                               Pipe = ZeroBaseCell\<lparr>Temperature := 15\<rparr>,
                               Fluid = ZeroBaseCell\<lparr>Temperature := 20\<rparr>\<rparr>\<rparr>"

definition TwoCircuitDomain :: FullDomainStructureInfo where
  "TwoCircuitDomain =
     FarfieldExampleDomain\<lparr>HasAPipeCircuit := True,
                            Cells := \<lparr>u1 = 0, u2 = 0, u3 = 0, Cell = (\<lambda>idx. ExamplePipeCell)\<rparr>\<rparr>"

subsection \<open>Temperature of an adiabatic-wall cell (EvaluateAdiabaticSurfaceTemperature)\<close>

definition Width :: "CartesianCell \<Rightarrow> real" where
  "Width c = X_max c - X_min c"

definition Height :: "CartesianCell \<Rightarrow> real" where
  "Height c = Y_max c - Y_min c"

definition Depth :: "CartesianCell \<Rightarrow> real" where
  "Depth c = Z_max c - Z_min c"

definition XNormalArea :: "CartesianCell \<Rightarrow> real" where
  "XNormalArea c = Depth c * Height c"

definition YNormalArea :: "CartesianCell \<Rightarrow> real" where
  "YNormalArea c = Depth c * Width c"

definition ZNormalArea :: "CartesianCell \<Rightarrow> real" where
  "ZNormalArea c = Width c * Height c"

definition NormalArea :: "CartesianCell \<Rightarrow> Direction \<Rightarrow> real" where
  "NormalArea c dir =
     (if dir = Direction_PositiveY \<or> dir = Direction_NegativeY then YNormalArea c
      else if dir = Direction_PositiveX \<or> dir = Direction_NegativeX then XNormalArea c
      else ZNormalArea c)"

text \<open>The value found for a direction in a cell's neighbor dictionary; a default-constructed
  record (modelled with every field 0) if the direction is absent.\<close>

definition NeighborInformationArray_Value ::
  "(Direction \<times> NeighborInformation) list \<Rightarrow> Direction \<Rightarrow> NeighborInformation" where
  "NeighborInformationArray_Value dict dir =
     (case find (\<lambda>entry. fst entry = dir) dict of
        Some entry \<Rightarrow> snd entry
      | None \<Rightarrow> \<lparr>ThisCentroidToNeighborCentroid = 0, ThisCentroidToNeighborWall = 0,
                  ThisWallToNeighborCentroid = 0, ConductionResistance = 0\<rparr>)"

text \<open>
  The two module-level arrays \<^verbatim>\<open>NeighborFieldCells\<close> and \<^verbatim>\<open>NeighborBoundaryCells\<close> that
  \<^verbatim>\<open>EvaluateCellNeighborDirections\<close> fills for a cell, as a pair of lists.
\<close>

definition EvaluateCellNeighborDirections ::
  "FullDomainStructureInfo \<Rightarrow> CartesianCell \<Rightarrow> Direction list \<times> Direction list" where
  "EvaluateCellNeighborDirections d cell =
     (let place = (\<lambda>isField dir. if isField then ([dir], []) else ([], [dir]));
          parts = [place (X_index cell < u1 (Cells d)) Direction_PositiveX,
                   place (X_index cell > 0) Direction_NegativeX,
                   place (Y_index cell < u2 (Cells d)) Direction_PositiveY,
                   place (Y_index cell > 0) Direction_NegativeY,
                   place (Z_index cell < u3 (Cells d)) Direction_PositiveZ,
                   place (Z_index cell > 0) Direction_NegativeZ]
      in (concat (map fst parts), concat (map snd parts)))"

fun NeighborIndex :: "CartesianCell \<Rightarrow> Direction \<Rightarrow> int \<times> int \<times> int" where
  "NeighborIndex c Direction_PositiveY = (X_index c, Y_index c + 1, Z_index c)"
| "NeighborIndex c Direction_NegativeY = (X_index c, Y_index c - 1, Z_index c)"
| "NeighborIndex c Direction_PositiveX = (X_index c + 1, Y_index c, Z_index c)"
| "NeighborIndex c Direction_NegativeX = (X_index c - 1, Y_index c, Z_index c)"
| "NeighborIndex c Direction_PositiveZ = (X_index c, Y_index c, Z_index c + 1)"
| "NeighborIndex c Direction_NegativeZ = (X_index c, Y_index c, Z_index c - 1)"

text \<open>The pair returned is (\<^verbatim>\<open>NeighborTemp\<close>, \<^verbatim>\<open>Resistance\<close>).\<close>

definition EvaluateNeighborCharacteristics ::
  "FullDomainStructureInfo \<Rightarrow> CartesianCell \<Rightarrow> Direction \<Rightarrow> real \<times> real" where
  "EvaluateNeighborCharacteristics d ThisCell CurDirection =
     (let Neighbor = Cell (Cells d) (NeighborIndex ThisCell CurDirection);
          ThisCellConductivity = (if Conductivity (Properties (MyBase ThisCell)) > 0
                                  then Conductivity (Properties (MyBase ThisCell)) else 10000);
          NeighborConductivity = (if Conductivity (Properties (MyBase Neighbor)) > 0
                                  then Conductivity (Properties (MyBase Neighbor)) else 10000);
          ThisNormalArea = NormalArea ThisCell CurDirection;
          TempNeighborInfo = NeighborInformationArray_Value (NeighborInfo ThisCell) CurDirection;
          lengths =
            (if CellType ThisCell = CellType_Pipe then
               (if CurDirection = Direction_NegativeZ \<or> CurDirection = Direction_PositiveZ
                then (ThisCentroidToNeighborWall TempNeighborInfo, ThisWallToNeighborCentroid TempNeighborInfo)
                else (0, ThisWallToNeighborCentroid TempNeighborInfo))
             else if CellType Neighbor = CellType_Pipe then (ThisCentroidToNeighborWall TempNeighborInfo, 0)
             else (ThisCentroidToNeighborWall TempNeighborInfo, ThisWallToNeighborCentroid TempNeighborInfo));
          ThisCellLength = fst lengths;
          NeighborCellLength = snd lengths;
          Resistance = ThisCellLength / (ThisNormalArea * ThisCellConductivity)
                         + NeighborCellLength / (ThisNormalArea * NeighborConductivity)
      in (Temperature (MyBase Neighbor), Resistance))"

definition AdiabaticMultiplier :: "FullDomainStructureInfo \<Rightarrow> CartesianCell \<Rightarrow> Direction \<Rightarrow> real" where
  "AdiabaticMultiplier d cell CurDirection =
     (if CurDirection = Direction_PositiveZ then (if Z_index cell = 0 then 2 else 1)
      else if CurDirection = Direction_NegativeZ then (if Z_index cell = u3 (Cells d) then 2 else 1)
      else if CurDirection = Direction_PositiveX then (if X_index cell = 0 then 2 else 1)
      else if CurDirection = Direction_NegativeY then (if Y_index cell = u2 (Cells d) then 2 else 1)
      else 1)"

text \<open>
  The loop over \<^verbatim>\<open>NeighborFieldCells\<close> carries the pair (\<^verbatim>\<open>Numerator\<close>,
  \<^verbatim>\<open>Denominator\<close>), which starts from the history term.
\<close>

definition EvaluateAdiabaticSurfaceTemperature :: "FullDomainStructureInfo \<Rightarrow> CartesianCell \<Rightarrow> real" where
  "EvaluateAdiabaticSurfaceTemperature d cell =
     (let Beta' = Beta (MyBase cell);
          step = (\<lambda>CurDirection (Numerator, Denominator).
                    let multiplier = AdiabaticMultiplier d cell CurDirection;
                        nc = EvaluateNeighborCharacteristics d cell CurDirection;
                        NeighborTemp = fst nc;
                        Resistance = snd nc
                    in (multiplier * Numerator + (Beta' / Resistance) * NeighborTemp,
                        multiplier * Denominator + (Beta' / Resistance)));
          totals = fold step (fst (EvaluateCellNeighborDirections d cell))
                   (Temperature_PrevTimeStep (MyBase cell), 1)
      in fst totals / snd totals)"

text \<open>
  The update as the specification words it: the multiplier of a direction scales that
  direction's contribution to the numerator and to the denominator, and nothing else.
\<close>

definition AdiabaticSurfaceTemperature_spec :: "FullDomainStructureInfo \<Rightarrow> CartesianCell \<Rightarrow> real" where
  "AdiabaticSurfaceTemperature_spec d cell =
     (let dirs = fst (EvaluateCellNeighborDirections d cell);
          coefficient = (\<lambda>dir. AdiabaticMultiplier d cell dir
                                 * (Beta (MyBase cell) / snd (EvaluateNeighborCharacteristics d cell dir)))
      in (Temperature_PrevTimeStep (MyBase cell)
            + (\<Sum>dir\<leftarrow>dirs. coefficient dir * fst (EvaluateNeighborCharacteristics d cell dir)))
         / (1 + (\<Sum>dir\<leftarrow>dirs. coefficient dir)))"

text \<open>
  An example: a column of two unit cubes along Z with conductivity 1. The cell at Z index
  0 is an adiabatic-wall cell with Beta 1 and previous-time-step temperature 10; its
  only field neighbor, in the +Z direction, is at temperature 20, half a cell away from
  the shared wall on either side.
\<close>

definition UnitCube :: "int \<Rightarrow> CartesianCell" where
  "UnitCube k =
     ZeroCell\<lparr>X_index := 0, Y_index := 0, Z_index := k,
              X_min := 0, X_max := 1, Y_min := 0, Y_max := 1, Z_min := of_int k, Z_max := of_int k + 1,
              Centroid := \<lparr>PointX = 1 / 2, PointY = 1 / 2, PointZ = of_int k + 1 / 2\<rparr>,
              MyBase := ZeroBaseCell\<lparr>Beta := 1, Properties := \<lparr>Conductivity = 1, Density = 1, SpecificHeat = 1\<rparr>\<rparr>\<rparr>"

definition AdiabaticExampleCell :: CartesianCell where
  "AdiabaticExampleCell =
     (UnitCube 0)\<lparr>CellType := CellType_AdiabaticWall,
                  MyBase := (MyBase (UnitCube 0))\<lparr>Temperature := 10, Temperature_PrevIteration := 10,
                                                  Temperature_PrevTimeStep := 10\<rparr>,
                  NeighborInfo := [(Direction_PositiveZ,
                                    \<lparr>ThisCentroidToNeighborCentroid = 1, ThisCentroidToNeighborWall = 1 / 2,
                                     ThisWallToNeighborCentroid = 1 / 2, ConductionResistance = 1\<rparr>)]\<rparr>"

definition AdiabaticExampleNeighbor :: CartesianCell where
  "AdiabaticExampleNeighbor =
     (UnitCube 1)\<lparr>CellType := CellType_AdiabaticWall,
                  MyBase := (MyBase (UnitCube 1))\<lparr>Temperature := 20, Temperature_PrevIteration := 20,
                                                  Temperature_PrevTimeStep := 20\<rparr>\<rparr>"

definition AdiabaticExampleDomain :: FullDomainStructureInfo where
  "AdiabaticExampleDomain =
     FarfieldExampleDomain\<lparr>Cells := \<lparr>u1 = 0, u2 = 0, u3 = 1,
                                       Cell = (\<lambda>idx. if idx = (0, 0, 1) then AdiabaticExampleNeighbor
                                                     else AdiabaticExampleCell)\<rparr>\<rparr>"

subsection \<open>The iteration loop of a time step (PerformIterationLoop)\<close>

definition ShiftBase :: "BaseCell \<Rightarrow> BaseCell" where
  "ShiftBase b = b\<lparr>Temperature_PrevIteration := Temperature b\<rparr>"

definition ShiftCell :: "CartesianCell \<Rightarrow> CartesianCell" where
  "ShiftCell c =
     (let c1 = c\<lparr>MyBase := ShiftBase (MyBase c)\<rparr>
      in if CellType c = CellType_Pipe then
           c1\<lparr>PipeCellData :=
                \<lparr>Soil = map ShiftBase (Soil (PipeCellData c)),
                 Insulation = ShiftBase (Insulation (PipeCellData c)),
                 Pipe = ShiftBase (Pipe (PipeCellData c)),
                 Fluid = ShiftBase (Fluid (PipeCellData c))\<rparr>\<rparr>
         else c1)"

definition SetCells :: "FullDomainStructureInfo \<Rightarrow> (int \<times> int \<times> int \<Rightarrow> CartesianCell) \<Rightarrow> FullDomainStructureInfo" where
  "SetCells d cells = d\<lparr>Cells := (Cells d)\<lparr>Cell := cells\<rparr>\<rparr>"

definition ShiftTemperaturesForNewIteration :: "FullDomainStructureInfo \<Rightarrow> FullDomainStructureInfo" where
  "ShiftTemperaturesForNewIteration d =
     SetCells d (\<lambda>idx. if InBounds (Cells d) idx then ShiftCell (Cell (Cells d) idx) else Cell (Cells d) idx)"

definition IsConverged_CurrentToPrevIteration :: "FullDomainStructureInfo \<Rightarrow> bool" where
  "IsConverged_CurrentToPrevIteration d =
     (fold (\<lambda>c LocalMax. max LocalMax \<bar>Temperature (MyBase c) - Temperature_PrevIteration (MyBase c)\<bar>)
           (CellList (Cells d)) 0
        < Convergence_CurrentToPrevIteration (SimControls d))"

definition CheckForOutOfRangeTemps :: "FullDomainStructureInfo \<Rightarrow> bool" where
  "CheckForOutOfRangeTemps d =
     list_ex (\<lambda>c. Temperature (MyBase c) > MaximumTemperatureLimit (SimControls d)
                    \<or> Temperature (MyBase c) < MinimumTemperatureLimit (SimControls d))
             (CellList (Cells d))"

text \<open>The result is the flag \<^verbatim>\<open>Finished\<close>, unless the out-of-range check is fatal.\<close>

definition DoEndOfIterationOperations :: "FullDomainStructureInfo \<Rightarrow> error + bool" where
  "DoEndOfIterationOperations d =
     (let Finished = IsConverged_CurrentToPrevIteration d
      in if CheckForOutOfRangeTemps d then Inl OutOfRangeTemperatures else Inr Finished)"

text \<open>
  The routines the loop calls besides the three above are parameters of the model: the
  initializations before the loop, the two solvers inside it and the updates after it.
  \<open>'w\<close> is the state outside the domain that they read and write (circuits, segments,
  environment, surface boundary conditions). The two solvers write the cells of the
  domain and nothing else of it, so they return the new contents of the cell array; the
  pipe-circuit solver has a fatal exit.
\<close>

record 'w SolverRoutines =
  DoStartOfTimeStepInitializations :: "'w \<times> FullDomainStructureInfo \<Rightarrow> 'w \<times> FullDomainStructureInfo"
  PreparePipeCircuit :: "'w \<times> FullDomainStructureInfo \<Rightarrow> 'w"
  PerformPipeCircuitSimulation ::
    "'w \<times> FullDomainStructureInfo \<Rightarrow> error + 'w \<times> (int \<times> int \<times> int \<Rightarrow> CartesianCell)"
  PerformTemperatureFieldUpdate :: "'w \<times> FullDomainStructureInfo \<Rightarrow> int \<times> int \<times> int \<Rightarrow> CartesianCell"
  UpdateBasementSurfaceTemperatures :: "'w \<times> FullDomainStructureInfo \<Rightarrow> 'w"
  UpdateZoneSurfaceTemperatures :: "'w \<times> FullDomainStructureInfo \<Rightarrow> 'w"

text \<open>One pass of the loop body up to the end-of-iteration operations.\<close>

definition IterationBody ::
  "'w SolverRoutines \<Rightarrow> 'w \<times> FullDomainStructureInfo \<Rightarrow> error + 'w \<times> FullDomainStructureInfo" where
  "IterationBody R s =
     (case s of (w, d) \<Rightarrow>
        let d1 = ShiftTemperaturesForNewIteration d
        in case (if HasAPipeCircuit d1 then
                   (case PerformPipeCircuitSimulation R (w, d1) of
                      Inl e \<Rightarrow> Inl e
                    | Inr (w', cells) \<Rightarrow> Inr (w', SetCells d1 cells))
                 else Inr (w, d1)) of
             Inl e \<Rightarrow> Inl e
           | Inr (w2, d2) \<Rightarrow>
               Inr (w2, if DomainNeedsSimulation d2
                        then SetCells d2 (PerformTemperatureFieldUpdate R (w2, d2)) else d2))"

text \<open>
  The \<^verbatim>\<open>for\<close> loop with \<open>remaining\<close> iterations left before the cap; the first
  component of the result is the number of iterations run. The cap is read from the
  simulation controls, which no pass changes.
\<close>

fun IterationLoop ::
  "'w SolverRoutines \<Rightarrow> nat \<Rightarrow> 'w \<times> FullDomainStructureInfo \<Rightarrow> error + nat \<times> 'w \<times> FullDomainStructureInfo" where
  "IterationLoop R 0 s = Inr (0, s)"
| "IterationLoop R (Suc remaining) s =
     (case IterationBody R s of
        Inl e \<Rightarrow> Inl e
      | Inr s3 \<Rightarrow>
          (case DoEndOfIterationOperations (snd s3) of
             Inl e \<Rightarrow> Inl e
           | Inr FinishedIterationLoop \<Rightarrow>
               if FinishedIterationLoop then Inr (1, s3)
               else (case IterationLoop R remaining s3 of
                       Inl e \<Rightarrow> Inl e
                     | Inr (k, s') \<Rightarrow> Inr (Suc k, s'))))"

definition PerformIterationLoop ::
  "'w SolverRoutines \<Rightarrow> 'w \<times> FullDomainStructureInfo \<Rightarrow> error + nat \<times> 'w \<times> FullDomainStructureInfo" where
  "PerformIterationLoop R s =
     (case DoStartOfTimeStepInitializations R s of (w0, d0) \<Rightarrow>
        let w1 = (if HasAPipeCircuit d0 then PreparePipeCircuit R (w0, d0) else w0)
        in case IterationLoop R (nat (MaxIterationsPerTS (SimControls d0))) (w1, d0) of
             Inl e \<Rightarrow> Inl e
           | Inr (k, w2, d2) \<Rightarrow>
               let w3 = (if HasBasement d2 \<or> HasCoupledBasement d2
                         then UpdateBasementSurfaceTemperatures R (w2, d2) else w2);
                   w4 = (if IsZoneCoupledSlab d2 then UpdateZoneSurfaceTemperatures R (w3, d2) else w3)
               in Inr (k, w4, d2))"

text \<open>
  The state after \<open>j\<close> passes of the loop body from the state in which the loop is
  entered, with no regard to convergence; used to state what the loop does.
\<close>

fun AfterPasses ::
  "'w SolverRoutines \<Rightarrow> nat \<Rightarrow> 'w \<times> FullDomainStructureInfo \<Rightarrow> error + 'w \<times> FullDomainStructureInfo" where
  "AfterPasses R 0 s = Inr s"
| "AfterPasses R (Suc j) s =
     (case IterationBody R s of Inl e \<Rightarrow> Inl e | Inr s1 \<Rightarrow> AfterPasses R j s1)"

definition LoopEntry :: "'w SolverRoutines \<Rightarrow> 'w \<times> FullDomainStructureInfo \<Rightarrow> 'w \<times> FullDomainStructureInfo" where
  "LoopEntry R s =
     (case DoStartOfTimeStepInitializations R s of (w0, d0) \<Rightarrow>
        (if HasAPipeCircuit d0 then PreparePipeCircuit R (w0, d0) else w0, d0))"

text \<open>A pass that neither fails nor leaves a temperature out of range.\<close>

definition PassOK :: "'w SolverRoutines \<Rightarrow> 'w \<times> FullDomainStructureInfo \<Rightarrow> nat \<Rightarrow> bool \<Rightarrow> bool" where
  "PassOK R s j converged =
     (case AfterPasses R j s of
        Inl e \<Rightarrow> False
      | Inr sj \<Rightarrow> \<not> CheckForOutOfRangeTemps (snd sj) \<and> IsConverged_CurrentToPrevIteration (snd sj) = converged)"

text \<open>
  An example for the loop with two cells along X, tolerance 1 and an iteration cap:
  \<open>TwoCellDomain cap T0 P0 T1 P1\<close> has the temperature \<open>T0\<close> and the previous-iteration
  temperature \<open>P0\<close> in cell (0, 0, 0), and \<open>T1\<close> and \<open>P1\<close> in cell (1, 0, 0). The field
  update of \<open>RelaxingRoutines\<close> sets the first cell to 5 and moves the second halfway
  to 8; the other routines do nothing.
\<close>

definition TwoCells :: "real \<Rightarrow> real \<Rightarrow> real \<Rightarrow> real \<Rightarrow> int \<times> int \<times> int \<Rightarrow> CartesianCell" where
  "TwoCells T0 P0 T1 P1 idx =
     (if idx = (0, 0, 0) then
        ZeroCell\<lparr>MyBase := ZeroBaseCell\<lparr>Temperature := T0, Temperature_PrevIteration := P0\<rparr>\<rparr>
      else if idx = (1, 0, 0) then
        ZeroCell\<lparr>MyBase := ZeroBaseCell\<lparr>Temperature := T1, Temperature_PrevIteration := P1\<rparr>\<rparr>
      else ZeroCell)"

definition TwoCellDomain :: "int \<Rightarrow> real \<Rightarrow> real \<Rightarrow> real \<Rightarrow> real \<Rightarrow> FullDomainStructureInfo" where
  "TwoCellDomain cap T0 P0 T1 P1 =
     FarfieldExampleDomain
       \<lparr>SimControls := (SimControls FarfieldExampleDomain)
                         \<lparr>Convergence_CurrentToPrevIteration := 1, MaxIterationsPerTS := cap\<rparr>,
        Cells := \<lparr>u1 = 1, u2 = 0, u3 = 0, Cell = TwoCells T0 P0 T1 P1\<rparr>\<rparr>"

definition RelaxingRoutines :: "unit SolverRoutines" where
  "RelaxingRoutines =
     \<lparr>DoStartOfTimeStepInitializations = (\<lambda>s. s),
      PreparePipeCircuit = (\<lambda>s. ()),
      PerformPipeCircuitSimulation = (\<lambda>s. Inr ((), Cell (Cells (snd s)))),
      PerformTemperatureFieldUpdate =
        (\<lambda>s idx.
           if idx = (0, 0, 0) then
             (Cell (Cells (snd s)) idx)\<lparr>MyBase := (MyBase (Cell (Cells (snd s)) idx))\<lparr>Temperature := 5\<rparr>\<rparr>
           else if idx = (1, 0, 0) then
             (Cell (Cells (snd s)) idx)
               \<lparr>MyBase := (MyBase (Cell (Cells (snd s)) idx))
                            \<lparr>Temperature := (Temperature (MyBase (Cell (Cells (snd s)) idx)) + 8) / 2\<rparr>\<rparr>
           else Cell (Cells (snd s)) idx),
      UpdateBasementSurfaceTemperatures = (\<lambda>s. ()),
      UpdateZoneSurfaceTemperatures = (\<lambda>s. ())\<rparr>"

text \<open>A mesh with two uniform cells per mesh region along X.\<close>

definition UniformMeshX2 :: MeshProperties where
  "UniformMeshX2 =
     UnsetMesh\<lparr>MeshX := \<lparr>MeshDistribution = MeshDistribution_Uniform, RegionMeshCount = 2,
                              GeometricSeriesCoefficient = 0\<rparr>\<rparr>"

text \<open>
  Conditions under which the boundary points of an axis are strictly increasing: a mesh
  structure that yields positive cell widths in a region of positive width, and
  partitions of positive width that lie strictly apart from each other and from 0 (and,
  if there is just one, from the axis maximum). \<open>Contiguous a rs b\<close> says that the
  regions \<open>rs\<close> have positive widths and tile the interval from \<open>a\<close> to \<open>b\<close>.
\<close>

definition PositiveWidthMesh :: "DistributionStructure \<Rightarrow> bool" where
  "PositiveWidthMesh m =
     (0 < RegionMeshCount m
      \<and> (MeshDistribution m = MeshDistribution_Uniform
          \<or> (MeshDistribution m = MeshDistribution_SymmetricGeometric \<and> even (RegionMeshCount m)
              \<and> 0 < GeometricSeriesCoefficient m)))"

definition WellSeparated :: "real \<Rightarrow> MeshPartition list \<Rightarrow> bool" where
  "WellSeparated dmax ps =
     (ps \<noteq> [] \<and> (\<forall>p\<in>set ps. 0 < TotalWidth p)
      \<and> 0 < CellLeft (hd ps) \<and> CellRight (last ps) \<le> dmax
      \<and> (length ps = 1 \<longrightarrow> CellRight (hd ps) < dmax)
      \<and> (\<forall>i. Suc i < length ps \<longrightarrow> CellRight (ps ! i) < CellLeft (ps ! Suc i)))"

fun Contiguous :: "real \<Rightarrow> GridRegion list \<Rightarrow> real \<Rightarrow> bool" where
  "Contiguous a [] b = (a = b)"
| "Contiguous a (r # rs) b = (Min_r r = a \<and> a < Max_r r \<and> Contiguous (Max_r r) rs b)"

section \<open>Verified properties\<close>

subsection \<open>Mesh inputs and cell widths\<close>

lemma Fmod_2_odd: "Fmod k 2 \<noteq> 0 \<longleftrightarrow> odd k"
proof -
  have "\<bar>k\<bar> mod 2 = k mod 2" by presburger
  then show ?thesis
    unfolding Fmod_def signed_modulo_int_def by (auto simp: sgn_if odd_iff_mod_2_eq_one)
qed

lemma Real64_to_int_of_int: "Real64_to_int (of_int n) = n"
  by (simp add: Real64_to_int_def)

lemma ReadMeshAxis_symgeo:
  "ReadMeshAxis axis (of_int n) ''SYMMETRICGEOMETRIC'' coeff (m0, msgs, err) =
     (m0\<lparr>RegionMeshCount := (if odd n then n + 1 else n),
         MeshDistribution := MeshDistribution_SymmetricGeometric,
         GeometricSeriesCoefficient := (if odd n then coeff else 1)\<rparr>,
      (if odd n then msgs @ OddCountWarning axis else msgs),
      err)"
  by (simp add: ReadMeshAxis_def Fmod_2_odd Real64_to_int_of_int Let_def)

lemma ReadGeneralDomainInputs_Mesh_axes:
  "ReadGeneralDomainInputs_Mesh uppercased stripped cAlphaArgs rNumericArgs (mesh, msgs, err) =
     (let rx = ReadMeshAxis ''X'' (rNumericArgs 4) (uppercased (cAlphaArgs 2)) (rNumericArgs 5) (MeshX mesh, msgs, err);
          ry = ReadMeshAxis ''Y'' (rNumericArgs 6) (stripped (cAlphaArgs 3)) (rNumericArgs 7) (MeshY mesh, snd rx);
          rz = ReadMeshAxis ''Z'' (rNumericArgs 8) (stripped (cAlphaArgs 4)) (rNumericArgs 9) (MeshZ mesh, snd ry)
      in (mesh\<lparr>MeshX := fst rx, MeshY := fst ry, MeshZ := fst rz\<rparr>, snd rz))"
  by (simp add: ReadGeneralDomainInputs_Mesh_def Let_def split: prod.splits)

lemma SummationTerm_one: "SummationTerm 1 n = of_nat n"
  by (induction n) simp_all

lemma GrowingWidths_one: "GrowingWidths 1 w k = replicate k w"
  by (induction k) simp_all

lemma allocated_exact: "length xs = n \<Longrightarrow> allocated n xs = xs"
  by (simp add: allocated_def)

lemma symgeo_half_uniform:
  assumes "0 < j"
  shows "(w # GrowingWidths 1 w (j - 1)) @ (if j = 0 then [] else rev (w # GrowingWidths 1 w (j - 1)))
           = replicate (j + j) w"
proof -
  obtain i where i: "j = Suc i" using assms by (cases j) auto
  have "w # GrowingWidths 1 w (j - 1) = replicate j w"
    by (simp add: i GrowingWidths_one)
  then show ?thesis using assms by (simp add: replicate_add)
qed

lemma GetCellWidths_symgeo_coefficient_one:
  assumes "MeshDistribution m = MeshDistribution_SymmetricGeometric"
    and "GeometricSeriesCoefficient m = 1"
    and "even (RegionMeshCount m)" and "0 < RegionMeshCount m"
  shows "GetCellWidths m gMin gMax =
           replicate (nat (RegionMeshCount m)) ((gMax - gMin) / of_int (RegionMeshCount m))"
proof -
  from assms(3) obtain k where k: "RegionMeshCount m = 2 * k" by (auto elim: evenE)
  with assms(4) have kpos: "0 < k" by simp
  have sd: "RegionMeshCount m sdiv 2 = k"
    using k kpos by (simp add: signed_divide_int_def sgn_if)
  define j where "j = nat k"
  have j: "0 < j" "k = int j" using kpos by (simp_all add: j_def)
  have n2: "nat (RegionMeshCount m) = j + j" using k j by simp
  define w where "w = (gMax - gMin) / 2 / SummationTerm 1 j"
  have w: "w = (gMax - gMin) / of_int (RegionMeshCount m)"
    using k j by (simp add: w_def SummationTerm_one)
  have "GetCellWidths m gMin gMax =
          allocated (j + j) ((w # GrowingWidths 1 w (j - 1)) @ (if j = 0 then [] else rev (w # GrowingWidths 1 w (j - 1))))"
    using assms(1,2,4) n2 by (simp add: GetCellWidths_def Let_def sd j_def w_def)
  also have "\<dots> = allocated (j + j) (replicate (j + j) w)"
    by (simp only: symgeo_half_uniform [OF j(1)])
  also have "\<dots> = replicate (j + j) w"
    by (rule allocated_exact) simp
  finally show ?thesis by (simp add: n2 w)
qed

lemma ReadMeshAxis_symgeo_fst:
  "fst (ReadMeshAxis axis (of_int n) ''SYMMETRICGEOMETRIC'' coeff (m0, st)) =
     m0\<lparr>RegionMeshCount := (if odd n then n + 1 else n),
         MeshDistribution := MeshDistribution_SymmetricGeometric,
         GeometricSeriesCoefficient := (if odd n then coeff else 1)\<rparr>"
  by (cases st) (simp add: ReadMeshAxis_symgeo)

lemma ReadMeshAxis_msgs_exact:
  "fst (snd (ReadMeshAxis axis cnt k coeff (m0, st))) =
     fst st @ (if k = ''UNIFORM'' then []
               else if k = ''SYMMETRICGEOMETRIC'' then
                 (if odd (Real64_to_int cnt) then OddCountWarning axis else [])
               else [ShowSevereError ''Use a choice from the available mesh type keys.''])"
  by (cases st) (simp add: ReadMeshAxis_def Let_def Fmod_2_odd)

lemma ReadMeshAxis_err_exact:
  "snd (snd (ReadMeshAxis axis cnt k coeff (m0, st))) =
     (snd st \<or> k \<notin> {''UNIFORM'', ''SYMMETRICGEOMETRIC''})"
  by (cases st) (simp add: ReadMeshAxis_def Let_def)

text \<open>
  Claim C7. The messages returned by the mesh part of the input routine are the ones
  passed in followed by new ones. For each of the three axes: when the mesh key of the
  axis is the symmetric-geometric one and the requested count is the integer \<open>n\<close> (below
  the largest 32-bit integer), the stored count is \<open>n + 1\<close> if \<open>n\<close> is odd and \<open>n\<close> if
  it is even, so it is even in both cases; for an odd \<open>n\<close> the new messages contain the
  warning, the line naming the odd count of that axis and the line announcing the
  increment; for an even \<open>n\<close> they do not contain the line naming that axis. The
  function has no fatal exit: its only route to the caller's fatal error is the
  \<^verbatim>\<open>ErrorsFound\<close> flag, and that is returned set exactly if it was passed in set or the
  key of some axis is neither \<^verbatim>\<open>UNIFORM\<close> nor \<^verbatim>\<open>SYMMETRICGEOMETRIC\<close>, so an odd count
  never sets it.
\<close>

theorem odd_symmetric_geometric_count_incremented:
  "case ReadGeneralDomainInputs_Mesh uppercased stripped cAlphaArgs rNumericArgs (mesh, msgs, err) of
     (mesh', msgs', err') \<Rightarrow>
       (\<exists>new. msgs' = msgs @ new
          \<and> (\<forall>n. uppercased (cAlphaArgs 2) = ''SYMMETRICGEOMETRIC'' \<and> rNumericArgs 4 = of_int n \<and> n < 2147483647 \<longrightarrow>
              RegionMeshCount (MeshX mesh') = (if odd n then n + 1 else n) \<and> even (RegionMeshCount (MeshX mesh'))
              \<and> (odd n \<longrightarrow>
                    ShowWarningError ''PipingSystems:ReadGeneralDomainInputs: Invalid mesh type-count combination.''
                      \<in> set new
                    \<and> ShowContinueError ''An ODD-valued X mesh count was found in the input for symmetric geometric configuration.''
                      \<in> set new
                    \<and> ShowContinueError ''This is invalid, mesh count incremented UP by one to next EVEN value.''
                      \<in> set new)
              \<and> (even n \<longrightarrow>
                    ShowContinueError ''An ODD-valued X mesh count was found in the input for symmetric geometric configuration.''
                      \<notin> set new))
          \<and> (\<forall>n. stripped (cAlphaArgs 3) = ''SYMMETRICGEOMETRIC'' \<and> rNumericArgs 6 = of_int n \<and> n < 2147483647 \<longrightarrow>
              RegionMeshCount (MeshY mesh') = (if odd n then n + 1 else n) \<and> even (RegionMeshCount (MeshY mesh'))
              \<and> (odd n \<longrightarrow>
                    ShowWarningError ''PipingSystems:ReadGeneralDomainInputs: Invalid mesh type-count combination.''
                      \<in> set new
                    \<and> ShowContinueError ''An ODD-valued Y mesh count was found in the input for symmetric geometric configuration.''
                      \<in> set new
                    \<and> ShowContinueError ''This is invalid, mesh count incremented UP by one to next EVEN value.''
                      \<in> set new)
              \<and> (even n \<longrightarrow>
                    ShowContinueError ''An ODD-valued Y mesh count was found in the input for symmetric geometric configuration.''
                      \<notin> set new))
          \<and> (\<forall>n. stripped (cAlphaArgs 4) = ''SYMMETRICGEOMETRIC'' \<and> rNumericArgs 8 = of_int n \<and> n < 2147483647 \<longrightarrow>
              RegionMeshCount (MeshZ mesh') = (if odd n then n + 1 else n) \<and> even (RegionMeshCount (MeshZ mesh'))
              \<and> (odd n \<longrightarrow>
                    ShowWarningError ''PipingSystems:ReadGeneralDomainInputs: Invalid mesh type-count combination.''
                      \<in> set new
                    \<and> ShowContinueError ''An ODD-valued Z mesh count was found in the input for symmetric geometric configuration.''
                      \<in> set new
                    \<and> ShowContinueError ''This is invalid, mesh count incremented UP by one to next EVEN value.''
                      \<in> set new)
              \<and> (even n \<longrightarrow>
                    ShowContinueError ''An ODD-valued Z mesh count was found in the input for symmetric geometric configuration.''
                      \<notin> set new)))
       \<and> err' = (err \<or> uppercased (cAlphaArgs 2) \<notin> {''UNIFORM'', ''SYMMETRICGEOMETRIC''}
                      \<or> stripped (cAlphaArgs 3) \<notin> {''UNIFORM'', ''SYMMETRICGEOMETRIC''}
                      \<or> stripped (cAlphaArgs 4) \<notin> {''UNIFORM'', ''SYMMETRICGEOMETRIC''})"
proof -
  let ?W1 = "ShowWarningError ''PipingSystems:ReadGeneralDomainInputs: Invalid mesh type-count combination.''"
  let ?W3 = "ShowContinueError ''This is invalid, mesh count incremented UP by one to next EVEN value.''"
  let ?WX = "ShowContinueError ''An ODD-valued X mesh count was found in the input for symmetric geometric configuration.''"
  let ?WY = "ShowContinueError ''An ODD-valued Y mesh count was found in the input for symmetric geometric configuration.''"
  let ?WZ = "ShowContinueError ''An ODD-valued Z mesh count was found in the input for symmetric geometric configuration.''"
  define rx where "rx = ReadMeshAxis ''X'' (rNumericArgs 4) (uppercased (cAlphaArgs 2)) (rNumericArgs 5) (MeshX mesh, msgs, err)"
  define ry where "ry = ReadMeshAxis ''Y'' (rNumericArgs 6) (stripped (cAlphaArgs 3)) (rNumericArgs 7) (MeshY mesh, snd rx)"
  define rz where "rz = ReadMeshAxis ''Z'' (rNumericArgs 8) (stripped (cAlphaArgs 4)) (rNumericArgs 9) (MeshZ mesh, snd ry)"
  define place where "place = (\<lambda>axis cnt k.
      if k = ''UNIFORM'' then []
      else if k = ''SYMMETRICGEOMETRIC'' then (if odd (Real64_to_int cnt) then OddCountWarning axis else [])
      else [ShowSevereError ''Use a choice from the available mesh type keys.''])"
  define mx where "mx = place ''X'' (rNumericArgs 4) (uppercased (cAlphaArgs 2))"
  define my where "my = place ''Y'' (rNumericArgs 6) (stripped (cAlphaArgs 3))"
  define mz where "mz = place ''Z'' (rNumericArgs 8) (stripped (cAlphaArgs 4))"
  have res: "ReadGeneralDomainInputs_Mesh uppercased stripped cAlphaArgs rNumericArgs (mesh, msgs, err) =
               (mesh\<lparr>MeshX := fst rx, MeshY := fst ry, MeshZ := fst rz\<rparr>, fst (snd rz), snd (snd rz))"
    by (simp add: ReadGeneralDomainInputs_Mesh_axes rx_def ry_def rz_def Let_def)
  have sx: "fst (snd rx) = msgs @ mx"
    unfolding rx_def mx_def place_def ReadMeshAxis_msgs_exact by simp
  have sy: "fst (snd ry) = fst (snd rx) @ my"
    unfolding ry_def my_def place_def ReadMeshAxis_msgs_exact by simp
  have sz: "fst (snd rz) = fst (snd ry) @ mz"
    unfolding rz_def mz_def place_def ReadMeshAxis_msgs_exact by simp
  have all: "fst (snd rz) = msgs @ (mx @ my @ mz)"
    by (simp add: sx sy sz)
  have ex: "snd (snd rx) = (err \<or> uppercased (cAlphaArgs 2) \<notin> {''UNIFORM'', ''SYMMETRICGEOMETRIC''})"
    unfolding rx_def ReadMeshAxis_err_exact by simp
  have ey: "snd (snd ry) = (snd (snd rx) \<or> stripped (cAlphaArgs 3) \<notin> {''UNIFORM'', ''SYMMETRICGEOMETRIC''})"
    unfolding ry_def ReadMeshAxis_err_exact by simp
  have ez: "snd (snd rz) = (snd (snd ry) \<or> stripped (cAlphaArgs 4) \<notin> {''UNIFORM'', ''SYMMETRICGEOMETRIC''})"
    unfolding rz_def ReadMeshAxis_err_exact by simp
  have E: "snd (snd rz) = (err \<or> uppercased (cAlphaArgs 2) \<notin> {''UNIFORM'', ''SYMMETRICGEOMETRIC''}
                    \<or> stripped (cAlphaArgs 3) \<notin> {''UNIFORM'', ''SYMMETRICGEOMETRIC''}
                    \<or> stripped (cAlphaArgs 4) \<notin> {''UNIFORM'', ''SYMMETRICGEOMETRIC''})"
    unfolding ez ey ex by blast
  have otherX: "?WX \<notin> set my" "?WX \<notin> set mz"
    by (simp_all add: my_def mz_def place_def OddCountWarning_def)
  have otherY: "?WY \<notin> set mx" "?WY \<notin> set mz"
    by (simp_all add: mx_def mz_def place_def OddCountWarning_def)
  have otherZ: "?WZ \<notin> set mx" "?WZ \<notin> set my"
    by (simp_all add: mx_def my_def place_def OddCountWarning_def)
  have X: "RegionMeshCount (fst rx) = (if odd n then n + 1 else n) \<and> even (RegionMeshCount (fst rx))
          \<and> (odd n \<longrightarrow> ?W1 \<in> set (mx @ my @ mz) \<and> ?WX \<in> set (mx @ my @ mz) \<and> ?W3 \<in> set (mx @ my @ mz))
          \<and> (even n \<longrightarrow> ?WX \<notin> set (mx @ my @ mz))"
    if h: "uppercased (cAlphaArgs 2) = ''SYMMETRICGEOMETRIC'' \<and> rNumericArgs 4 = of_int n \<and> n < 2147483647" for n
  proof -
    have k: "uppercased (cAlphaArgs 2) = ''SYMMETRICGEOMETRIC''" and c: "rNumericArgs 4 = of_int n" using h by simp_all
    have 1: "RegionMeshCount (fst rx) = (if odd n then n + 1 else n)"
      unfolding rx_def k c by (simp add: ReadMeshAxis_symgeo_fst)
    have 2: "even (RegionMeshCount (fst rx))" unfolding 1 by simp
    have m: "mx = (if odd n then [?W1, ?WX, ?W3] else [])"
      unfolding mx_def place_def k c by (simp add: Real64_to_int_of_int OddCountWarning_def)
    have 3: "?W1 \<in> set (mx @ my @ mz) \<and> ?WX \<in> set (mx @ my @ mz) \<and> ?W3 \<in> set (mx @ my @ mz)" if "odd n"
      using that by (simp add: m)
    have 4: "?WX \<notin> set (mx @ my @ mz)" if "even n"
      using that otherX by (simp add: m)
    show ?thesis using 1 2 3 4 by blast
  qed
  have Y: "RegionMeshCount (fst ry) = (if odd n then n + 1 else n) \<and> even (RegionMeshCount (fst ry))
          \<and> (odd n \<longrightarrow> ?W1 \<in> set (mx @ my @ mz) \<and> ?WY \<in> set (mx @ my @ mz) \<and> ?W3 \<in> set (mx @ my @ mz))
          \<and> (even n \<longrightarrow> ?WY \<notin> set (mx @ my @ mz))"
    if h: "stripped (cAlphaArgs 3) = ''SYMMETRICGEOMETRIC'' \<and> rNumericArgs 6 = of_int n \<and> n < 2147483647" for n
  proof -
    have k: "stripped (cAlphaArgs 3) = ''SYMMETRICGEOMETRIC''" and c: "rNumericArgs 6 = of_int n" using h by simp_all
    have 1: "RegionMeshCount (fst ry) = (if odd n then n + 1 else n)"
      unfolding ry_def k c by (simp add: ReadMeshAxis_symgeo_fst)
    have 2: "even (RegionMeshCount (fst ry))" unfolding 1 by simp
    have m: "my = (if odd n then [?W1, ?WY, ?W3] else [])"
      unfolding my_def place_def k c by (simp add: Real64_to_int_of_int OddCountWarning_def)
    have 3: "?W1 \<in> set (mx @ my @ mz) \<and> ?WY \<in> set (mx @ my @ mz) \<and> ?W3 \<in> set (mx @ my @ mz)" if "odd n"
      using that by (simp add: m)
    have 4: "?WY \<notin> set (mx @ my @ mz)" if "even n"
      using that otherY by (simp add: m)
    show ?thesis using 1 2 3 4 by blast
  qed
  have Z: "RegionMeshCount (fst rz) = (if odd n then n + 1 else n) \<and> even (RegionMeshCount (fst rz))
          \<and> (odd n \<longrightarrow> ?W1 \<in> set (mx @ my @ mz) \<and> ?WZ \<in> set (mx @ my @ mz) \<and> ?W3 \<in> set (mx @ my @ mz))
          \<and> (even n \<longrightarrow> ?WZ \<notin> set (mx @ my @ mz))"
    if h: "stripped (cAlphaArgs 4) = ''SYMMETRICGEOMETRIC'' \<and> rNumericArgs 8 = of_int n \<and> n < 2147483647" for n
  proof -
    have k: "stripped (cAlphaArgs 4) = ''SYMMETRICGEOMETRIC''" and c: "rNumericArgs 8 = of_int n" using h by simp_all
    have 1: "RegionMeshCount (fst rz) = (if odd n then n + 1 else n)"
      unfolding rz_def k c by (simp add: ReadMeshAxis_symgeo_fst)
    have 2: "even (RegionMeshCount (fst rz))" unfolding 1 by simp
    have m: "mz = (if odd n then [?W1, ?WZ, ?W3] else [])"
      unfolding mz_def place_def k c by (simp add: Real64_to_int_of_int OddCountWarning_def)
    have 3: "?W1 \<in> set (mx @ my @ mz) \<and> ?WZ \<in> set (mx @ my @ mz) \<and> ?W3 \<in> set (mx @ my @ mz)" if "odd n"
      using that by (simp add: m)
    have 4: "?WZ \<notin> set (mx @ my @ mz)" if "even n"
      using that otherZ by (simp add: m)
    show ?thesis using 1 2 3 4 by blast
  qed
  have M: "\<exists>new. fst (snd rz) = msgs @ new
          \<and> (\<forall>n. uppercased (cAlphaArgs 2) = ''SYMMETRICGEOMETRIC'' \<and> rNumericArgs 4 = of_int n \<and> n < 2147483647 \<longrightarrow>
              RegionMeshCount (fst rx) = (if odd n then n + 1 else n) \<and> even (RegionMeshCount (fst rx))
              \<and> (odd n \<longrightarrow> ?W1 \<in> set new \<and> ?WX \<in> set new \<and> ?W3 \<in> set new)
              \<and> (even n \<longrightarrow> ?WX \<notin> set new))
          \<and> (\<forall>n. stripped (cAlphaArgs 3) = ''SYMMETRICGEOMETRIC'' \<and> rNumericArgs 6 = of_int n \<and> n < 2147483647 \<longrightarrow>
              RegionMeshCount (fst ry) = (if odd n then n + 1 else n) \<and> even (RegionMeshCount (fst ry))
              \<and> (odd n \<longrightarrow> ?W1 \<in> set new \<and> ?WY \<in> set new \<and> ?W3 \<in> set new)
              \<and> (even n \<longrightarrow> ?WY \<notin> set new))
          \<and> (\<forall>n. stripped (cAlphaArgs 4) = ''SYMMETRICGEOMETRIC'' \<and> rNumericArgs 8 = of_int n \<and> n < 2147483647 \<longrightarrow>
              RegionMeshCount (fst rz) = (if odd n then n + 1 else n) \<and> even (RegionMeshCount (fst rz))
              \<and> (odd n \<longrightarrow> ?W1 \<in> set new \<and> ?WZ \<in> set new \<and> ?W3 \<in> set new)
              \<and> (even n \<longrightarrow> ?WZ \<notin> set new))"
    using all X Y Z by blast
  show ?thesis
    unfolding res prod.case using M E by simp
qed

theorem odd_symmetric_geometric_count_incremented_witness:
  "case ReadGeneralDomainInputs_Mesh (\<lambda>s. s) (\<lambda>s. s)
          (\<lambda>i. if i = 4 then ''UNIFORM'' else ''SYMMETRICGEOMETRIC'')
          (\<lambda>i. if i = 4 then 5 else if i = 6 then 4 else 3)
          (UnsetMesh, [], False) of
     (mesh', msgs', err') \<Rightarrow>
       RegionMeshCount (MeshX mesh') = 6 \<and> RegionMeshCount (MeshY mesh') = 4
       \<and> ShowWarningError ''PipingSystems:ReadGeneralDomainInputs: Invalid mesh type-count combination.''
            \<in> set msgs'
       \<and> ShowContinueError ''An ODD-valued X mesh count was found in the input for symmetric geometric configuration.''
            \<in> set msgs'
       \<and> ShowContinueError ''This is invalid, mesh count incremented UP by one to next EVEN value.''
            \<in> set msgs'
       \<and> ShowContinueError ''An ODD-valued Y mesh count was found in the input for symmetric geometric configuration.''
            \<notin> set msgs'
       \<and> err' = False"
proof -
  obtain mesh' msgs' err' where r:
    "ReadGeneralDomainInputs_Mesh (\<lambda>s. s) (\<lambda>s. s)
          (\<lambda>i. if i = 4 then ''UNIFORM'' else ''SYMMETRICGEOMETRIC'')
          (\<lambda>i. if i = 4 then 5 else if i = 6 then 4 else 3)
          (UnsetMesh, [], False) = (mesh', msgs', err')"
    using prod_cases3 by blast
  note T = odd_symmetric_geometric_count_incremented
          [where uppercased = "\<lambda>s. s" and stripped = "\<lambda>s. s"
             and cAlphaArgs = "\<lambda>i. if i = 4 then ''UNIFORM'' else ''SYMMETRICGEOMETRIC''"
             and rNumericArgs = "\<lambda>i. if i = 4 then 5 else if i = 6 then 4 else 3"
             and msgs = "[]" and err = False and mesh = UnsetMesh, unfolded r prod.case]
  from T obtain new where n: "msgs' = [] @ new"
    and X: "\<forall>n. ''SYMMETRICGEOMETRIC'' = ''SYMMETRICGEOMETRIC'' \<and> (5::real) = of_int n \<and> n < 2147483647 \<longrightarrow>
              RegionMeshCount (MeshX mesh') = (if odd n then n + 1 else n) \<and> even (RegionMeshCount (MeshX mesh'))
              \<and> (odd n \<longrightarrow>
                    ShowWarningError ''PipingSystems:ReadGeneralDomainInputs: Invalid mesh type-count combination.'' \<in> set new
                    \<and> ShowContinueError ''An ODD-valued X mesh count was found in the input for symmetric geometric configuration.'' \<in> set new
                    \<and> ShowContinueError ''This is invalid, mesh count incremented UP by one to next EVEN value.'' \<in> set new)
              \<and> (even n \<longrightarrow>
                    ShowContinueError ''An ODD-valued X mesh count was found in the input for symmetric geometric configuration.'' \<notin> set new)"
    and Y: "\<forall>n. ''SYMMETRICGEOMETRIC'' = ''SYMMETRICGEOMETRIC'' \<and> (4::real) = of_int n \<and> n < 2147483647 \<longrightarrow>
              RegionMeshCount (MeshY mesh') = (if odd n then n + 1 else n) \<and> even (RegionMeshCount (MeshY mesh'))
              \<and> (odd n \<longrightarrow>
                    ShowWarningError ''PipingSystems:ReadGeneralDomainInputs: Invalid mesh type-count combination.'' \<in> set new
                    \<and> ShowContinueError ''An ODD-valued Y mesh count was found in the input for symmetric geometric configuration.'' \<in> set new
                    \<and> ShowContinueError ''This is invalid, mesh count incremented UP by one to next EVEN value.'' \<in> set new)
              \<and> (even n \<longrightarrow>
                    ShowContinueError ''An ODD-valued Y mesh count was found in the input for symmetric geometric configuration.'' \<notin> set new)"
    by auto
  have E: "err' = False"
    using T [THEN conjunct2] by simp
  show ?thesis unfolding r prod.case using n X [THEN spec, of 5] Y [THEN spec, of 4] E by simp
qed

text \<open>
  Claim C10. For each axis whose mesh key is the symmetric-geometric one and whose
  requested count is the integer \<open>n\<close>: the stored geometric series coefficient is the
  user's field when \<open>n\<close> is odd, and 1 whatever the user's field is when \<open>n\<close> is even;
  for an even positive \<open>n\<close> the cell widths of any region of that axis are then \<open>n\<close>
  equal widths, the region's width divided by \<open>n\<close>.
\<close>

theorem even_symmetric_geometric_coefficient_ignored:
  "case ReadGeneralDomainInputs_Mesh uppercased stripped cAlphaArgs rNumericArgs (mesh, msgs, err) of
     (mesh', msgs', err') \<Rightarrow>
       (\<forall>n. uppercased (cAlphaArgs 2) = ''SYMMETRICGEOMETRIC'' \<and> rNumericArgs 4 = of_int n \<longrightarrow>
          GeometricSeriesCoefficient (MeshX mesh') = (if odd n then rNumericArgs 5 else 1)
          \<and> (even n \<and> 0 < n \<longrightarrow>
               (\<forall>gMin gMax. GetCellWidths (MeshX mesh') gMin gMax = replicate (nat n) ((gMax - gMin) / of_int n))))
     \<and> (\<forall>n. stripped (cAlphaArgs 3) = ''SYMMETRICGEOMETRIC'' \<and> rNumericArgs 6 = of_int n \<longrightarrow>
          GeometricSeriesCoefficient (MeshY mesh') = (if odd n then rNumericArgs 7 else 1)
          \<and> (even n \<and> 0 < n \<longrightarrow>
               (\<forall>gMin gMax. GetCellWidths (MeshY mesh') gMin gMax = replicate (nat n) ((gMax - gMin) / of_int n))))
     \<and> (\<forall>n. stripped (cAlphaArgs 4) = ''SYMMETRICGEOMETRIC'' \<and> rNumericArgs 8 = of_int n \<longrightarrow>
          GeometricSeriesCoefficient (MeshZ mesh') = (if odd n then rNumericArgs 9 else 1)
          \<and> (even n \<and> 0 < n \<longrightarrow>
               (\<forall>gMin gMax. GetCellWidths (MeshZ mesh') gMin gMax = replicate (nat n) ((gMax - gMin) / of_int n))))"
proof -
  define rx where "rx = ReadMeshAxis ''X'' (rNumericArgs 4) (uppercased (cAlphaArgs 2)) (rNumericArgs 5) (MeshX mesh, msgs, err)"
  define ry where "ry = ReadMeshAxis ''Y'' (rNumericArgs 6) (stripped (cAlphaArgs 3)) (rNumericArgs 7) (MeshY mesh, snd rx)"
  define rz where "rz = ReadMeshAxis ''Z'' (rNumericArgs 8) (stripped (cAlphaArgs 4)) (rNumericArgs 9) (MeshZ mesh, snd ry)"
  have res: "ReadGeneralDomainInputs_Mesh uppercased stripped cAlphaArgs rNumericArgs (mesh, msgs, err) =
               (mesh\<lparr>MeshX := fst rx, MeshY := fst ry, MeshZ := fst rz\<rparr>, fst (snd rz), snd (snd rz))"
    by (simp add: ReadGeneralDomainInputs_Mesh_axes rx_def ry_def rz_def Let_def)
  have widths: "GetCellWidths (m0\<lparr>RegionMeshCount := n, MeshDistribution := MeshDistribution_SymmetricGeometric,
                   GeometricSeriesCoefficient := 1\<rparr>) gMin gMax = replicate (nat n) ((gMax - gMin) / of_int n)"
    if "even n" "0 < n" for m0 :: DistributionStructure and n gMin gMax
    using GetCellWidths_symgeo_coefficient_one
            [of "m0\<lparr>RegionMeshCount := n, MeshDistribution := MeshDistribution_SymmetricGeometric,
                   GeometricSeriesCoefficient := 1\<rparr>" gMin gMax] that
    by simp
  have X: "GeometricSeriesCoefficient (fst rx) = (if odd n then rNumericArgs 5 else 1)
            \<and> (even n \<and> 0 < n \<longrightarrow>
               (\<forall>gMin gMax. GetCellWidths (fst rx) gMin gMax = replicate (nat n) ((gMax - gMin) / of_int n)))"
    if "uppercased (cAlphaArgs 2) = ''SYMMETRICGEOMETRIC''" "rNumericArgs 4 = of_int n" for n
    unfolding rx_def that by (simp add: ReadMeshAxis_symgeo_fst widths)
  have Y: "GeometricSeriesCoefficient (fst ry) = (if odd n then rNumericArgs 7 else 1)
            \<and> (even n \<and> 0 < n \<longrightarrow>
               (\<forall>gMin gMax. GetCellWidths (fst ry) gMin gMax = replicate (nat n) ((gMax - gMin) / of_int n)))"
    if "stripped (cAlphaArgs 3) = ''SYMMETRICGEOMETRIC''" "rNumericArgs 6 = of_int n" for n
    unfolding ry_def that by (simp add: ReadMeshAxis_symgeo_fst widths)
  have Z: "GeometricSeriesCoefficient (fst rz) = (if odd n then rNumericArgs 9 else 1)
            \<and> (even n \<and> 0 < n \<longrightarrow>
               (\<forall>gMin gMax. GetCellWidths (fst rz) gMin gMax = replicate (nat n) ((gMax - gMin) / of_int n)))"
    if "stripped (cAlphaArgs 4) = ''SYMMETRICGEOMETRIC''" "rNumericArgs 8 = of_int n" for n
    unfolding rz_def that by (simp add: ReadMeshAxis_symgeo_fst widths)
  show ?thesis
    unfolding res prod.case using X Y Z by simp
qed

theorem even_symmetric_geometric_coefficient_ignored_witness:
  "case ReadGeneralDomainInputs_Mesh (\<lambda>s. s) (\<lambda>s. s) (\<lambda>i. ''SYMMETRICGEOMETRIC'')
          (\<lambda>i. if i = 4 then 4 else if i = 6 then 5 else if i = 8 then 6 else 13 / 10) (UnsetMesh, [], False) of
     (mesh', msgs', err') \<Rightarrow>
       GeometricSeriesCoefficient (MeshX mesh') = 1
       \<and> GetCellWidths (MeshX mesh') 0 2 = [1 / 2, 1 / 2, 1 / 2, 1 / 2]
       \<and> GeometricSeriesCoefficient (MeshY mesh') = 13 / 10
       \<and> GeometricSeriesCoefficient (MeshZ mesh') = 1
       \<and> GetCellWidths (MeshZ mesh') 0 3 = [1 / 2, 1 / 2, 1 / 2, 1 / 2, 1 / 2, 1 / 2]"
  using even_symmetric_geometric_coefficient_ignored
          [where uppercased = "\<lambda>s. s" and stripped = "\<lambda>s. s" and cAlphaArgs = "\<lambda>i. ''SYMMETRICGEOMETRIC''"
             and rNumericArgs = "\<lambda>i. if i = 4 then 4 else if i = 6 then 5 else if i = 8 then 6 else 13 / 10"
             and msgs = "[]" and err = False and mesh = UnsetMesh]
  by (auto split: prod.splits dest: spec [of _ 4] spec [of _ 5] spec [of _ 6] simp: numeral_eq_Suc)

subsection \<open>Soil volumetric heat capacity\<close>

lemma EvaluateSoilRhoCp_branches_exhaustive:
  "CellTemp \<ge> frzAllLiq \<or> CellTemp \<le> frzAllIce \<or> (CellTemp < frzAllLiq \<and> CellTemp > frzLiqTrans)
     \<or> (CellTemp \<le> frzLiqTrans \<and> CellTemp \<ge> frzIceTrans) \<or> (CellTemp < frzIceTrans \<and> CellTemp > frzAllIce)"
  by (auto simp: frzAllLiq_def frzAllIce_def frzLiqTrans_def frzIceTrans_def)

lemma EvaluateSoilRhoCp_zone_boundaries_matching:
  "LiquidTransitionBlend s frzAllLiq = rhoCp_soil_liq_1 s
   \<and> IceTransitionBlend s frzIceTrans = rhoCP_soil_transient s
   \<and> IceTransitionBlend s frzAllIce = rhoCP_soil_ice s"
  by (simp add: LiquidTransitionBlend_def IceTransitionBlend_def frzAllLiq_def frzAllIce_def frzLiqTrans_def frzIceTrans_def
      field_simps)

lemma LiquidTransitionBlend_at_frzLiqTrans:
  "LiquidTransitionBlend s frzLiqTrans = rhoCP_soil_transient s + (rhoCp_soil_liq_1 s - rhoCP_soil_liq s)"
  by (simp add: LiquidTransitionBlend_def frzAllLiq_def frzLiqTrans_def)

text \<open>
  Claim C8 (the code departs from it). With moisture fractions 0.3 (liquid) and 0.5
  (saturation), the liquid-transition blend evaluated at the zone boundary -0.1 lies
  29000 J/m3K below the plateau value returned at -0.1, and at every temperature strictly
  between -0.1 and 0 the function is at least 29000 below its value at -0.1: the values
  on the two sides of the boundary at -0.1 do not match. The blend starts from
  \<open>rhoCp_soil_liq_1\<close> but its slope is taken from \<open>rhoCP_soil_liq\<close>.
\<close>

theorem EvaluateSoilRhoCp_jump_at_liquid_transition:
  "LiquidTransitionBlend (EvaluateSoilRhoCp_InitOnly (3 / 10) (5 / 10)) frzLiqTrans
      = EvaluateSoilRhoCp (EvaluateSoilRhoCp_InitOnly (3 / 10) (5 / 10)) frzLiqTrans - 29000
   \<and> (\<forall>T. frzLiqTrans < T \<and> T < frzAllLiq \<longrightarrow>
          EvaluateSoilRhoCp (EvaluateSoilRhoCp_InitOnly (3 / 10) (5 / 10)) T
            \<le> EvaluateSoilRhoCp (EvaluateSoilRhoCp_InitOnly (3 / 10) (5 / 10)) frzLiqTrans - 29000)"
proof -
  define s where "s = EvaluateSoilRhoCp_InitOnly (3 / 10) (5 / 10)"
  have v: "rhoCp_soil_liq_1 s = 2450000" "rhoCP_soil_liq s = 2479000" "rhoCP_soil_transient s = 19347787457 / 80"
    by (simp_all add: s_def EvaluateSoilRhoCp_InitOnly_def Let_def)
  have p: "EvaluateSoilRhoCp s frzLiqTrans = rhoCP_soil_transient s"
    by (simp add: EvaluateSoilRhoCp_def frzAllLiq_def frzAllIce_def frzLiqTrans_def frzIceTrans_def)
  have a: "LiquidTransitionBlend s frzLiqTrans = EvaluateSoilRhoCp s frzLiqTrans - 29000"
    by (simp add: LiquidTransitionBlend_at_frzLiqTrans p v)
  have b: "EvaluateSoilRhoCp s T \<le> EvaluateSoilRhoCp s frzLiqTrans - 29000"
    if "frzLiqTrans < T \<and> T < frzAllLiq" for T
  proof -
    have T: "- (1 / 10) < T" "T < 0" using that by (simp_all add: frzAllLiq_def frzLiqTrans_def)
    have "EvaluateSoilRhoCp s T = LiquidTransitionBlend s T"
      using T by (simp add: EvaluateSoilRhoCp_def frzAllLiq_def frzAllIce_def frzLiqTrans_def frzIceTrans_def)
    also have "\<dots> = 2450000 + (19347787457 / 80 - 2479000) * (10 * (- T))"
      by (simp add: LiquidTransitionBlend_def v frzAllLiq_def frzLiqTrans_def)
    also have "\<dots> \<le> 2450000 + (19347787457 / 80 - 2479000) * 1"
      using T by (intro add_left_mono mult_left_mono) simp_all
    also have "\<dots> = EvaluateSoilRhoCp s frzLiqTrans - 29000"
      by (simp add: p v)
    finally show ?thesis .
  qed
  show ?thesis unfolding s_def [symmetric] using a b by blast
qed

theorem EvaluateSoilRhoCp_jump_at_liquid_transition_witness:
  "EvaluateSoilRhoCp (EvaluateSoilRhoCp_InitOnly (3 / 10) (5 / 10)) (- (99999 / 1000000))
     \<le> EvaluateSoilRhoCp (EvaluateSoilRhoCp_InitOnly (3 / 10) (5 / 10)) (- (1 / 10)) - 29000"
  using EvaluateSoilRhoCp_jump_at_liquid_transition
  by (auto simp: frzAllLiq_def frzLiqTrans_def dest!: spec [of _ "- (99999 / 1000000)"])

subsection \<open>Partition validation\<close>

lemma CreatePartitionRegionList_loop_Inr:
  "CreatePartitionRegionList_loop hcb dmax (map PartitionRegion pre) rest = Inr rs \<longleftrightarrow>
     rs = map PartitionRegion (pre @ rest)
     \<and> (\<forall>j<length rest. PartitionAccepted hcb dmax (pre @ rest) (length pre + j))"
proof (induction rest arbitrary: pre)
  case Nil
  then show ?case by auto
next
  case (Cons p rest)
  have step: "map PartitionRegion pre @ [PartitionRegion p] = map PartitionRegion (pre @ [p])" by simp
  have acc0: "PartitionAccepted hcb dmax (pre @ p # rest) (length pre) \<longleftrightarrow>
      \<not> (CellLeft p < 0 \<or> CellRight p > dmax)
      \<and> \<not> list_ex (PartitionConflict hcb (length (map PartitionRegion pre)) (CellLeft p) (CellRight p)) (map PartitionRegion pre)"
    by (auto simp: PartitionAccepted_def list_ex_iff nth_append in_set_conv_nth dest: nth_mem)

  have rest_acc: "(\<forall>j<length rest. PartitionAccepted hcb dmax ((pre @ [p]) @ rest) (length (pre @ [p]) + j))
     \<longleftrightarrow> (\<forall>j<length rest. PartitionAccepted hcb dmax (pre @ p # rest) (length pre + Suc j))"
    by simp
  have split: "(\<forall>j<length (p # rest). PartitionAccepted hcb dmax (pre @ p # rest) (length pre + j)) \<longleftrightarrow>
      PartitionAccepted hcb dmax (pre @ p # rest) (length pre)
      \<and> (\<forall>j<length rest. PartitionAccepted hcb dmax (pre @ p # rest) (length pre + Suc j))"
    by (auto simp: less_Suc_eq_0_disj)
  show ?case
    unfolding split acc0
    using Cons.IH [of "pre @ [p]"] unfolding rest_acc
    by (simp only: CreatePartitionRegionList_loop.simps step) (auto simp del: map_append)
qed

lemma CreatePartitionRegionList_loop_total:
  "(\<exists>rs. CreatePartitionRegionList_loop hcb dmax entered rest = Inr rs)
   \<or> CreatePartitionRegionList_loop hcb dmax entered rest = Inl InvalidPartitionLocation
   \<or> CreatePartitionRegionList_loop hcb dmax entered rest = Inl PartitionsOverlapping"
  by (induction rest arbitrary: entered) auto

lemma CreatePartitionRegionList_Inr:
  "CreatePartitionRegionList hcb ps True dmax = Inr rs \<longleftrightarrow>
     rs = map PartitionRegion ps \<and> (\<forall>j<length ps. PartitionAccepted hcb dmax ps j)"
  using CreatePartitionRegionList_loop_Inr [of hcb dmax "[]" ps rs]
  by (simp add: CreatePartitionRegionList_def)

lemma CreatePartitionRegionList_fatal_iff:
  "(CreatePartitionRegionList hcb ps True dmax = Inl InvalidPartitionLocation
    \<or> CreatePartitionRegionList hcb ps True dmax = Inl PartitionsOverlapping)
   \<longleftrightarrow> (\<exists>j<length ps. \<not> PartitionAccepted hcb dmax ps j)"
proof -
  have "(\<exists>rs. CreatePartitionRegionList hcb ps True dmax = Inr rs) \<longleftrightarrow> (\<forall>j<length ps. PartitionAccepted hcb dmax ps j)"
    by (auto simp: CreatePartitionRegionList_Inr)
  moreover have "(\<exists>rs. CreatePartitionRegionList hcb ps True dmax = Inr rs)
     \<or> CreatePartitionRegionList hcb ps True dmax = Inl InvalidPartitionLocation
     \<or> CreatePartitionRegionList hcb ps True dmax = Inl PartitionsOverlapping"
    using CreatePartitionRegionList_loop_total [of hcb dmax "[]" ps] by (simp add: CreatePartitionRegionList_def)
  ultimately show ?thesis by auto
qed

lemma PartitionConflict_unfold:
  "PartitionConflict hcb j (CellLeft q) (CellRight q) (PartitionRegion p) \<longleftrightarrow>
     (if hcb \<and> j = 1 then CellLeft p \<le> CellLeft q \<and> CellLeft q < CellRight p
      else CellLeft p \<le> CellLeft q \<and> CellLeft q \<le> CellRight p)
     \<or> (CellLeft p \<le> CellRight q \<and> CellRight q \<le> CellRight p)"
  by (auto simp: PartitionConflict_def PartitionRegion_def IsInRange_def IsInRange_BasementModel_def)

text \<open>
  Claim C3, as amended. For the partitions of one axis: if the range of some partition
  extends below 0 or above the axis maximum, or if the left or the right end of some
  partition lies in the closed range of a partition earlier in the list (for the
  partition at index 1 of a coupled-basement domain the left end is tested against the
  half-open range that excludes the earlier partition's upper end), the program
  terminates with a fatal error.
\<close>

theorem invalid_partition_is_fatal:
  assumes "j < length ps"
    and "CellLeft (ps ! j) < 0 \<or> CellRight (ps ! j) > DirExtentMax
         \<or> (\<exists>i<j. (if hcb \<and> j = 1
                      then CellLeft (ps ! i) \<le> CellLeft (ps ! j) \<and> CellLeft (ps ! j) < CellRight (ps ! i)
                      else CellLeft (ps ! i) \<le> CellLeft (ps ! j) \<and> CellLeft (ps ! j) \<le> CellRight (ps ! i))
                   \<or> (CellLeft (ps ! i) \<le> CellRight (ps ! j) \<and> CellRight (ps ! j) \<le> CellRight (ps ! i)))"
  shows "CreatePartitionRegionList hcb ps True DirExtentMax = Inl InvalidPartitionLocation
         \<or> CreatePartitionRegionList hcb ps True DirExtentMax = Inl PartitionsOverlapping"
proof -
  have "\<not> PartitionAccepted hcb DirExtentMax ps j"
    using assms(2) unfolding PartitionAccepted_def PartitionConflict_unfold by blast
  with assms(1) show ?thesis
    unfolding CreatePartitionRegionList_fatal_iff by blast
qed

theorem invalid_partition_is_fatal_witness:
  "CreatePartitionRegionList False [PipeAt 1 (1 / 10), PipeAt (21 / 20) (1 / 10)] True 3 = Inl InvalidPartitionLocation
   \<or> CreatePartitionRegionList False [PipeAt 1 (1 / 10), PipeAt (21 / 20) (1 / 10)] True 3 = Inl PartitionsOverlapping"
  using invalid_partition_is_fatal [of 1 "[PipeAt 1 (1 / 10), PipeAt (21 / 20) (1 / 10)]" 3 False]
  by (simp add: PipeAt_def CellLeft_def CellRight_def)

text \<open>
  Claim C3 as stated fails: in a coupled-basement domain with perimeter offset 2 and
  vertical insulation thickness 0.1, the insulation partition has the range
  [1.892, 1.992] and the wall-interface partition the range [1.992, 2]; the ranges
  share the point 1.992, and both are accepted.
\<close>

theorem adjacent_basement_partitions_accepted:
  "IsInRange (CellLeft BasementXSideWall) (CellLeft BasementXSide) (CellRight BasementXSide)
   \<and> CreatePartitionRegionList True [BasementXSide, BasementXSideWall] True 10
       = Inr [PartitionRegion BasementXSide, PartitionRegion BasementXSideWall]"
  by (simp add: CreatePartitionRegionList_def BasementXSide_def BasementXSideWall_def CellLeft_def CellRight_def
      PartitionRegion_def PartitionConflict_def IsInRange_def IsInRange_BasementModel_def)

text \<open>
  Claim C9. A conflict is reported only if the left or the right end of the new partition
  lies in the closed range of an earlier region. Hence, when all partitions lie within
  the axis and every earlier partition lies either strictly to the left of a later one
  or strictly inside it (the later one's left end below the earlier lower bound and its
  right end above the earlier upper bound), no fatal error is raised and the regions
  of all partitions, the overlapping ones included, are returned.
\<close>

theorem containing_partition_not_detected:
  "(\<forall>l r prev. PartitionConflict hcb j l r prev \<longrightarrow>
       (Min_r prev \<le> l \<and> l \<le> Max_r prev) \<or> (Min_r prev \<le> r \<and> r \<le> Max_r prev))
   \<and> ((\<forall>p\<in>set ps. 0 \<le> CellLeft p \<and> CellRight p \<le> DirExtentMax \<and> 0 \<le> TotalWidth p)
        \<and> (\<forall>j<length ps. \<forall>i<j.
              CellRight (ps ! i) < CellLeft (ps ! j)
              \<or> (CellLeft (ps ! j) < CellLeft (ps ! i) \<and> CellRight (ps ! i) < CellRight (ps ! j)))
      \<longrightarrow> CreatePartitionRegionList hcb ps True DirExtentMax = Inr (map PartitionRegion ps))"
proof (intro conjI impI allI)
  fix l r prev
  assume "PartitionConflict hcb j l r prev"
  then show "(Min_r prev \<le> l \<and> l \<le> Max_r prev) \<or> (Min_r prev \<le> r \<and> r \<le> Max_r prev)"
    by (auto simp: PartitionConflict_def IsInRange_def IsInRange_BasementModel_def split: if_splits)
next
  assume a: "(\<forall>p\<in>set ps. 0 \<le> CellLeft p \<and> CellRight p \<le> DirExtentMax \<and> 0 \<le> TotalWidth p)
        \<and> (\<forall>j<length ps. \<forall>i<j.
              CellRight (ps ! i) < CellLeft (ps ! j)
              \<or> (CellLeft (ps ! j) < CellLeft (ps ! i) \<and> CellRight (ps ! i) < CellRight (ps ! j)))"
  have "PartitionAccepted hcb DirExtentMax ps k" if k: "k < length ps" for k
  proof -
    have b: "0 \<le> CellLeft (ps ! k)" "CellRight (ps ! k) \<le> DirExtentMax" "CellLeft (ps ! k) \<le> CellRight (ps ! k)"
      using a k nth_mem [OF k] by (auto simp: CellLeft_def CellRight_def)
    have "\<not> PartitionConflict hcb k (CellLeft (ps ! k)) (CellRight (ps ! k)) (PartitionRegion (ps ! i))"
      if "i < k" for i
    proof -
      have "CellRight (ps ! i) < CellLeft (ps ! k)
              \<or> (CellLeft (ps ! k) < CellLeft (ps ! i) \<and> CellRight (ps ! i) < CellRight (ps ! k))"
        using a k that by blast
      then show ?thesis
        unfolding PartitionConflict_unfold using b(3) by auto
    qed
    then show ?thesis
      unfolding PartitionAccepted_def using b by auto
  qed
  then show "CreatePartitionRegionList hcb ps True DirExtentMax = Inr (map PartitionRegion ps)"
    unfolding CreatePartitionRegionList_Inr by blast
qed

theorem containing_partition_not_detected_witness:
  "CellLeft (PipeAt (3 / 2) 2) < CellLeft (PipeAt 1 (2 / 10))
   \<and> CellRight (PipeAt 1 (2 / 10)) < CellRight (PipeAt (3 / 2) 2)
   \<and> CreatePartitionRegionList False [PipeAt 1 (2 / 10), PipeAt (3 / 2) 2] True 3
       = Inr [PartitionRegion (PipeAt 1 (2 / 10)), PartitionRegion (PipeAt (3 / 2) 2)]"
  using containing_partition_not_detected [of False 1 "[PipeAt 1 (2 / 10), PipeAt (3 / 2) 2]" 3]
  by (simp add: PipeAt_def CellLeft_def CellRight_def less_Suc_eq_0_disj)

subsection \<open>Far-field temperature\<close>

lemma GetFarfieldTemp_eq:
  "GetFarfieldTemp d cell =
     AverageGroundTemperature (Farfield d)
       - AverageGroundTemperatureAmplitude (Farfield d)
         * exp (- (Ymax (Extents d) - PointY (Centroid cell))
                  * sqrt (pi / (365 * 86400 * (Conductivity (GroundProperties d) / (Density (GroundProperties d) * SpecificHeat (GroundProperties d))))))
         * cos (2 * pi / (365 * 86400)
                  * (CurSimTimeSeconds (Cur d) - PhaseShiftOfMinGroundTemp (Farfield d)
                       - ((Ymax (Extents d) - PointY (Centroid cell)) / 2)
                         * sqrt (365 * 86400 / (pi * (Conductivity (GroundProperties d) / (Density (GroundProperties d) * SpecificHeat (GroundProperties d)))))))"
  unfolding GetFarfieldTemp_def Let_def BaseThermalPropertySet_Diffusivity_def SecsInDay_def
  by (simp only: mult.commute [of 86400 365])

lemma cos_year_periodic:
  "cos (2 * pi / (365 * 86400) * (t + 365 * 86400 - p - s)) = cos (2 * pi / (365 * 86400) * (t - p - s))"
proof -
  have "2 * pi / (365 * 86400) * (t + 365 * 86400 - p - s) = 2 * pi / (365 * 86400) * (t - p - s) + 2 * pi"
    by (simp add: field_simps)
  then show ?thesis by (simp only: cos_periodic)
qed

text \<open>
  Claim C6, as amended. \<^verbatim>\<open>GetFarfieldTemp\<close> is the Kusuda-Achenbach closed form
  \<open>T_avg - T_amp exp (- z sqrt (pi / (year alpha))) cos ((2 pi / year) (t - phaseShift - (z / 2) sqrt (year / (pi alpha))))\<close>
  with \<open>year\<close> = 365 * 86400 seconds, \<open>z\<close> the depth of the cell's centroid below the
  top of the domain and \<open>alpha\<close> = conductivity / (density * specific heat): the lag
  \<open>(z / 2) sqrt (year / (pi alpha))\<close> is a time, subtracted inside the factor
  \<open>2 pi / year\<close>. Its value at time \<open>t + 365 * 86400\<close> equals its value at \<open>t\<close>
  (exactly, over the reals).
\<close>

theorem GetFarfieldTemp_closed_form_periodic:
  "GetFarfieldTemp d cell =
     (let z = Ymax (Extents d) - PointY (Centroid cell);
          \<alpha> = Conductivity (GroundProperties d) / (Density (GroundProperties d) * SpecificHeat (GroundProperties d));
          t = CurSimTimeSeconds (Cur d)
      in AverageGroundTemperature (Farfield d)
           - AverageGroundTemperatureAmplitude (Farfield d) * exp (- z * sqrt (pi / (365 * 86400 * \<alpha>)))
             * cos (2 * pi / (365 * 86400)
                      * (t - PhaseShiftOfMinGroundTemp (Farfield d) - (z / 2) * sqrt (365 * 86400 / (pi * \<alpha>)))))
   \<and> GetFarfieldTemp (d\<lparr>Cur := (Cur d)\<lparr>CurSimTimeSeconds := CurSimTimeSeconds (Cur d) + 365 * 86400\<rparr>\<rparr>) cell
       = GetFarfieldTemp d cell"
proof
  show "GetFarfieldTemp d cell =
     (let z = Ymax (Extents d) - PointY (Centroid cell);
          \<alpha> = Conductivity (GroundProperties d) / (Density (GroundProperties d) * SpecificHeat (GroundProperties d));
          t = CurSimTimeSeconds (Cur d)
      in AverageGroundTemperature (Farfield d)
           - AverageGroundTemperatureAmplitude (Farfield d) * exp (- z * sqrt (pi / (365 * 86400 * \<alpha>)))
             * cos (2 * pi / (365 * 86400)
                      * (t - PhaseShiftOfMinGroundTemp (Farfield d) - (z / 2) * sqrt (365 * 86400 / (pi * \<alpha>)))))"
    unfolding Let_def by (rule GetFarfieldTemp_eq)
next
  let ?d' = "d\<lparr>Cur := (Cur d)\<lparr>CurSimTimeSeconds := CurSimTimeSeconds (Cur d) + 365 * 86400\<rparr>\<rparr>"
  have sel: "Farfield ?d' = Farfield d" "Extents ?d' = Extents d" "GroundProperties ?d' = GroundProperties d"
    "CurSimTimeSeconds (Cur ?d') = CurSimTimeSeconds (Cur d) + 365 * 86400"
    by simp_all
  show "GetFarfieldTemp ?d' cell = GetFarfieldTemp d cell"
    unfolding GetFarfieldTemp_eq sel by (simp only: cos_year_periodic)
qed

lemma FarfieldExample_fields:
  "AverageGroundTemperature (Farfield FarfieldExampleDomain) = 10"
  "AverageGroundTemperatureAmplitude (Farfield FarfieldExampleDomain) = 5"
  "PhaseShiftOfMinGroundTemp (Farfield FarfieldExampleDomain) = 0"
  "CurSimTimeSeconds (Cur FarfieldExampleDomain) = 0"
  "Ymax (Extents FarfieldExampleDomain) = 2"
  "Conductivity (GroundProperties FarfieldExampleDomain) = 31536000"
  "Density (GroundProperties FarfieldExampleDomain) = 1"
  "SpecificHeat (GroundProperties FarfieldExampleDomain) = 1"
  "PointY (Centroid (FarfieldExampleCell)) = 0"
  by (simp_all add: FarfieldExampleDomain_def FarfieldExampleCell_def ZeroCell_def)

lemma farfield_forms_differ:
  fixes E :: real
  assumes "0 < E" "0 < s" "s \<le> pi"
  shows "10 - 5 * E * cos (2 * pi / (365 * 86400) * (0 - 0 - s)) \<noteq> 10 - 5 * E * cos (2 * pi / (365 * 86400) * (0 - 0) - s)"
proof -
  define a where "a = 2 * pi / (365 * 86400) * s"
  have w: "2 * pi / (365 * 86400) < 1" using pi_less_4 by simp
  have a0: "0 \<le> a" unfolding a_def using assms(2) by simp
  have as: "a < s" unfolding a_def using w assms(2) by simp
  have lt: "cos s < cos a" by (rule cos_monotone_0_pi [OF a0 as assms(3)])
  have c1: "cos (2 * pi / (365 * 86400) * (0 - 0 - s)) = cos a"
  proof -
    have "2 * pi / (365 * 86400) * (0 - 0 - s) = - a" unfolding a_def by simp
    then show ?thesis by (simp only: cos_minus)
  qed
  have c2: "cos (2 * pi / (365 * 86400) * (0 - 0) - s) = cos s"
  proof -
    have "2 * pi / (365 * 86400) * (0 - 0) - s = - s" by simp
    then show ?thesis by (simp only: cos_minus)
  qed
  show ?thesis unfolding c1 c2 using lt assms(1) by simp
qed

lemma FarfieldExample_lag: "(2 - 0) / 2 * sqrt (365 * 86400 / (pi * (31536000 / (1 * 1)))) = sqrt (1 / pi)"
  by simp

text \<open>
  Claim C6 as stated fails: at the example domain the source's value differs from the
  closed form as the claim writes it, where the lag is subtracted from the angle
  outside the factor \<open>2 pi / year\<close>.
\<close>

theorem GetFarfieldTemp_differs_from_stated_form:
  "GetFarfieldTemp FarfieldExampleDomain (FarfieldExampleCell)
     \<noteq> GetFarfieldTemp_spec FarfieldExampleDomain FarfieldExampleCell"
proof -
  have pi1: "1 < pi" using pi_ge_two by simp
  have s0: "0 < sqrt (1 / pi)" by simp
  have s1: "sqrt (1 / pi) \<le> pi" 
  proof -
    have "sqrt (1 / pi) < 1" using pi1 by (simp add: real_sqrt_lt_1_iff)
    with pi1 show ?thesis by linarith
  qed
  show ?thesis
    unfolding GetFarfieldTemp_eq GetFarfieldTemp_spec_def KusudaAchenbach_spec_def FarfieldExample_fields FarfieldExample_lag
    by (rule farfield_forms_differ [OF _ s0 s1]) (rule exp_gt_zero)
qed

subsection \<open>Convection coefficient\<close>

lemma ExampleCircuit_Reynolds_pos:
  "0 < 1000 * (1 / 25) * ((1 / 10) / (1000 * ((pi / 4) * pow_2 (1 / 25)))) / (1 / 1000)"
  by (simp add: pow_2_def)

text \<open>
  Where the circuit indexed by the domain number has the inner diameter of the circuit
  being prepared (as when the two indices coincide), the stored coefficient is the
  specified one.
\<close>

lemma PreparePipeCircuitSimulation_same_diameter:
  assumes "FArray1D_at circuits CircuitNum = Some c"
    and "FArray1D_at domains DomainNum = Some d"
    and "FArray1D_at circuits DomainNum = Some c'"
    and "InnerDia (PipeSize c') = InnerDia (PipeSize c)"
    and "InBounds (Cells d) (IndexX (CircuitInletCell c), IndexY (CircuitInletCell c), IndexZ (CircuitInletCell c))"
  shows "PreparePipeCircuitSimulation domains circuits DomainNum CircuitNum =
           Inr (circuits[nat (CircuitNum - 1) := c\<lparr>CurCircuitConvectionCoefficient :=
                  ConvectionCoefficient_spec c
                    (Temperature (Fluid (PipeCellData (Cell (Cells d)
                       (IndexX (CircuitInletCell c), IndexY (CircuitInletCell c), IndexZ (CircuitInletCell c))))))
                    (Temperature (Pipe (PipeCellData (Cell (Cells d)
                       (IndexX (CircuitInletCell c), IndexY (CircuitInletCell c), IndexZ (CircuitInletCell c))))))\<rparr>])"
  using assms
  unfolding PreparePipeCircuitSimulation_def ConvectionCoefficient_spec_def Let_def
  by (simp add: pow_2_def power2_eq_square StagnantFluidConvCoeff_def)

text \<open>
  Claim C5 (the code departs from it). For the second circuit of the example domain
  (domain index 1, circuit index 2) the velocity is positive, and the source stores twice
  the coefficient the claim specifies for that circuit: it divides by the inner diameter
  of the circuit whose index is the domain index, 0.02, not by that of the circuit being
  prepared, 0.04.
\<close>

theorem PreparePipeCircuitSimulation_wrong_diameter:
  "0 < ConvectionCoefficient_spec (ExampleCircuit (1 / 25)) 20 15
   \<and> (\<exists>cs. PreparePipeCircuitSimulation [TwoCircuitDomain] [ExampleCircuit (1 / 50), ExampleCircuit (1 / 25)] 1 2 = Inr cs
            \<and> CurCircuitConvectionCoefficient (cs ! 1) = 2 * ConvectionCoefficient_spec (ExampleCircuit (1 / 25)) 20 15)"
proof -
  define Re :: real where "Re = 1000 * (1 / 25) * ((1 / 10) / (1000 * ((pi / 4) * pow_2 (1 / 25)))) / (1 / 1000)"
  define Nu :: real where "Nu = (23 / 1000) * Re powr (4 / 5) * 7 powr (3 / 10)"
  have Re: "0 < Re" unfolding Re_def by (rule ExampleCircuit_Reynolds_pos)
  have Nu: "0 < Nu" unfolding Nu_def using Re by simp
  have v: "0 < (1 / 10) / (1000 * ((pi / 4) * pow_2 (1 / 25)))" by (simp add: pow_2_def)
  have spec: "ConvectionCoefficient_spec (ExampleCircuit (1 / 25)) 20 15 = Nu * (6 / 10) / (1 / 25)"
    using v unfolding ConvectionCoefficient_spec_def ExampleCircuit_def ExampleWater_def Let_def Nu_def Re_def
    by (simp add: pow_2_def power2_eq_square)
  have code: "PreparePipeCircuitSimulation [TwoCircuitDomain] [ExampleCircuit (1 / 50), ExampleCircuit (1 / 25)] 1 2
        = Inr [ExampleCircuit (1 / 50),
               (ExampleCircuit (1 / 25))\<lparr>CurCircuitConvectionCoefficient := Nu * (6 / 10) / (1 / 50)\<rparr>]"
    using v unfolding PreparePipeCircuitSimulation_def Let_def Nu_def Re_def
    by (simp add: FArray1D_at_def InBounds_def TwoCircuitDomain_def ExamplePipeCell_def ExampleCircuit_def
        ExampleWater_def ZeroBaseCell_def pow_2_def)
  show ?thesis
    unfolding code spec using Nu by simp
qed

subsection \<open>Adiabatic-wall cells\<close>

lemma AdiabaticExample_directions:
  "fst (EvaluateCellNeighborDirections AdiabaticExampleDomain AdiabaticExampleCell) = [Direction_PositiveZ]"
  by (simp add: EvaluateCellNeighborDirections_def AdiabaticExampleDomain_def AdiabaticExampleCell_def UnitCube_def Let_def)

lemma AdiabaticExample_neighbor:
  "EvaluateNeighborCharacteristics AdiabaticExampleDomain AdiabaticExampleCell Direction_PositiveZ = (20, 1)"
  by (simp add: EvaluateNeighborCharacteristics_def AdiabaticExampleDomain_def AdiabaticExampleCell_def
      AdiabaticExampleNeighbor_def UnitCube_def ZeroCell_def ZeroBaseCell_def Let_def NormalArea_def ZNormalArea_def Width_def Height_def
      NeighborInformationArray_Value_def)

lemma AdiabaticExample_multiplier:
  "AdiabaticMultiplier AdiabaticExampleDomain AdiabaticExampleCell Direction_PositiveZ = 2"
  by (simp add: AdiabaticMultiplier_def AdiabaticExampleCell_def UnitCube_def)

text \<open>
  Where no field-neighbor direction of the cell carries the multiplier 2, the source's
  loop computes the specified update.
\<close>

lemma adiabatic_fold_unit_multipliers:
  assumes "\<forall>dir\<in>set dirs. m dir = (1::real)"
  shows "fold (\<lambda>dir (N, D). (m dir * N + c dir * t dir, m dir * D + c dir)) dirs (N0, D0)
           = (N0 + (\<Sum>dir\<leftarrow>dirs. m dir * c dir * t dir), D0 + (\<Sum>dir\<leftarrow>dirs. m dir * c dir))"
  using assms by (induction dirs arbitrary: N0 D0) (simp_all add: algebra_simps)

lemma EvaluateAdiabaticSurfaceTemperature_unit_multipliers:
  assumes "\<forall>dir\<in>set (fst (EvaluateCellNeighborDirections d cell)). AdiabaticMultiplier d cell dir = 1"
  shows "EvaluateAdiabaticSurfaceTemperature d cell = AdiabaticSurfaceTemperature_spec d cell"
  using adiabatic_fold_unit_multipliers
          [OF assms, of "\<lambda>dir. Beta (MyBase cell) / snd (EvaluateNeighborCharacteristics d cell dir)"
             "\<lambda>dir. fst (EvaluateNeighborCharacteristics d cell dir)"
             "Temperature_PrevTimeStep (MyBase cell)" 1]
  by (simp add: EvaluateAdiabaticSurfaceTemperature_def AdiabaticSurfaceTemperature_spec_def Let_def)

lemma AdiabaticExample_fields:
  "Beta (MyBase AdiabaticExampleCell) = 1" "Temperature_PrevTimeStep (MyBase AdiabaticExampleCell) = 10"
  by (simp_all add: AdiabaticExampleCell_def UnitCube_def ZeroBaseCell_def)

text \<open>
  Claim C2 (the code departs from it). For the adiabatic-wall cell of the example the
  specified update, with the multiplier 2 on the +Z contribution only, is
  (10 + 2 * 20) / (1 + 2) = 50 / 3; the source returns (2 * 10 + 20) / (2 * 1 + 1) = 40 / 3:
  it multiplies the sums accumulated so far, the history term included, and adds the
  contribution of the direction unscaled.
\<close>

theorem EvaluateAdiabaticSurfaceTemperature_scales_accumulated_sums:
  "EvaluateAdiabaticSurfaceTemperature AdiabaticExampleDomain AdiabaticExampleCell = 40 / 3
   \<and> AdiabaticSurfaceTemperature_spec AdiabaticExampleDomain AdiabaticExampleCell = 50 / 3"
proof
  show "EvaluateAdiabaticSurfaceTemperature AdiabaticExampleDomain AdiabaticExampleCell = 40 / 3"
    unfolding EvaluateAdiabaticSurfaceTemperature_def Let_def AdiabaticExample_directions
    by (simp add: AdiabaticExample_neighbor AdiabaticExample_multiplier AdiabaticExample_fields)
next
  show "AdiabaticSurfaceTemperature_spec AdiabaticExampleDomain AdiabaticExampleCell = 50 / 3"
    unfolding AdiabaticSurfaceTemperature_spec_def Let_def AdiabaticExample_directions
    by (simp add: AdiabaticExample_neighbor AdiabaticExample_multiplier AdiabaticExample_fields)
qed

subsection \<open>Iteration loop\<close>

lemma fold_max_less:
  fixes f :: "'a \<Rightarrow> real"
  shows "fold (\<lambda>x m. max m (f x)) xs a < t \<longleftrightarrow> a < t \<and> (\<forall>x\<in>set xs. f x < t)"
  by (induction xs arbitrary: a) auto

lemma IsConverged_iff_Max:
  assumes "CellList (Cells d) \<noteq> []"
  shows "IsConverged_CurrentToPrevIteration d \<longleftrightarrow>
           Max ((\<lambda>c. \<bar>Temperature (MyBase c) - Temperature_PrevIteration (MyBase c)\<bar>) ` set (CellList (Cells d)))
             < Convergence_CurrentToPrevIteration (SimControls d)"
proof -
  let ?f = "\<lambda>c. \<bar>Temperature (MyBase c) - Temperature_PrevIteration (MyBase c)\<bar>"
  let ?t = "Convergence_CurrentToPrevIteration (SimControls d)"
  obtain c where c: "c \<in> set (CellList (Cells d))" using assms by (cases "CellList (Cells d)") auto
  have "(0 < ?t \<and> (\<forall>x\<in>set (CellList (Cells d)). ?f x < ?t)) \<longleftrightarrow> (\<forall>x\<in>set (CellList (Cells d)). ?f x < ?t)"
  proof
    assume a: "\<forall>x\<in>set (CellList (Cells d)). ?f x < ?t"
    have "0 \<le> ?f c" by simp
    also have "?f c < ?t" using a c by blast
    finally show "0 < ?t \<and> (\<forall>x\<in>set (CellList (Cells d)). ?f x < ?t)" using a by blast
  qed blast
  moreover have "Max (?f ` set (CellList (Cells d))) < ?t \<longleftrightarrow> (\<forall>x\<in>set (CellList (Cells d)). ?f x < ?t)"
    using assms by (subst Max_less_iff) auto
  ultimately show ?thesis
    unfolding IsConverged_CurrentToPrevIteration_def fold_max_less by blast
qed

lemma IterationLoop_sound:
  "IterationLoop R n s = Inr (k, s') \<Longrightarrow>
     k \<le> n \<and> AfterPasses R k s = Inr s'
     \<and> (k < n \<longrightarrow> IsConverged_CurrentToPrevIteration (snd s'))
     \<and> (\<forall>j. 1 \<le> j \<and> j < k \<longrightarrow> PassOK R s j False)
     \<and> (1 \<le> k \<longrightarrow> \<not> CheckForOutOfRangeTemps (snd s'))"
proof (induction n arbitrary: s k s')
  case 0
  then show ?case by auto
next
  case (Suc n)
  from Suc.prems obtain s3 where body: "IterationBody R s = Inr s3"
    by (auto split: sum.splits)
  from Suc.prems body obtain fin where fin: "DoEndOfIterationOperations (snd s3) = Inr fin"
    by (auto split: sum.splits)
  have oor: "\<not> CheckForOutOfRangeTemps (snd s3)" and conv: "IsConverged_CurrentToPrevIteration (snd s3) = fin"
    using fin by (auto simp: DoEndOfIterationOperations_def Let_def split: if_splits)
  show ?case
  proof (cases fin)
    case True
    with Suc.prems body fin have "k = 1" "s' = s3" by auto
    then show ?thesis using body oor conv True by auto
  next
    case False
    with Suc.prems body fin obtain k' where k': "IterationLoop R n s3 = Inr (k', s')" "k = Suc k'"
      by (auto split: sum.splits)
    note IH = Suc.IH [OF k'(1)]
    have p1: "PassOK R s 1 False" using body oor conv False by (simp add: PassOK_def)
    have pj: "PassOK R s j False" if "1 \<le> j" "j < k" for j
    proof (cases "j = 1")
      case True
      then show ?thesis using p1 by simp
    next
      case False
      with that k'(2) obtain i where i: "j = Suc i" "1 \<le> i" "i < k'" by (cases j) auto
      then have "PassOK R s3 i False" using IH by blast
      then show ?thesis using body i(1) by (simp add: PassOK_def)
    qed
    have last: "\<not> CheckForOutOfRangeTemps (snd s')"
    proof (cases "k' = 0")
      case True
      then have "s' = s3" using IH by simp
      then show ?thesis using oor by simp
    next
      case False
      then show ?thesis using IH by simp
    qed
    show ?thesis using IH k'(2) body pj last by auto
  qed
qed

lemma PassOK_Suc:
  "IterationBody R s = Inr s1 \<Longrightarrow> PassOK R s (Suc j) b = PassOK R s1 j b"
  by (simp add: PassOK_def)

lemma IterationLoop_complete:
  assumes "k \<le> n" "1 \<le> k"
    and "\<forall>j. 1 \<le> j \<and> j < k \<longrightarrow> PassOK R s j False"
    and "PassOK R s k (k < n)"
  shows "\<exists>s'. IterationLoop R n s = Inr (k, s') \<and> AfterPasses R k s = Inr s'"
  using assms
proof (induction n arbitrary: s k)
  case 0
  then show ?case by simp
next
  case (Suc n)
  have ok1: "PassOK R s 1 (if k = 1 then 1 < Suc n else False)"
    using Suc.prems by (cases "k = 1") auto
  then obtain s3 where body: "IterationBody R s = Inr s3"
    by (auto simp: PassOK_def split: sum.splits)
  have oor: "\<not> CheckForOutOfRangeTemps (snd s3)"
    and conv: "IsConverged_CurrentToPrevIteration (snd s3) = (if k = 1 then 1 < Suc n else False)"
    using ok1 body by (auto simp: PassOK_def)
  have fin: "DoEndOfIterationOperations (snd s3) = Inr (if k = 1 then 1 < Suc n else False)"
    using oor conv by (simp add: DoEndOfIterationOperations_def Let_def)
  show ?case
  proof (cases "k = 1")
    case True
    show ?thesis
    proof (cases "n = 0")
      case True
      with \<open>k = 1\<close> body fin show ?thesis by simp
    next
      case False
      with \<open>k = 1\<close> body fin show ?thesis by simp
    qed
  next
    case False
    then obtain k' where k': "k = Suc k'" "1 \<le> k'" using Suc.prems(2) by (cases k) auto
    have a1: "k' \<le> n" using Suc.prems(1) k' by simp
    have a3: "\<forall>j. 1 \<le> j \<and> j < k' \<longrightarrow> PassOK R s3 j False"
    proof (intro allI impI)
      fix j assume "1 \<le> j \<and> j < k'"
      then have "PassOK R s (Suc j) False" using Suc.prems(3) k' by simp
      then show "PassOK R s3 j False" by (simp add: PassOK_Suc [OF body])
    qed
    have a4: "PassOK R s3 k' (k' < n)"
      using Suc.prems(4) k' by (simp add: PassOK_Suc [OF body])
    obtain s' where s': "IterationLoop R n s3 = Inr (k', s')" "AfterPasses R k' s3 = Inr s'"
      using Suc.IH [OF a1 k'(2) a3 a4] by blast
    show ?thesis using False body fin s' k' by simp
  qed
qed

lemma PerformIterationLoop_unfold:
  "PerformIterationLoop R s =
     (case IterationLoop R (nat (MaxIterationsPerTS (SimControls (snd (LoopEntry R s))))) (LoopEntry R s) of
        Inl e \<Rightarrow> Inl e
      | Inr (k, w2, d2) \<Rightarrow>
          Inr (k,
               (let w3 = (if HasBasement d2 \<or> HasCoupledBasement d2
                          then UpdateBasementSurfaceTemperatures R (w2, d2) else w2)
                in if IsZoneCoupledSlab d2 then UpdateZoneSurfaceTemperatures R (w3, d2) else w3),
               d2))"
  by (simp add: PerformIterationLoop_def LoopEntry_def Let_def split: prod.splits sum.splits)

lemma set_CellIndices:
  "set (CellIndices cells) = {0..u1 cells} \<times> {0..u2 cells} \<times> {0..u3 cells}"
  by (auto simp: CellIndices_def)

lemma InBounds_iff_CellIndices: "InBounds cells idx \<longleftrightarrow> idx \<in> set (CellIndices cells)"
  by (cases idx) (auto simp: InBounds_def set_CellIndices)

lemma IsConverged_iff_Max_in_bounds:
  assumes "0 \<le> u1 (Cells d)" "0 \<le> u2 (Cells d)" "0 \<le> u3 (Cells d)"
  shows "IsConverged_CurrentToPrevIteration d \<longleftrightarrow>
           Max ((\<lambda>idx. \<bar>Temperature (MyBase (Cell (Cells d) idx))
                         - Temperature_PrevIteration (MyBase (Cell (Cells d) idx))\<bar>)
                  ` ({0..u1 (Cells d)} \<times> {0..u2 (Cells d)} \<times> {0..u3 (Cells d)}))
             < Convergence_CurrentToPrevIteration (SimControls d)"
proof -
  have "(0, 0, 0) \<in> set (CellIndices (Cells d))"
    using assms by (simp add: set_CellIndices)
  then have ne: "CellList (Cells d) \<noteq> []"
    by (auto simp: CellList_def)
  have s: "set (CellList (Cells d)) = Cell (Cells d) ` ({0..u1 (Cells d)} \<times> {0..u2 (Cells d)} \<times> {0..u3 (Cells d)})"
    by (simp add: CellList_def set_CellIndices)
  show ?thesis
    unfolding IsConverged_iff_Max [OF ne] s image_image ..
qed

lemma ShiftCell_MyBase:
  "Temperature_PrevIteration (MyBase (ShiftCell c)) = Temperature (MyBase c)"
  "Temperature (MyBase (ShiftCell c)) = Temperature (MyBase c)"
  by (simp_all add: ShiftCell_def ShiftBase_def Let_def)

lemma IterationBody_previous_temperature:
  assumes keepU: "\<forall>s idx. Temperature_PrevIteration (MyBase (PerformTemperatureFieldUpdate R s idx))
                            = Temperature_PrevIteration (MyBase (Cell (Cells (snd s)) idx))"
    and keepP: "\<forall>s w' cells idx. PerformPipeCircuitSimulation R s = Inr (w', cells) \<longrightarrow>
                   Temperature_PrevIteration (MyBase (cells idx))
                     = Temperature_PrevIteration (MyBase (Cell (Cells (snd s)) idx))"
    and body: "IterationBody R (w, d) = Inr (w', d')"
  shows "u1 (Cells d') = u1 (Cells d) \<and> u2 (Cells d') = u2 (Cells d) \<and> u3 (Cells d') = u3 (Cells d)
         \<and> SimControls d' = SimControls d
         \<and> (0 \<le> X \<and> X \<le> u1 (Cells d) \<and> 0 \<le> Y \<and> Y \<le> u2 (Cells d) \<and> 0 \<le> Z \<and> Z \<le> u3 (Cells d) \<longrightarrow>
              Temperature_PrevIteration (MyBase (Cell (Cells d') (X, Y, Z)))
                = Temperature (MyBase (Cell (Cells d) (X, Y, Z))))"
proof -
  define d1 where "d1 = ShiftTemperaturesForNewIteration d"
  have d1: "u1 (Cells d1) = u1 (Cells d)" "u2 (Cells d1) = u2 (Cells d)" "u3 (Cells d1) = u3 (Cells d)"
    "SimControls d1 = SimControls d"
    by (simp_all add: d1_def ShiftTemperaturesForNewIteration_def SetCells_def)
  have p1: "Temperature_PrevIteration (MyBase (Cell (Cells d1) (X, Y, Z))) = Temperature (MyBase (Cell (Cells d) (X, Y, Z)))"
    if "0 \<le> X \<and> X \<le> u1 (Cells d) \<and> 0 \<le> Y \<and> Y \<le> u2 (Cells d) \<and> 0 \<le> Z \<and> Z \<le> u3 (Cells d)"
    using that by (simp add: d1_def ShiftTemperaturesForNewIteration_def SetCells_def InBounds_def ShiftCell_MyBase)
  define mid where "mid = (if HasAPipeCircuit d1 then
                   (case PerformPipeCircuitSimulation R (w, d1) of
                      Inl e \<Rightarrow> Inl e
                    | Inr (w', cells) \<Rightarrow> Inr (w', SetCells d1 cells))
                 else Inr (w, d1))"
  have body': "(case mid of
                  Inl e \<Rightarrow> Inl e
                | Inr (w2, d2) \<Rightarrow>
                    Inr (w2, if DomainNeedsSimulation d2
                             then SetCells d2 (PerformTemperatureFieldUpdate R (w2, d2)) else d2)) = Inr (w', d')"
    using body unfolding IterationBody_def mid_def d1_def by (simp add: Let_def)
  then obtain w2 d2 where s2: "mid = Inr (w2, d2)"
    and r: "d' = (if DomainNeedsSimulation d2 then SetCells d2 (PerformTemperatureFieldUpdate R (w2, d2)) else d2)"
    by (cases mid) auto
  have d2: "u1 (Cells d2) = u1 (Cells d1)" "u2 (Cells d2) = u2 (Cells d1)" "u3 (Cells d2) = u3 (Cells d1)"
    "SimControls d2 = SimControls d1"
    and p2: "Temperature_PrevIteration (MyBase (Cell (Cells d2) idx)) = Temperature_PrevIteration (MyBase (Cell (Cells d1) idx))"
    for idx
    using s2 keepP [rule_format, of "(w, d1)" _ _ idx] unfolding mid_def
    by (auto simp: SetCells_def split: if_splits sum.splits prod.splits)
  have d3: "u1 (Cells d') = u1 (Cells d2)" "u2 (Cells d') = u2 (Cells d2)" "u3 (Cells d') = u3 (Cells d2)"
    "SimControls d' = SimControls d2"
    and p3: "Temperature_PrevIteration (MyBase (Cell (Cells d') idx)) = Temperature_PrevIteration (MyBase (Cell (Cells d2) idx))"
    for idx
    using keepU [rule_format, of "(w2, d2)" idx] by (auto simp: r SetCells_def)
  show ?thesis
    using d1 d2 d3 p1 p2 p3 by simp
qed

lemma IterationBody_frame:
  assumes body: "IterationBody R (w, d) = Inr (w', d')"
  shows "SimControls d' = SimControls d"
    and "u1 (Cells d') = u1 (Cells d)" and "u2 (Cells d') = u2 (Cells d)" and "u3 (Cells d') = u3 (Cells d)"
proof -
  define d1 where "d1 = ShiftTemperaturesForNewIteration d"
  have d1: "u1 (Cells d1) = u1 (Cells d)" "u2 (Cells d1) = u2 (Cells d)" "u3 (Cells d1) = u3 (Cells d)"
    "SimControls d1 = SimControls d"
    by (simp_all add: d1_def ShiftTemperaturesForNewIteration_def SetCells_def)
  define mid where "mid = (if HasAPipeCircuit d1 then
                   (case PerformPipeCircuitSimulation R (w, d1) of
                      Inl e \<Rightarrow> Inl e
                    | Inr (w', cells) \<Rightarrow> Inr (w', SetCells d1 cells))
                 else Inr (w, d1))"
  have body': "(case mid of
                  Inl e \<Rightarrow> Inl e
                | Inr (w2, d2) \<Rightarrow>
                    Inr (w2, if DomainNeedsSimulation d2
                             then SetCells d2 (PerformTemperatureFieldUpdate R (w2, d2)) else d2)) = Inr (w', d')"
    using body unfolding IterationBody_def mid_def d1_def by (simp add: Let_def)
  then obtain w2 d2 where s2: "mid = Inr (w2, d2)"
    and r: "d' = (if DomainNeedsSimulation d2 then SetCells d2 (PerformTemperatureFieldUpdate R (w2, d2)) else d2)"
    by (cases mid) auto
  have d2: "u1 (Cells d2) = u1 (Cells d1)" "u2 (Cells d2) = u2 (Cells d1)" "u3 (Cells d2) = u3 (Cells d1)"
    "SimControls d2 = SimControls d1"
    using s2 unfolding mid_def
    by (auto simp: SetCells_def split: if_splits sum.splits prod.splits)
  have d3: "u1 (Cells d') = u1 (Cells d2)" "u2 (Cells d') = u2 (Cells d2)" "u3 (Cells d') = u3 (Cells d2)"
    "SimControls d' = SimControls d2"
    by (auto simp: r SetCells_def)
  show "SimControls d' = SimControls d"
    and "u1 (Cells d') = u1 (Cells d)" and "u2 (Cells d') = u2 (Cells d)" and "u3 (Cells d') = u3 (Cells d)"
    using d1 d2 d3 by simp_all
qed

text \<open>
  Claim C1. Let \<open>n\<close> be the cap \<^verbatim>\<open>SimControls.MaxIterationsPerTS\<close> of the domain when the
  loop is entered. (1) For a domain whose cell array is not empty, the convergence test
  holds exactly if the largest absolute difference between a cell's temperature and its
  previous-iteration temperature, taken over the cells at all index triples within the
  bounds of the array, is strictly below \<^verbatim>\<open>Convergence_CurrentToPrevIteration\<close>. (2) A
  pass of the loop body leaves the simulation controls and the bounds of the cell array
  as they were; and if the two solvers leave the previous-iteration temperature of every
  cell as they find it (in the source only \<^verbatim>\<open>ShiftTemperaturesForNewIteration\<close> writes
  it inside the loop), then after the pass the previous-iteration temperature of every
  cell within the bounds is the temperature that cell had when the pass began. (3) If the
  loop returns after \<open>k\<close> iterations, then \<open>k\<close> is at most \<open>n\<close>, the domain returned is
  the one after \<open>k\<close> passes, no earlier pass ended converged, and if \<open>k\<close> is below \<open>n\<close>
  the last pass ended converged. (4) Conversely, if the first \<open>k\<close> passes (with \<open>k\<close> from
  1 to \<open>n\<close>) raise no fatal error of their own, none before the \<open>k\<close>-th ends converged,
  and the \<open>k\<close>-th ends converged exactly if \<open>k\<close> is below \<open>n\<close>, then the loop returns
  after \<open>k\<close> iterations with the domain after \<open>k\<close> passes. (5) In particular, if none of
  the \<open>n\<close> passes raises a fatal error of its own or ends converged, the loop returns,
  without error, the domain after \<open>n\<close> passes.
\<close>

theorem PerformIterationLoop_cap_and_convergence:
  "(\<forall>d. 0 \<le> u1 (Cells d) \<and> 0 \<le> u2 (Cells d) \<and> 0 \<le> u3 (Cells d) \<longrightarrow>
        IsConverged_CurrentToPrevIteration d =
          (Max ((\<lambda>idx. \<bar>Temperature (MyBase (Cell (Cells d) idx))
                        - Temperature_PrevIteration (MyBase (Cell (Cells d) idx))\<bar>)
                  ` ({0..u1 (Cells d)} \<times> {0..u2 (Cells d)} \<times> {0..u3 (Cells d)}))
             < Convergence_CurrentToPrevIteration (SimControls d)))
   \<and> (\<forall>w d w' d'. IterationBody R (w, d) = Inr (w', d') \<longrightarrow>
          SimControls d' = SimControls d
          \<and> u1 (Cells d') = u1 (Cells d) \<and> u2 (Cells d') = u2 (Cells d) \<and> u3 (Cells d') = u3 (Cells d)
          \<and> ((\<forall>s idx. Temperature_PrevIteration (MyBase (PerformTemperatureFieldUpdate R s idx))
                             = Temperature_PrevIteration (MyBase (Cell (Cells (snd s)) idx)))
               \<and> (\<forall>s w2 cells idx. PerformPipeCircuitSimulation R s = Inr (w2, cells) \<longrightarrow>
                      Temperature_PrevIteration (MyBase (cells idx))
                        = Temperature_PrevIteration (MyBase (Cell (Cells (snd s)) idx)))
               \<longrightarrow> (\<forall>X Y Z. 0 \<le> X \<and> X \<le> u1 (Cells d) \<and> 0 \<le> Y \<and> Y \<le> u2 (Cells d)
                               \<and> 0 \<le> Z \<and> Z \<le> u3 (Cells d) \<longrightarrow>
                      Temperature_PrevIteration (MyBase (Cell (Cells d') (X, Y, Z)))
                        = Temperature (MyBase (Cell (Cells d) (X, Y, Z))))))
   \<and> (\<forall>k w' d'. PerformIterationLoop R s = Inr (k, w', d') \<longrightarrow>
          int k \<le> max 0 (MaxIterationsPerTS (SimControls (snd (LoopEntry R s))))
          \<and> (\<exists>w2. AfterPasses R k (LoopEntry R s) = Inr (w2, d'))
          \<and> (\<forall>j. 1 \<le> j \<and> j < k \<longrightarrow> PassOK R (LoopEntry R s) j False)
          \<and> (int k < MaxIterationsPerTS (SimControls (snd (LoopEntry R s))) \<longrightarrow> IsConverged_CurrentToPrevIteration d'))
   \<and> (\<forall>k. 1 \<le> k \<and> int k \<le> MaxIterationsPerTS (SimControls (snd (LoopEntry R s)))
          \<and> (\<forall>j. 1 \<le> j \<and> j < k \<longrightarrow> PassOK R (LoopEntry R s) j False)
          \<and> PassOK R (LoopEntry R s) k (int k < MaxIterationsPerTS (SimControls (snd (LoopEntry R s))))
        \<longrightarrow> (\<exists>w' w2 d'. PerformIterationLoop R s = Inr (k, w', d') \<and> AfterPasses R k (LoopEntry R s) = Inr (w2, d')))
   \<and> ((\<forall>j. 1 \<le> j \<and> int j \<le> MaxIterationsPerTS (SimControls (snd (LoopEntry R s)))
             \<longrightarrow> PassOK R (LoopEntry R s) j False)
        \<longrightarrow> (\<exists>w' w2 d'. PerformIterationLoop R s
                             = Inr (nat (MaxIterationsPerTS (SimControls (snd (LoopEntry R s)))), w', d')
                         \<and> AfterPasses R (nat (MaxIterationsPerTS (SimControls (snd (LoopEntry R s))))) (LoopEntry R s)
                             = Inr (w2, d')))"
proof -
  define e where "e = LoopEntry R s"
  define n where "n = nat (MaxIterationsPerTS (SimControls (snd e)))"
  have lt: "int k < MaxIterationsPerTS (SimControls (snd e)) \<longleftrightarrow> k < n" for k
    unfolding n_def by auto
  have le: "int k \<le> MaxIterationsPerTS (SimControls (snd e)) \<longleftrightarrow> k \<le> n" if "1 \<le> k" for k
    unfolding n_def using that by auto
  have le0: "int k \<le> max 0 (MaxIterationsPerTS (SimControls (snd e))) \<longleftrightarrow> k \<le> n" for k
    unfolding n_def by auto
  have P: "PerformIterationLoop R s =
     (case IterationLoop R n e of
        Inl e \<Rightarrow> Inl e
      | Inr (k, w2, d2) \<Rightarrow>
          Inr (k,
               (let w3 = (if HasBasement d2 \<or> HasCoupledBasement d2
                          then UpdateBasementSurfaceTemperatures R (w2, d2) else w2)
                in if IsZoneCoupledSlab d2 then UpdateZoneSurfaceTemperatures R (w3, d2) else w3),
               d2))"
    unfolding n_def e_def by (rule PerformIterationLoop_unfold)
  have A: "k \<le> n \<and> (\<exists>w2. AfterPasses R k e = Inr (w2, d'))
          \<and> (\<forall>j. 1 \<le> j \<and> j < k \<longrightarrow> PassOK R e j False)
          \<and> (k < n \<longrightarrow> IsConverged_CurrentToPrevIteration d')"
    if r: "PerformIterationLoop R s = Inr (k, w', d')" for k w' d'
  proof -
    from r obtain w2 where "IterationLoop R n e = Inr (k, w2, d')"
      unfolding P by (auto split: sum.splits prod.splits)
    from IterationLoop_sound [OF this] show ?thesis by auto
  qed
  have B: "\<exists>w' w2 d'. PerformIterationLoop R s = Inr (k, w', d') \<and> AfterPasses R k e = Inr (w2, d')"
    if h1: "1 \<le> k" and h2: "k \<le> n" and h3: "\<forall>j. 1 \<le> j \<and> j < k \<longrightarrow> PassOK R e j False"
      and h4: "PassOK R e k (k < n)" for k
  proof -
    obtain s' where s': "IterationLoop R n e = Inr (k, s')" "AfterPasses R k e = Inr s'"
      using IterationLoop_complete [OF h2 h1 h3 h4] by blast
    obtain w2 d' where "s' = (w2, d')" by (cases s') auto
    with s' show ?thesis unfolding P by auto
  qed
  have C: "\<exists>w' w2 d'. PerformIterationLoop R s = Inr (n, w', d') \<and> AfterPasses R n e = Inr (w2, d')"
    if all: "\<forall>j. 1 \<le> j \<and> j \<le> n \<longrightarrow> PassOK R e j False"
  proof (cases "n = 0")
    case True
    obtain w d where "e = (w, d)" by (cases e) auto
    then show ?thesis unfolding P True by simp
  next
    case False
    then have "1 \<le> n" by simp
    moreover have "PassOK R e n (n < n)" using all \<open>1 \<le> n\<close> by simp
    moreover have "\<forall>j. 1 \<le> j \<and> j < n \<longrightarrow> PassOK R e j False" using all by simp
    ultimately show ?thesis using B [of n] by blast
  qed
  have C': "(\<forall>j. 1 \<le> j \<and> int j \<le> MaxIterationsPerTS (SimControls (snd e)) \<longrightarrow> PassOK R e j False)
        \<longrightarrow> (\<exists>w' w2 d'. PerformIterationLoop R s = Inr (n, w', d') \<and> AfterPasses R n e = Inr (w2, d'))"
    using C le by auto
  have B': "\<forall>k. 1 \<le> k \<and> int k \<le> MaxIterationsPerTS (SimControls (snd e))
          \<and> (\<forall>j. 1 \<le> j \<and> j < k \<longrightarrow> PassOK R e j False)
          \<and> PassOK R e k (int k < MaxIterationsPerTS (SimControls (snd e)))
        \<longrightarrow> (\<exists>w' w2 d'. PerformIterationLoop R s = Inr (k, w', d') \<and> AfterPasses R k e = Inr (w2, d'))"
    using B le lt by auto
  have A': "\<forall>k w' d'. PerformIterationLoop R s = Inr (k, w', d') \<longrightarrow>
          int k \<le> max 0 (MaxIterationsPerTS (SimControls (snd e)))
          \<and> (\<exists>w2. AfterPasses R k e = Inr (w2, d'))
          \<and> (\<forall>j. 1 \<le> j \<and> j < k \<longrightarrow> PassOK R e j False)
          \<and> (int k < MaxIterationsPerTS (SimControls (snd e)) \<longrightarrow> IsConverged_CurrentToPrevIteration d')"
    using A le0 lt by auto
  have c1: "(\<forall>d. 0 \<le> u1 (Cells d) \<and> 0 \<le> u2 (Cells d) \<and> 0 \<le> u3 (Cells d) \<longrightarrow>
        IsConverged_CurrentToPrevIteration d =
          (Max ((\<lambda>idx. \<bar>Temperature (MyBase (Cell (Cells d) idx))
                        - Temperature_PrevIteration (MyBase (Cell (Cells d) idx))\<bar>)
                  ` ({0..u1 (Cells d)} \<times> {0..u2 (Cells d)} \<times> {0..u3 (Cells d)}))
             < Convergence_CurrentToPrevIteration (SimControls d)))"
    using IsConverged_iff_Max_in_bounds by blast
  have c1b: "(\<forall>w d w' d'. IterationBody R (w, d) = Inr (w', d') \<longrightarrow>
          SimControls d' = SimControls d
          \<and> u1 (Cells d') = u1 (Cells d) \<and> u2 (Cells d') = u2 (Cells d) \<and> u3 (Cells d') = u3 (Cells d)
          \<and> ((\<forall>s idx. Temperature_PrevIteration (MyBase (PerformTemperatureFieldUpdate R s idx))
                             = Temperature_PrevIteration (MyBase (Cell (Cells (snd s)) idx)))
               \<and> (\<forall>s w2 cells idx. PerformPipeCircuitSimulation R s = Inr (w2, cells) \<longrightarrow>
                      Temperature_PrevIteration (MyBase (cells idx))
                        = Temperature_PrevIteration (MyBase (Cell (Cells (snd s)) idx)))
               \<longrightarrow> (\<forall>X Y Z. 0 \<le> X \<and> X \<le> u1 (Cells d) \<and> 0 \<le> Y \<and> Y \<le> u2 (Cells d)
                               \<and> 0 \<le> Z \<and> Z \<le> u3 (Cells d) \<longrightarrow>
                      Temperature_PrevIteration (MyBase (Cell (Cells d') (X, Y, Z)))
                        = Temperature (MyBase (Cell (Cells d) (X, Y, Z))))))"
  proof (intro allI impI)
    fix w d w' d'
    assume body: "IterationBody R (w, d) = Inr (w', d')"
    have frame: "SimControls d' = SimControls d
          \<and> u1 (Cells d') = u1 (Cells d) \<and> u2 (Cells d') = u2 (Cells d) \<and> u3 (Cells d') = u3 (Cells d)"
      using IterationBody_frame [OF body] by simp
    have prev: "\<forall>X Y Z. 0 \<le> X \<and> X \<le> u1 (Cells d) \<and> 0 \<le> Y \<and> Y \<le> u2 (Cells d)
                               \<and> 0 \<le> Z \<and> Z \<le> u3 (Cells d) \<longrightarrow>
                      Temperature_PrevIteration (MyBase (Cell (Cells d') (X, Y, Z)))
                        = Temperature (MyBase (Cell (Cells d) (X, Y, Z)))"
      if k: "(\<forall>s idx. Temperature_PrevIteration (MyBase (PerformTemperatureFieldUpdate R s idx))
                             = Temperature_PrevIteration (MyBase (Cell (Cells (snd s)) idx)))
               \<and> (\<forall>s w2 cells idx. PerformPipeCircuitSimulation R s = Inr (w2, cells) \<longrightarrow>
                      Temperature_PrevIteration (MyBase (cells idx))
                        = Temperature_PrevIteration (MyBase (Cell (Cells (snd s)) idx)))"
      using IterationBody_previous_temperature [OF k [THEN conjunct1] k [THEN conjunct2] body] by blast
    show "SimControls d' = SimControls d
          \<and> u1 (Cells d') = u1 (Cells d) \<and> u2 (Cells d') = u2 (Cells d) \<and> u3 (Cells d') = u3 (Cells d)
          \<and> ((\<forall>s idx. Temperature_PrevIteration (MyBase (PerformTemperatureFieldUpdate R s idx))
                             = Temperature_PrevIteration (MyBase (Cell (Cells (snd s)) idx)))
               \<and> (\<forall>s w2 cells idx. PerformPipeCircuitSimulation R s = Inr (w2, cells) \<longrightarrow>
                      Temperature_PrevIteration (MyBase (cells idx))
                        = Temperature_PrevIteration (MyBase (Cell (Cells (snd s)) idx)))
               \<longrightarrow> (\<forall>X Y Z. 0 \<le> X \<and> X \<le> u1 (Cells d) \<and> 0 \<le> Y \<and> Y \<le> u2 (Cells d)
                               \<and> 0 \<le> Z \<and> Z \<le> u3 (Cells d) \<longrightarrow>
                      Temperature_PrevIteration (MyBase (Cell (Cells d') (X, Y, Z)))
                        = Temperature (MyBase (Cell (Cells d) (X, Y, Z)))))"
      using frame prev by blast
  qed
  have rest: "(\<forall>k w' d'. PerformIterationLoop R s = Inr (k, w', d') \<longrightarrow>
          int k \<le> max 0 (MaxIterationsPerTS (SimControls (snd (LoopEntry R s))))
          \<and> (\<exists>w2. AfterPasses R k (LoopEntry R s) = Inr (w2, d'))
          \<and> (\<forall>j. 1 \<le> j \<and> j < k \<longrightarrow> PassOK R (LoopEntry R s) j False)
          \<and> (int k < MaxIterationsPerTS (SimControls (snd (LoopEntry R s))) \<longrightarrow> IsConverged_CurrentToPrevIteration d'))
   \<and> (\<forall>k. 1 \<le> k \<and> int k \<le> MaxIterationsPerTS (SimControls (snd (LoopEntry R s)))
          \<and> (\<forall>j. 1 \<le> j \<and> j < k \<longrightarrow> PassOK R (LoopEntry R s) j False)
          \<and> PassOK R (LoopEntry R s) k (int k < MaxIterationsPerTS (SimControls (snd (LoopEntry R s))))
        \<longrightarrow> (\<exists>w' w2 d'. PerformIterationLoop R s = Inr (k, w', d') \<and> AfterPasses R k (LoopEntry R s) = Inr (w2, d')))
   \<and> ((\<forall>j. 1 \<le> j \<and> int j \<le> MaxIterationsPerTS (SimControls (snd (LoopEntry R s)))
             \<longrightarrow> PassOK R (LoopEntry R s) j False)
        \<longrightarrow> (\<exists>w' w2 d'. PerformIterationLoop R s
                             = Inr (nat (MaxIterationsPerTS (SimControls (snd (LoopEntry R s)))), w', d')
                         \<and> AfterPasses R (nat (MaxIterationsPerTS (SimControls (snd (LoopEntry R s))))) (LoopEntry R s)
                             = Inr (w2, d')))"
    using A' B' C' unfolding e_def [symmetric] n_def [symmetric] by blast
  show ?thesis
    using c1 c1b rest by blast
qed

lemma upto_0_1: "[0..1::int] = [0, 1]"
  by (simp add: upto.simps)

lemma atLeastAtMost_0_1: "{0..1::int} = {0, 1}"
  by auto

lemma TwoCellDomain_CellList:
  "CellList (Cells (TwoCellDomain cap T0 P0 T1 P1))
     = [TwoCells T0 P0 T1 P1 (0, 0, 0), TwoCells T0 P0 T1 P1 (1, 0, 0)]"
  by (simp add: CellList_def CellIndices_def TwoCellDomain_def upto_0_1)

lemma TwoCells_temperatures:
  "Temperature (MyBase (TwoCells T0 P0 T1 P1 (0, 0, 0))) = T0"
  "Temperature_PrevIteration (MyBase (TwoCells T0 P0 T1 P1 (0, 0, 0))) = P0"
  "Temperature (MyBase (TwoCells T0 P0 T1 P1 (1, 0, 0))) = T1"
  "Temperature_PrevIteration (MyBase (TwoCells T0 P0 T1 P1 (1, 0, 0))) = P1"
  by (simp_all add: TwoCells_def)

lemma TwoCellDomain_fields:
  "u1 (Cells (TwoCellDomain cap T0 P0 T1 P1)) = 1"
  "u2 (Cells (TwoCellDomain cap T0 P0 T1 P1)) = 0"
  "u3 (Cells (TwoCellDomain cap T0 P0 T1 P1)) = 0"
  "Cell (Cells (TwoCellDomain cap T0 P0 T1 P1)) = TwoCells T0 P0 T1 P1"
  "MaxIterationsPerTS (SimControls (TwoCellDomain cap T0 P0 T1 P1)) = cap"
  "Convergence_CurrentToPrevIteration (SimControls (TwoCellDomain cap T0 P0 T1 P1)) = 1"
  "MinimumTemperatureLimit (SimControls (TwoCellDomain cap T0 P0 T1 P1)) = - 1000"
  "MaximumTemperatureLimit (SimControls (TwoCellDomain cap T0 P0 T1 P1)) = 1000"
  "HasAPipeCircuit (TwoCellDomain cap T0 P0 T1 P1) = False"
  "DomainNeedsSimulation (TwoCellDomain cap T0 P0 T1 P1) = True"
  by (simp_all add: TwoCellDomain_def FarfieldExampleDomain_def)

lemma TwoCellDomain_converged:
  "IsConverged_CurrentToPrevIteration (TwoCellDomain cap T0 P0 T1 P1) \<longleftrightarrow> \<bar>T0 - P0\<bar> < 1 \<and> \<bar>T1 - P1\<bar> < 1"
  by (auto simp: IsConverged_CurrentToPrevIteration_def TwoCellDomain_CellList TwoCells_temperatures
      TwoCellDomain_fields)

lemma TwoCellDomain_out_of_range:
  "CheckForOutOfRangeTemps (TwoCellDomain cap T0 P0 T1 P1)
     \<longleftrightarrow> T0 > 1000 \<or> T0 < - 1000 \<or> T1 > 1000 \<or> T1 < - 1000"
  by (auto simp: CheckForOutOfRangeTemps_def TwoCellDomain_CellList TwoCells_temperatures TwoCellDomain_fields)

lemma SetCells_TwoCellDomain:
  "SetCells (TwoCellDomain cap T0 P0 T1 P1) (TwoCells a b c e) = TwoCellDomain cap a b c e"
  by (simp add: SetCells_def TwoCellDomain_def)

lemma ShiftCell_ZeroCell: "ShiftCell ZeroCell = ZeroCell"
  by (simp add: ShiftCell_def ShiftBase_def Let_def ZeroCell_def ZeroBaseCell_def)

lemma TwoCells_other: "idx \<noteq> (0, 0, 0) \<Longrightarrow> idx \<noteq> (1, 0, 0) \<Longrightarrow> TwoCells T0 P0 T1 P1 idx = ZeroCell"
  by (simp add: TwoCells_def)

lemma TwoCellDomain_InBounds:
  "InBounds (Cells (TwoCellDomain cap T0 P0 T1 P1)) (0, 0, 0)"
  "InBounds (Cells (TwoCellDomain cap T0 P0 T1 P1)) (1, 0, 0)"
  by (simp_all add: InBounds_def TwoCellDomain_fields)

lemma TwoCellDomain_shift:
  "ShiftTemperaturesForNewIteration (TwoCellDomain cap T0 P0 T1 P1) = TwoCellDomain cap T0 T0 T1 T1"
proof -
  let ?D = "TwoCellDomain cap T0 P0 T1 P1"
  have "(if InBounds (Cells ?D) idx then ShiftCell (Cell (Cells ?D) idx) else Cell (Cells ?D) idx)
          = TwoCells T0 T0 T1 T1 idx" for idx
  proof -
    consider "idx = (0, 0, 0)" | "idx = (1, 0, 0)" | "idx \<noteq> (0, 0, 0)" "idx \<noteq> (1, 0, 0)" by blast
    then show ?thesis
    proof cases
      case 1
      have "ShiftCell (TwoCells T0 P0 T1 P1 (0, 0, 0)) = TwoCells T0 T0 T1 T1 (0, 0, 0)"
        by (simp add: TwoCells_def ShiftCell_def ShiftBase_def Let_def ZeroCell_def ZeroBaseCell_def)
      then show ?thesis unfolding 1 by (simp add: TwoCellDomain_InBounds TwoCellDomain_fields)
    next
      case 2
      have "ShiftCell (TwoCells T0 P0 T1 P1 (1, 0, 0)) = TwoCells T0 T0 T1 T1 (1, 0, 0)"
        by (simp add: TwoCells_def ShiftCell_def ShiftBase_def Let_def ZeroCell_def ZeroBaseCell_def)
      then show ?thesis unfolding 2 by (simp add: TwoCellDomain_InBounds TwoCellDomain_fields)
    next
      case 3
      then show ?thesis
        by (simp add: TwoCellDomain_fields TwoCells_other ShiftCell_ZeroCell)
    qed
  qed
  then have "(\<lambda>idx. if InBounds (Cells ?D) idx then ShiftCell (Cell (Cells ?D) idx) else Cell (Cells ?D) idx)
               = TwoCells T0 T0 T1 T1"
    by (rule ext)
  then show ?thesis
    unfolding ShiftTemperaturesForNewIteration_def by (simp only: SetCells_TwoCellDomain)
qed

lemma TwoCellDomain_update:
  "PerformTemperatureFieldUpdate RelaxingRoutines (w, TwoCellDomain cap T0 P0 T1 P1)
     = TwoCells 5 P0 ((T1 + 8) / 2) P1"
proof
  fix idx :: "int \<times> int \<times> int"
  consider "idx = (0, 0, 0)" | "idx = (1, 0, 0)" | "idx \<noteq> (0, 0, 0)" "idx \<noteq> (1, 0, 0)" by blast
  then show "PerformTemperatureFieldUpdate RelaxingRoutines (w, TwoCellDomain cap T0 P0 T1 P1) idx
               = TwoCells 5 P0 ((T1 + 8) / 2) P1 idx"
  proof cases
    case 1
    then show ?thesis
      by (simp add: RelaxingRoutines_def TwoCellDomain_fields TwoCells_def ZeroCell_def ZeroBaseCell_def)
  next
    case 2
    then show ?thesis
      by (simp add: RelaxingRoutines_def TwoCellDomain_fields TwoCells_def ZeroCell_def ZeroBaseCell_def)
  next
    case 3
    then show ?thesis
      by (simp add: RelaxingRoutines_def TwoCellDomain_fields TwoCells_other)
  qed
qed

lemma TwoCellDomain_pass:
  "IterationBody RelaxingRoutines ((), TwoCellDomain cap T0 P0 T1 P1)
     = Inr ((), TwoCellDomain cap 5 T0 ((T1 + 8) / 2) T1)"
  unfolding IterationBody_def
  by (simp add: Let_def TwoCellDomain_shift TwoCellDomain_fields TwoCellDomain_update SetCells_TwoCellDomain)

lemma TwoCellDomain_entry:
  "LoopEntry RelaxingRoutines ((), TwoCellDomain cap T0 P0 T1 P1) = ((), TwoCellDomain cap T0 P0 T1 P1)"
  by (simp add: LoopEntry_def RelaxingRoutines_def TwoCellDomain_fields)

lemma TwoCellDomain_passes:
  "AfterPasses RelaxingRoutines 1 ((), TwoCellDomain cap 0 0 0 0) = Inr ((), TwoCellDomain cap 5 0 4 0)"
  "AfterPasses RelaxingRoutines 2 ((), TwoCellDomain cap 0 0 0 0) = Inr ((), TwoCellDomain cap 5 5 6 4)"
  "AfterPasses RelaxingRoutines 3 ((), TwoCellDomain cap 0 0 0 0) = Inr ((), TwoCellDomain cap 5 5 7 6)"
  "AfterPasses RelaxingRoutines 4 ((), TwoCellDomain cap 0 0 0 0) = Inr ((), TwoCellDomain cap 5 5 (15 / 2) 7)"
  by (simp_all add: eval_nat_numeral TwoCellDomain_pass)

lemma TwoCellDomain_PassOK:
  "PassOK RelaxingRoutines ((), TwoCellDomain cap 0 0 0 0) 1 False"
  "PassOK RelaxingRoutines ((), TwoCellDomain cap 0 0 0 0) 2 False"
  "PassOK RelaxingRoutines ((), TwoCellDomain cap 0 0 0 0) 3 False"
  "PassOK RelaxingRoutines ((), TwoCellDomain cap 0 0 0 0) 4 True"
  unfolding PassOK_def TwoCellDomain_passes
  by (simp_all add: TwoCellDomain_converged TwoCellDomain_out_of_range)

lemma TwoCellDomain_indices: "{0..1::int} \<times> {0..0::int} \<times> {0..0::int} = {(0, 0, 0), (1, 0, 0)}"
  by auto

theorem PerformIterationLoop_cap_and_convergence_witness:
  "(\<exists>w'. PerformIterationLoop RelaxingRoutines ((), TwoCellDomain 10 0 0 0 0)
            = Inr (4, w', TwoCellDomain 10 5 5 (15 / 2) 7))
   \<and> IsConverged_CurrentToPrevIteration (TwoCellDomain 10 5 5 (15 / 2) 7)
   \<and> \<not> IsConverged_CurrentToPrevIteration (TwoCellDomain 10 5 5 6 4)
   \<and> Temperature_PrevIteration (MyBase (Cell (Cells (TwoCellDomain 10 5 5 7 6)) (1, 0, 0)))
        = Temperature (MyBase (Cell (Cells (TwoCellDomain 10 5 5 6 4)) (1, 0, 0)))
   \<and> (\<exists>w'. PerformIterationLoop RelaxingRoutines ((), TwoCellDomain 3 0 0 0 0)
              = Inr (3, w', TwoCellDomain 3 5 5 7 6))
   \<and> \<not> IsConverged_CurrentToPrevIteration (TwoCellDomain 3 5 5 7 6)"
proof -
  note T10 = PerformIterationLoop_cap_and_convergence [of RelaxingRoutines "((), TwoCellDomain 10 0 0 0 0)"]
  note T3 = PerformIterationLoop_cap_and_convergence [of RelaxingRoutines "((), TwoCellDomain 3 0 0 0 0)"]
  note conv = T10 [THEN conjunct1, rule_format]
  note pass = T10 [THEN conjunct2, THEN conjunct1, rule_format]
  note early = T10 [THEN conjunct2, THEN conjunct2, THEN conjunct2, THEN conjunct1, rule_format, of 4,
                    unfolded TwoCellDomain_entry snd_conv TwoCellDomain_fields]
  note capped = T3 [THEN conjunct2, THEN conjunct2, THEN conjunct2, THEN conjunct2, rule_format,
                    unfolded TwoCellDomain_entry snd_conv TwoCellDomain_fields]
  have first3: "PassOK RelaxingRoutines ((), TwoCellDomain cap 0 0 0 0) j False" if "1 \<le> j" "j \<le> 3" for j cap
  proof -
    have "j = 1 \<or> j = 2 \<or> j = 3" using that by arith
    then show ?thesis using TwoCellDomain_PassOK(1-3) [of cap] by auto
  qed
  have a: "\<exists>w'. PerformIterationLoop RelaxingRoutines ((), TwoCellDomain 10 0 0 0 0)
                  = Inr (4, w', TwoCellDomain 10 5 5 (15 / 2) 7)"
  proof -
    have "\<exists>w' w2 d'. PerformIterationLoop RelaxingRoutines ((), TwoCellDomain 10 0 0 0 0) = Inr (4, w', d')
            \<and> AfterPasses RelaxingRoutines 4 ((), TwoCellDomain 10 0 0 0 0) = Inr (w2, d')"
      by (rule early) (simp add: first3 TwoCellDomain_PassOK(4))
    then show ?thesis unfolding TwoCellDomain_passes by auto
  qed
  have b: "IsConverged_CurrentToPrevIteration (TwoCellDomain 10 5 5 (15 / 2) 7)"
  proof -
    have "0 \<le> u1 (Cells (TwoCellDomain 10 5 5 (15 / 2) 7)) \<and> 0 \<le> u2 (Cells (TwoCellDomain 10 5 5 (15 / 2) 7)) \<and> 0 \<le> u3 (Cells (TwoCellDomain 10 5 5 (15 / 2) 7))"
      by (simp add: TwoCellDomain_fields)
    from conv [OF this] show ?thesis
      unfolding TwoCellDomain_fields TwoCellDomain_indices by (simp add: TwoCells_temperatures)
  qed
  have c: "\<not> IsConverged_CurrentToPrevIteration (TwoCellDomain 10 5 5 6 4)"
  proof -
    have "0 \<le> u1 (Cells (TwoCellDomain 10 5 5 6 4)) \<and> 0 \<le> u2 (Cells (TwoCellDomain 10 5 5 6 4)) \<and> 0 \<le> u3 (Cells (TwoCellDomain 10 5 5 6 4))"
      by (simp add: TwoCellDomain_fields)
    from conv [OF this] show ?thesis
      unfolding TwoCellDomain_fields TwoCellDomain_indices by (simp add: TwoCells_temperatures)
  qed
  have d: "Temperature_PrevIteration (MyBase (Cell (Cells (TwoCellDomain 10 5 5 7 6)) (1, 0, 0)))
             = Temperature (MyBase (Cell (Cells (TwoCellDomain 10 5 5 6 4)) (1, 0, 0)))"
  proof -
    have body: "IterationBody RelaxingRoutines ((), TwoCellDomain 10 5 5 6 4) = Inr ((), TwoCellDomain 10 5 5 7 6)"
      by (simp add: TwoCellDomain_pass)
    have keep: "(\<forall>s idx. Temperature_PrevIteration (MyBase (PerformTemperatureFieldUpdate RelaxingRoutines s idx))
                             = Temperature_PrevIteration (MyBase (Cell (Cells (snd s)) idx)))
               \<and> (\<forall>s w2 cells idx. PerformPipeCircuitSimulation RelaxingRoutines s = Inr (w2, cells) \<longrightarrow>
                      Temperature_PrevIteration (MyBase (cells idx))
                        = Temperature_PrevIteration (MyBase (Cell (Cells (snd s)) idx)))"
      by (auto simp: RelaxingRoutines_def)
    have "0 \<le> (1::int) \<and> 1 \<le> u1 (Cells (TwoCellDomain 10 5 5 6 4)) \<and> 0 \<le> (0::int)
            \<and> 0 \<le> u2 (Cells (TwoCellDomain 10 5 5 6 4)) \<and> 0 \<le> (0::int) \<and> 0 \<le> u3 (Cells (TwoCellDomain 10 5 5 6 4))"
      by (simp add: TwoCellDomain_fields)
    with pass [OF body, THEN conjunct2, THEN conjunct2, THEN conjunct2, THEN conjunct2, rule_format, OF keep]
    show ?thesis by blast
  qed
  have e: "\<exists>w'. PerformIterationLoop RelaxingRoutines ((), TwoCellDomain 3 0 0 0 0)
                  = Inr (3, w', TwoCellDomain 3 5 5 7 6)"
  proof -
    have "\<exists>w' w2 d'. PerformIterationLoop RelaxingRoutines ((), TwoCellDomain 3 0 0 0 0) = Inr (nat 3, w', d')
            \<and> AfterPasses RelaxingRoutines (nat 3) ((), TwoCellDomain 3 0 0 0 0) = Inr (w2, d')"
      by (rule capped) (simp add: first3)
    then show ?thesis by (auto simp: TwoCellDomain_passes)
  qed
  have f: "\<not> IsConverged_CurrentToPrevIteration (TwoCellDomain 3 5 5 7 6)"
  proof -
    have "0 \<le> u1 (Cells (TwoCellDomain 3 5 5 7 6)) \<and> 0 \<le> u2 (Cells (TwoCellDomain 3 5 5 7 6)) \<and> 0 \<le> u3 (Cells (TwoCellDomain 3 5 5 7 6))"
      by (simp add: TwoCellDomain_fields)
    from conv [OF this] show ?thesis
      unfolding TwoCellDomain_fields TwoCellDomain_indices by (simp add: TwoCells_temperatures)
  qed
  show ?thesis using a b c d e f by blast
qed

subsection \<open>Boundary points of an axis\<close>

lemma UniformMeshX2_widths:
  "allocated (nat (GetCellWidthsCount UniformMeshX2 RegionType_XDirection))
     (GetCellWidths (ThisMesh UniformMeshX2 RegionType_XDirection) a b) = [(b - a) / 2, (b - a) / 2]"
  by (simp add: GetCellWidthsCount_def ThisMesh_def UniformMeshX2_def GetCellWidths_def allocated_def Let_def
      numeral_2_eq_2)

lemma UniformMeshX2_partition_widths:
  "allocated (nat (GetCellWidthsCount UniformMeshX2 RegionType_XDirection))
     (GetCellWidths (ThisMesh UniformMeshX2 RegionType_Pipe) a b) = [0, 0]"
  by (simp add: GetCellWidthsCount_def ThisMesh_def UniformMeshX2_def GetCellWidths_def allocated_def Let_def
      UnsetDistribution_def numeral_2_eq_2)

text \<open>
  Claim C4 (the code departs from it). A pipe at X = 0.05 whose partition is 0.1 wide, on
  an axis of length 2 with two uniform cells per mesh region, passes the validation
  (its range starts at exactly 0, and only a start below 0 is rejected). The mesh region
  to its left then has width 0, and the boundary points are 0, 0, 0, 0.1, 1.05, 2: they
  start at 0, end at the axis maximum and are one more than the five cells, but they
  are not strictly increasing.
\<close>

theorem zero_width_region_left_of_partition:
  "CellLeft (PipeAt (1 / 20) (1 / 10)) = 0
   \<and> DevelopMesh_BoundaryPoints False False UniformMeshX2 RegionType_XDirection [PipeAt (1 / 20) (1 / 10)] 2
       = Inr [0, 0, 0, 1 / 10, 21 / 20, 2]
   \<and> \<not> sorted_wrt (<) [0, 0, 0, 1 / 10, 21 / 20, 2 :: real]"
proof -
  have l: "CellLeft (PipeAt (1 / 20) (1 / 10)) = 0" and r: "CellRight (PipeAt (1 / 20) (1 / 10)) = 1 / 10"
    by (simp_all add: CellLeft_def CellRight_def PipeAt_def)
  have t: "PartitionRegionType (PartitionType (PipeAt (1 / 20) (1 / 10))) = RegionType_Pipe"
    by (simp add: PipeAt_def)
  have p: "CreatePartitionRegionList False [PipeAt (1 / 20) (1 / 10)] True 2
             = Inr [\<lparr>Min_r = 0, Max_r = 1 / 10, RegionType = RegionType_Pipe, CellWidths = []\<rparr>]"
    by (simp add: CreatePartitionRegionList_def PartitionRegion_def l r t)
  have c: "CreateRegionListCount False [\<lparr>Min_r = 0, Max_r = 1 / 10, RegionType = RegionType_Pipe, CellWidths = []\<rparr>] 2 True = 3"
    by (simp add: CreateRegionListCount_def)
  have g: "CreateRegionList False UniformMeshX2
             [\<lparr>Min_r = 0, Max_r = 1 / 10, RegionType = RegionType_Pipe, CellWidths = []\<rparr>] 2 RegionType_XDirection 2 True
           = Inr [\<lparr>Min_r = 0, Max_r = 0, RegionType = RegionType_XDirection, CellWidths = [0, 0]\<rparr>,
                  \<lparr>Min_r = 0, Max_r = 1 / 10, RegionType = RegionType_Pipe, CellWidths = [0, 0]\<rparr>,
                  \<lparr>Min_r = 1 / 10, Max_r = 2, RegionType = RegionType_XDirection, CellWidths = [19 / 20, 19 / 20]\<rparr>]"
    by (simp add: CreateRegionList_def CreateRegionList_step_def TempGridRegionData_def Repackage_def Let_def
        UniformMeshX2_widths UniformMeshX2_partition_widths)
  have b: "CreateBoundaryListCount
             [\<lparr>Min_r = 0, Max_r = 0, RegionType = RegionType_XDirection, CellWidths = [0, 0]\<rparr>,
              \<lparr>Min_r = 0, Max_r = 1 / 10, RegionType = RegionType_Pipe, CellWidths = [0, 0]\<rparr>,
              \<lparr>Min_r = 1 / 10, Max_r = 2, RegionType = RegionType_XDirection, CellWidths = [19 / 20, 19 / 20]\<rparr>]
             RegionType_XDirection = 6"
    by (simp add: CreateBoundaryListCount_def IsPartitionRegionType_def)
  have bl: "CreateBoundaryList
             [\<lparr>Min_r = 0, Max_r = 0, RegionType = RegionType_XDirection, CellWidths = [0, 0]\<rparr>,
              \<lparr>Min_r = 0, Max_r = 1 / 10, RegionType = RegionType_Pipe, CellWidths = [0, 0]\<rparr>,
              \<lparr>Min_r = 1 / 10, Max_r = 2, RegionType = RegionType_XDirection, CellWidths = [19 / 20, 19 / 20]\<rparr>]
             2 RegionType_XDirection 5 = Inr [0, 0, 0, 1 / 10, 21 / 20, 2]"
    by (simp add: CreateBoundaryList_def RegionPoints_def IsPartitionRegionType_def allocated_def Let_def)
  have "DevelopMesh_BoundaryPoints False False UniformMeshX2 RegionType_XDirection [PipeAt (1 / 20) (1 / 10)] 2
       = Inr [0, 0, 0, 1 / 10, 21 / 20, 2]"
    unfolding DevelopMesh_BoundaryPoints_def Let_def by (simp add: p c g b bl)
  then show ?thesis using l by simp
qed

text \<open>
  Three of the four properties of the boundary points hold whenever the mesh of an axis
  is developed without a fatal error, provided the axis has a positive mesh count: the
  points are those of the regions followed by the axis maximum, so the last point is
  the axis maximum and the number of points is the number of cells plus one; and the
  first point is 0.
\<close>

lemma length_StartingPoints: "length (StartingPoints s ws) = length ws"
  by (induction ws arbitrary: s) simp_all

lemma length_RegionPoints: "length (RegionPoints dir r) = RegionCellCount dir r"
  by (simp add: RegionPoints_def RegionCellCount_def length_StartingPoints)

lemma fold_count_regions:
  "fold (\<lambda>r RetVal.
           if IsPartitionRegionType (RegionType r) then RetVal + 1
           else if RegionType r = dir then RetVal + int (length (CellWidths r))
           else RetVal) rs a
     = a + int (\<Sum>r\<leftarrow>rs. RegionCellCount dir r)"
  by (induction rs arbitrary: a) (simp_all add: RegionCellCount_def)

lemma CreateBoundaryListCount_cells:
  "CreateBoundaryListCount rs dir = int (\<Sum>r\<leftarrow>rs. RegionCellCount dir r) + 1"
  by (simp add: CreateBoundaryListCount_def fold_count_regions)

lemma length_concat_RegionPoints:
  "length (concat (map (RegionPoints dir) rs)) = (\<Sum>r\<leftarrow>rs. RegionCellCount dir r)"
  by (induction rs) (simp_all add: length_RegionPoints)

lemma allocated_one_more:
  "(allocated (Suc (length xs)) xs)[length xs := v] = xs @ [v]"
  by (simp add: allocated_def)

lemma CreateBoundaryList_points:
  "CreateBoundaryList rs dmax dir (CreateBoundaryListCount rs dir - 1)
     = Inr (concat (map (RegionPoints dir) rs) @ [dmax])"
proof -
  let ?pts = "concat (map (RegionPoints dir) rs)"
  have n: "CreateBoundaryListCount rs dir - 1 = int (length ?pts)"
    by (simp add: CreateBoundaryListCount_cells length_concat_RegionPoints)
  show ?thesis
  proof -
    have m: "nat (int (length ?pts) + 1) = Suc (length ?pts)" by simp
    show ?thesis
      unfolding CreateBoundaryList_def Let_def n m nat_int
      by (simp add: allocated_one_more)
  qed
qed

lemma CreateRegionList_step_eq:
  "CreateRegionList_step hcb prs dmax dir i t =
     t @ (if \<not> hcb \<or> (hcb \<and> (i = 0 \<or> i = 2))
          then [TempGridRegionData (if i = 0 then 0 else Max_r (prs ! (i - 1))) (Min_r (prs ! i)) dir] else [])
       @ [TempGridRegionData (Min_r (prs ! i)) (Max_r (prs ! i)) (RegionType (prs ! i))]
       @ (if (i = 0 \<and> length prs = 1) \<or> (i = length prs - 1 \<and> Max_r (prs ! i) < dmax)
          then [TempGridRegionData (Max_r (prs ! i)) dmax dir] else [])"
  unfolding CreateRegionList_step_def Let_def by auto

lemma CreateRegionList_step_appends:
  "CreateRegionList_step hcb prs dmax dir i t = t @ CreateRegionList_step hcb prs dmax dir i []"
  unfolding CreateRegionList_step_eq [of hcb prs dmax dir i t] CreateRegionList_step_eq [of hcb prs dmax dir i "[]"]
  by simp

lemma fold_CreateRegionList_step_appends:
  "\<exists>ys. fold (CreateRegionList_step hcb prs dmax dir) is t = t @ ys"
proof (induction "is" arbitrary: t)
  case Nil
  then show ?case by simp
next
  case (Cons i "is")
  obtain ys where "fold (CreateRegionList_step hcb prs dmax dir) is (CreateRegionList_step hcb prs dmax dir i t)
                     = CreateRegionList_step hcb prs dmax dir i t @ ys"
    using Cons.IH by blast
  then show ?case
    using CreateRegionList_step_appends [of hcb prs dmax dir i t] by simp
qed

lemma TempRegions_first:
  assumes "prs \<noteq> []"
  shows "\<exists>ys. fold (CreateRegionList_step hcb prs dmax dir) [0 ..< length prs] []
               = TempGridRegionData 0 (Min_r (prs ! 0)) dir # ys"
proof -
  have "[0 ..< length prs] = 0 # [1 ..< length prs]"
    using assms by (simp add: upt_conv_Cons)
  moreover obtain zs where "CreateRegionList_step hcb prs dmax dir 0 []
                              = TempGridRegionData 0 (Min_r (prs ! 0)) dir # zs"
    unfolding CreateRegionList_step_eq by simp
  moreover obtain ys where
    "fold (CreateRegionList_step hcb prs dmax dir) [1 ..< length prs] (CreateRegionList_step hcb prs dmax dir 0 [])
       = CreateRegionList_step hcb prs dmax dir 0 [] @ ys"
    using fold_CreateRegionList_step_appends by blast
  ultimately show ?thesis by simp
qed

lemma CreateRegionList_first:
  assumes "CreateRegionList hcb mesh prs dmax dir ub exist = Inr regions" and "exist \<longrightarrow> prs \<noteq> []"
  shows "\<exists>b rest. regions = Repackage mesh dir (TempGridRegionData 0 b dir) # rest"
proof (cases exist)
  case True
  then obtain ys where "fold (CreateRegionList_step hcb prs dmax dir) [0 ..< length prs] []
               = TempGridRegionData 0 (Min_r (prs ! 0)) dir # ys"
    using TempRegions_first assms(2) by blast
  then show ?thesis
    using assms(1) True by (auto simp: CreateRegionList_def Let_def split: if_splits)
next
  case False
  then show ?thesis
    using assms(1) by (auto simp: CreateRegionList_def Let_def split: if_splits)
qed

lemma RegionPoints_first_mesh_region:
  assumes "dir \<in> {RegionType_XDirection, RegionType_YDirection, RegionType_ZDirection}"
    and "0 < GetCellWidthsCount mesh dir"
  shows "\<exists>pts. RegionPoints dir (Repackage mesh dir (TempGridRegionData a b dir)) = a # pts"
proof -
  have np: "\<not> IsPartitionRegionType dir" using assms(1) by (auto simp: IsPartitionRegionType_def)
  have "length (CellWidths (Repackage mesh dir (TempGridRegionData a b dir))) = nat (GetCellWidthsCount mesh dir)"
    by (simp add: Repackage_def allocated_def)
  then obtain w ws where "CellWidths (Repackage mesh dir (TempGridRegionData a b dir)) = w # ws"
    using assms(2) by (cases "CellWidths (Repackage mesh dir (TempGridRegionData a b dir))") auto
  then show ?thesis
    using np by (simp add: RegionPoints_def Repackage_def TempGridRegionData_def)
qed

lemma DevelopMesh_BoundaryPoints_Inr:
  assumes "DevelopMesh_BoundaryPoints hcb abm mesh dir ps dmax = Inr bs"
  shows "\<exists>prs regions.
           CreatePartitionRegionList hcb (if ps \<noteq> [] then ps else [DefaultMeshPartition]) (ps \<noteq> []) dmax = Inr prs
           \<and> CreateRegionList hcb mesh prs dmax dir (CreateRegionListCount abm prs dmax (ps \<noteq> []) - 1) (ps \<noteq> [])
               = Inr regions
           \<and> bs = concat (map (RegionPoints dir) regions) @ [dmax]"
  using assms
  by (auto simp: DevelopMesh_BoundaryPoints_def Let_def CreateBoundaryList_points split: sum.splits)

lemma boundary_points_ends_and_length:
  assumes "DevelopMesh_BoundaryPoints hcb abm mesh dir ps dmax = Inr bs"
    and "dir \<in> {RegionType_XDirection, RegionType_YDirection, RegionType_ZDirection}"
    and "0 < GetCellWidthsCount mesh dir"
  shows "hd bs = 0 \<and> last bs = dmax
         \<and> (\<exists>prs regions.
               CreatePartitionRegionList hcb (if ps \<noteq> [] then ps else [DefaultMeshPartition]) (ps \<noteq> []) dmax = Inr prs
               \<and> CreateRegionList hcb mesh prs dmax dir (CreateRegionListCount abm prs dmax (ps \<noteq> []) - 1) (ps \<noteq> [])
                   = Inr regions
               \<and> length bs = (\<Sum>r\<leftarrow>regions. RegionCellCount dir r) + 1)"
proof -
  obtain prs regions where
    p: "CreatePartitionRegionList hcb (if ps \<noteq> [] then ps else [DefaultMeshPartition]) (ps \<noteq> []) dmax = Inr prs"
    and r: "CreateRegionList hcb mesh prs dmax dir (CreateRegionListCount abm prs dmax (ps \<noteq> []) - 1) (ps \<noteq> [])
               = Inr regions"
    and bs: "bs = concat (map (RegionPoints dir) regions) @ [dmax]"
    using DevelopMesh_BoundaryPoints_Inr [OF assms(1)] by blast
  have ne: "ps \<noteq> [] \<longrightarrow> prs \<noteq> []"
    using p by (auto simp: CreatePartitionRegionList_Inr)
  obtain b rest where first: "regions = Repackage mesh dir (TempGridRegionData 0 b dir) # rest"
    using CreateRegionList_first [OF r ne] by blast
  obtain pts where "RegionPoints dir (Repackage mesh dir (TempGridRegionData 0 b dir)) = 0 # pts"
    using RegionPoints_first_mesh_region [OF assms(2,3)] by blast
  then have "hd bs = 0" unfolding bs first by simp
  moreover have "last bs = dmax" unfolding bs by simp
  moreover have "length bs = (\<Sum>r\<leftarrow>regions. RegionCellCount dir r) + 1"
    unfolding bs by (simp add: length_concat_RegionPoints)
  ultimately show ?thesis using p r by blast
qed

text \<open>
  The fourth property, strict increase, holds for partitions that are well separated and
  a mesh structure with positive widths, in a domain without basement coupling.
\<close>

lemma StartingPoints_sorted:
  assumes "\<forall>w\<in>set ws. 0 < w"
  shows "sorted_wrt (<) (StartingPoints s ws) \<and> (\<forall>x\<in>set (StartingPoints s ws). s \<le> x \<and> x < s + sum_list ws)"
  using assms
proof (induction ws arbitrary: s)
  case Nil
  then show ?case by simp
next
  case (Cons w ws)
  have w: "0 < w" and ws: "\<forall>w\<in>set ws. 0 < w" using Cons.prems by simp_all
  have IH: "sorted_wrt (<) (StartingPoints (s + w) ws)"
    "\<forall>x\<in>set (StartingPoints (s + w) ws). s + w \<le> x \<and> x < s + w + sum_list ws"
    using Cons.IH [OF ws, of "s + w"] by simp_all
  have nn: "0 \<le> sum_list ws" using ws by (simp add: sum_list_nonneg less_imp_le)
  show ?case using IH w nn by (auto simp: add.assoc)
qed

lemma SummationTerm_rec: "SummationTerm c (Suc n) = 1 + c * SummationTerm c n"
proof (induction n)
  case 0
  then show ?case by simp
next
  case (Suc n)
  have "SummationTerm c (Suc (Suc n)) = SummationTerm c (Suc n) + c ^ Suc n" by simp
  also have "\<dots> = 1 + c * SummationTerm c n + c * c ^ n" by (simp only: Suc.IH power_Suc)
  also have "\<dots> = 1 + c * (SummationTerm c n + c ^ n)" by (simp add: algebra_simps)
  finally show ?case by simp
qed

lemma SummationTerm_nonneg: "0 < c \<Longrightarrow> 0 \<le> SummationTerm c n"
  by (induction n) simp_all

lemma SummationTerm_pos: "0 < c \<Longrightarrow> 0 < n \<Longrightarrow> 0 < SummationTerm c n"
proof (cases n)
  case 0
  assume "0 < n" with 0 show ?thesis by simp
next
  case (Suc k)
  assume c: "0 < c"
  have "0 < SummationTerm c k + c ^ k" using SummationTerm_nonneg [OF c, of k] c by (simp add: add_nonneg_pos)
  then show ?thesis using Suc by simp
qed

lemma sum_list_GrowingWidths: "sum_list (w # GrowingWidths c w k) = w * SummationTerm c (Suc k)"
proof (induction k arbitrary: w)
  case 0
  then show ?case by simp
next
  case (Suc k)
  have "sum_list (w # GrowingWidths c w (Suc k)) = w + sum_list ((w * c) # GrowingWidths c (w * c) k)"
    by simp
  also have "\<dots> = w + (w * c) * SummationTerm c (Suc k)" by (simp only: Suc.IH)
  also have "\<dots> = w * SummationTerm c (Suc (Suc k))"
    by (subst SummationTerm_rec [of c "Suc k"]) (simp add: algebra_simps)
  finally show ?case .
qed

lemma GrowingWidths_pos: "0 < c \<Longrightarrow> 0 < w \<Longrightarrow> \<forall>x\<in>set (GrowingWidths c w k). 0 < x"
proof (induction k arbitrary: w)
  case 0
  then show ?case by simp
next
  case (Suc k)
  have "0 < w * c" using Suc.prems by simp
  with Suc.IH [OF Suc.prems(1), of "w * c"] show ?case by simp
qed

lemma length_GrowingWidths: "length (GrowingWidths c w k) = k"
  by (induction k arbitrary: w) simp_all

lemma GetCellWidths_positive:
  assumes "PositiveWidthMesh m" and "a < b"
  shows "length (GetCellWidths m a b) = nat (RegionMeshCount m)
         \<and> (\<forall>w\<in>set (GetCellWidths m a b). 0 < w)
         \<and> sum_list (GetCellWidths m a b) = b - a"
proof -
  have N: "0 < RegionMeshCount m" using assms(1) by (simp add: PositiveWidthMesh_def)
  consider (uniform) "MeshDistribution m = MeshDistribution_Uniform"
    | (symgeo) "MeshDistribution m = MeshDistribution_SymmetricGeometric" "even (RegionMeshCount m)"
        "0 < GeometricSeriesCoefficient m"
    using assms(1) by (auto simp: PositiveWidthMesh_def)
  then show ?thesis
  proof cases
    case uniform
    have "GetCellWidths m a b = replicate (nat (RegionMeshCount m)) ((b - a) / of_int (RegionMeshCount m))"
      using uniform N by (simp add: GetCellWidths_def Let_def allocated_exact)
    then show ?thesis using N assms(2) by (simp add: sum_list_replicate)
  next
    case symgeo
    from symgeo(2) obtain k where k: "RegionMeshCount m = 2 * k" by (auto elim: evenE)
    with N have kpos: "0 < k" by simp
    have sd: "RegionMeshCount m sdiv 2 = k"
      using k kpos by (simp add: signed_divide_int_def sgn_if)
    define j where "j = nat k"
    have j: "0 < j" "k = int j" using kpos by (simp_all add: j_def)
    obtain i where i: "j = Suc i" using j(1) by (cases j) auto
    have n2: "nat (RegionMeshCount m) = j + j" using k j by simp
    define c where "c = GeometricSeriesCoefficient m"
    define w where "w = (b - a) / 2 / SummationTerm c j"
    have S: "0 < SummationTerm c j" using symgeo(3) j(1) by (simp add: c_def SummationTerm_pos)
    have wpos: "0 < w" unfolding w_def using S assms(2) by simp
    define half where "half = w # GrowingWidths c w (j - 1)"
    have hl: "length half = j" using j(1) by (simp add: half_def length_GrowingWidths)
    have hp: "\<forall>x\<in>set half. 0 < x"
      using GrowingWidths_pos [of c w "j - 1"] symgeo(3) wpos by (simp add: half_def c_def)
    have hs: "sum_list half = (b - a) / 2"
    proof -
      have "sum_list half = w * SummationTerm c j"
        unfolding half_def i using sum_list_GrowingWidths [of w c i] by simp
      also have "\<dots> = (b - a) / 2" unfolding w_def using S by simp
      finally show ?thesis .
    qed
    have "GetCellWidths m a b = allocated (j + j) (half @ (if j = 0 then [] else rev half))"
      using symgeo(1) N n2 by (simp add: GetCellWidths_def Let_def sd j_def w_def c_def half_def)
    also have "\<dots> = half @ rev half"
      using j(1) hl by (simp add: allocated_exact)
    finally have g: "GetCellWidths m a b = half @ rev half" .
    show ?thesis unfolding g using hl hp hs n2 by (auto simp: sum_list_rev)
  qed
qed

lemma Contiguous_le: "Contiguous a rs b \<Longrightarrow> a \<le> b"
proof (induction rs arbitrary: a)
  case Nil
  then show ?case by simp
next
  case (Cons r rs)
  then have "a < Max_r r" "Max_r r \<le> b" by auto
  then show ?case by simp
qed

lemma Contiguous_append:
  "Contiguous a (xs @ ys) b \<longleftrightarrow> (\<exists>m. Contiguous a xs m \<and> Contiguous m ys b)"
  by (induction xs arbitrary: a) auto

lemma PartitionRegionType_is_partition: "IsPartitionRegionType (PartitionRegionType t)"
  by (cases t) (simp_all add: IsPartitionRegionType_def)

lemma direction_not_partition:
  "dir \<in> {RegionType_XDirection, RegionType_YDirection, RegionType_ZDirection} \<Longrightarrow> \<not> IsPartitionRegionType dir"
  by (auto simp: IsPartitionRegionType_def)

lemma RegionPoints_in_region:
  assumes dir: "dir \<in> {RegionType_XDirection, RegionType_YDirection, RegionType_ZDirection}"
    and mesh: "PositiveWidthMesh (ThisMesh mesh dir)"
    and t: "RegionType t = dir \<or> IsPartitionRegionType (RegionType t)" "Min_r t < Max_r t"
  shows "sorted_wrt (<) (RegionPoints dir (Repackage mesh dir t))
         \<and> (\<forall>x\<in>set (RegionPoints dir (Repackage mesh dir t)). Min_r t \<le> x \<and> x < Max_r t)"
proof (cases "IsPartitionRegionType (RegionType t)")
  case True
  then show ?thesis using t(2) by (simp add: RegionPoints_def Repackage_def)
next
  case False
  then have ty: "RegionType t = dir" using t(1) by simp
  have cnt: "GetCellWidthsCount mesh dir = RegionMeshCount (ThisMesh mesh dir)"
    using dir by (auto simp: GetCellWidthsCount_def ThisMesh_def)
  note w = GetCellWidths_positive [OF mesh t(2)]
  have cw: "CellWidths (Repackage mesh dir t) = GetCellWidths (ThisMesh mesh dir) (Min_r t) (Max_r t)"
    using w by (simp add: Repackage_def ty cnt allocated_exact)
  have "RegionPoints dir (Repackage mesh dir t)
          = StartingPoints (Min_r t) (GetCellWidths (ThisMesh mesh dir) (Min_r t) (Max_r t))"
    using False ty cw by (simp add: RegionPoints_def Repackage_def)
  then show ?thesis
    using StartingPoints_sorted [of "GetCellWidths (ThisMesh mesh dir) (Min_r t) (Max_r t)" "Min_r t"] w by simp
qed

lemma Contiguous_points_sorted:
  assumes dir: "dir \<in> {RegionType_XDirection, RegionType_YDirection, RegionType_ZDirection}"
    and mesh: "PositiveWidthMesh (ThisMesh mesh dir)"
  shows "Contiguous a ts b \<Longrightarrow> \<forall>t\<in>set ts. RegionType t = dir \<or> IsPartitionRegionType (RegionType t) \<Longrightarrow>
         sorted_wrt (<) (concat (map (RegionPoints dir) (map (Repackage mesh dir) ts)))
         \<and> (\<forall>x\<in>set (concat (map (RegionPoints dir) (map (Repackage mesh dir) ts))). a \<le> x \<and> x < b)"
proof (induction ts arbitrary: a)
  case Nil
  then show ?case by simp
next
  case (Cons t ts)
  have c: "Min_r t = a" "a < Max_r t" "Contiguous (Max_r t) ts b" using Cons.prems(1) by simp_all
  have ty: "RegionType t = dir \<or> IsPartitionRegionType (RegionType t)" using Cons.prems(2) by simp
  have p: "sorted_wrt (<) (RegionPoints dir (Repackage mesh dir t))"
    "\<forall>x\<in>set (RegionPoints dir (Repackage mesh dir t)). a \<le> x \<and> x < Max_r t"
    using RegionPoints_in_region [OF dir mesh ty] c(1,2) by simp_all
  have IH: "sorted_wrt (<) (concat (map (RegionPoints dir) (map (Repackage mesh dir) ts)))"
    "\<forall>x\<in>set (concat (map (RegionPoints dir) (map (Repackage mesh dir) ts))). Max_r t \<le> x \<and> x < b"
    using Cons.IH [OF c(3)] Cons.prems(2) by simp_all
  have mb: "Max_r t \<le> b" using Contiguous_le [OF c(3)] .
  have "sorted_wrt (<) (RegionPoints dir (Repackage mesh dir t)
                        @ concat (map (RegionPoints dir) (map (Repackage mesh dir) ts)))"
    unfolding sorted_wrt_append using p IH by fastforce
  moreover have "\<forall>x\<in>set (RegionPoints dir (Repackage mesh dir t)
                        @ concat (map (RegionPoints dir) (map (Repackage mesh dir) ts))). a \<le> x \<and> x < b"
    using p(2) IH(2) mb c(2) by fastforce
  ultimately show ?case by simp
qed

lemma fold_upt_Suc: "fold f [0 ..< Suc k] a = f k (fold f [0 ..< k] a)"
  by simp

lemma TempRegions_contiguous:
  assumes ne: "prs \<noteq> []"
    and pos: "\<forall>i<length prs. Min_r (prs ! i) < Max_r (prs ! i)"
    and first: "0 < Min_r (prs ! 0)"
    and sep: "\<forall>i. Suc i < length prs \<longrightarrow> Max_r (prs ! i) < Min_r (prs ! Suc i)"
    and lastle: "Max_r (prs ! (length prs - 1)) \<le> dmax"
    and single: "length prs = 1 \<longrightarrow> Max_r (prs ! 0) < dmax"
  shows "k \<le> length prs \<Longrightarrow>
         Contiguous 0 (fold (CreateRegionList_step False prs dmax dir) [0 ..< k] [])
           (if k = 0 then 0 else if k = length prs then dmax else Max_r (prs ! (k - 1)))"
proof (induction k)
  case 0
  then show ?case by simp
next
  case (Suc k)
  let ?T = "fold (CreateRegionList_step False prs dmax dir) [0 ..< k] []"
  let ?e = "if k = 0 then 0 else Max_r (prs ! (k - 1))"
  have k: "k < length prs" using Suc.prems by simp
  have Tk: "Contiguous 0 ?T ?e" using Suc.IH k by (auto split: if_splits)
  have left: "?e < Min_r (prs ! k)"
  proof (cases k)
    case 0
    then show ?thesis using first by simp
  next
    case (Suc k')
    then show ?thesis using sep k by simp
  qed
  have part: "Min_r (prs ! k) < Max_r (prs ! k)" using pos k by simp
  let ?right = "(k = 0 \<and> length prs = 1) \<or> (k = length prs - 1 \<and> Max_r (prs ! k) < dmax)"
  let ?new = "[TempGridRegionData ?e (Min_r (prs ! k)) dir,
               TempGridRegionData (Min_r (prs ! k)) (Max_r (prs ! k)) (RegionType (prs ! k))]
              @ (if ?right then [TempGridRegionData (Max_r (prs ! k)) dmax dir] else [])"
  let ?e' = "if Suc k = length prs then dmax else Max_r (prs ! k)"
  have step: "fold (CreateRegionList_step False prs dmax dir) [0 ..< Suc k] [] = ?T @ ?new"
    unfolding fold_upt_Suc CreateRegionList_step_eq [of False prs dmax dir k ?T] by simp
  have new: "Contiguous ?e ?new ?e'"
  proof (cases "Suc k = length prs")
    case False
    then have "\<not> ?right" using k by auto
    then have tl: "(if ?right then [TempGridRegionData (Max_r (prs ! k)) dmax dir] else []) = []"
      by (rule if_not_P)
    show ?thesis unfolding tl using False left part by (simp add: TempGridRegionData_def)
  next
    case True
    show ?thesis
    proof (cases ?right)
      case r: True
      have lt: "Max_r (prs ! k) < dmax"
        using r single by auto
      have tl: "(if ?right then [TempGridRegionData (Max_r (prs ! k)) dmax dir] else [])
                  = [TempGridRegionData (Max_r (prs ! k)) dmax dir]"
        using r by (rule if_P)
      show ?thesis unfolding tl using True lt left part by (simp add: TempGridRegionData_def)
    next
      case r: False
      have tl: "(if ?right then [TempGridRegionData (Max_r (prs ! k)) dmax dir] else []) = []"
        using r by (rule if_not_P)
      have "k = length prs - 1" using True by simp
      then have "\<not> Max_r (prs ! k) < dmax" using r by simp
      moreover have "Max_r (prs ! k) \<le> dmax" using lastle True by (metis diff_Suc_1)
      ultimately have "Max_r (prs ! k) = dmax" by simp
      then show ?thesis unfolding tl using True left part by (simp add: TempGridRegionData_def)
    qed
  qed
  have "\<exists>m. Contiguous 0 ?T m \<and> Contiguous m ?new ?e'"
    using Tk new by blast
  then have C: "Contiguous 0 (?T @ ?new) ?e'"
    by (rule iffD2 [OF Contiguous_append])
  have e: "(if Suc k = 0 then 0 else if Suc k = length prs then dmax else Max_r (prs ! (Suc k - 1))) = ?e'"
    by simp
  show ?case unfolding e step using C .
qed

lemma TempRegions_types:
  assumes "\<forall>i<length prs. IsPartitionRegionType (RegionType (prs ! i))"
  shows "k \<le> length prs \<Longrightarrow>
         \<forall>t\<in>set (fold (CreateRegionList_step False prs dmax dir) [0 ..< k] []).
            RegionType t = dir \<or> IsPartitionRegionType (RegionType t)"
proof (induction k)
  case 0
  then show ?case by simp
next
  case (Suc k)
  have k: "k < length prs" using Suc.prems by simp
  have IH: "\<forall>t\<in>set (fold (CreateRegionList_step False prs dmax dir) [0 ..< k] []).
            RegionType t = dir \<or> IsPartitionRegionType (RegionType t)"
    using Suc.IH k by simp
  show ?case
    unfolding fold_upt_Suc
      CreateRegionList_step_eq [of False prs dmax dir k "fold (CreateRegionList_step False prs dmax dir) [0 ..< k] []"]
    using IH assms k by (auto simp: TempGridRegionData_def)
qed

lemma TempRegions_count:
  "k \<le> length prs \<Longrightarrow>
   int (length (fold (CreateRegionList_step False prs dmax dir) [0 ..< k] []))
     = fold (\<lambda>Index RetVal.
                RetVal
                + (if \<not> False \<or> (False \<and> (Index = 0 \<or> Index = 2)) then 1 else 0)
                + 1
                + (if (Index = 0 \<and> length prs = 1)
                      \<or> (Index = length prs - 1 \<and> Max_r (prs ! Index) < dmax)
                   then 1 else 0))
             [0 ..< k] 0"
proof (induction k)
  case 0
  then show ?case by simp
next
  case (Suc k)
  then have IH: "int (length (fold (CreateRegionList_step False prs dmax dir) [0 ..< k] []))
     = fold (\<lambda>Index RetVal.
                RetVal
                + (if \<not> False \<or> (False \<and> (Index = 0 \<or> Index = 2)) then 1 else 0)
                + 1
                + (if (Index = 0 \<and> length prs = 1)
                      \<or> (Index = length prs - 1 \<and> Max_r (prs ! Index) < dmax)
                   then 1 else 0))
             [0 ..< k] 0"
    by simp
  show ?case
    unfolding fold_upt_Suc
      CreateRegionList_step_eq [of False prs dmax dir k "fold (CreateRegionList_step False prs dmax dir) [0 ..< k] []"]
    using IH by auto
qed

lemma CreateRegionList_no_basement:
  assumes "prs \<noteq> []"
  shows "CreateRegionList False mesh prs dmax dir (CreateRegionListCount False prs dmax True - 1) True
           = Inr (map (Repackage mesh dir) (fold (CreateRegionList_step False prs dmax dir) [0 ..< length prs] []))"
proof -
  have "int (length (fold (CreateRegionList_step False prs dmax dir) [0 ..< length prs] []))
          = CreateRegionListCount False prs dmax True"
    using TempRegions_count [of "length prs" prs dmax dir] by (simp add: CreateRegionListCount_def)
  then show ?thesis
    by (simp add: CreateRegionList_def Let_def)
qed

lemma WellSeparated_pairs:
  assumes "WellSeparated dmax ps"
  shows "j < length ps \<Longrightarrow> i < j \<Longrightarrow> CellRight (ps ! i) < CellLeft (ps ! j)"
proof (induction j)
  case 0
  then show ?case by simp
next
  case (Suc j)
  have sep: "CellRight (ps ! j) < CellLeft (ps ! Suc j)"
    using assms Suc.prems(1) by (simp add: WellSeparated_def)
  show ?case
  proof (cases "i = j")
    case True
    then show ?thesis using sep by simp
  next
    case False
    then have "i < j" using Suc.prems(2) by simp
    then have "CellRight (ps ! i) < CellLeft (ps ! j)" using Suc.IH Suc.prems(1) by simp
    moreover have "CellLeft (ps ! j) < CellRight (ps ! j)"
      using assms Suc.prems(1) by (simp add: WellSeparated_def CellLeft_def CellRight_def)
    ultimately show ?thesis using sep by simp
  qed
qed

lemma WellSeparated_accepted:
  assumes "WellSeparated dmax ps"
  shows "CreatePartitionRegionList False ps True dmax = Inr (map PartitionRegion ps)"
proof -
  have ne: "ps \<noteq> []" and w: "\<forall>p\<in>set ps. 0 < TotalWidth p"
    and f: "0 < CellLeft (ps ! 0)" and l: "CellRight (ps ! (length ps - 1)) \<le> dmax"
    using assms by (auto simp: WellSeparated_def hd_conv_nth last_conv_nth)
  have lr: "CellLeft (ps ! j) < CellRight (ps ! j)" if "j < length ps" for j
    using w that by (simp add: CellLeft_def CellRight_def)
  have "PartitionAccepted False dmax ps j" if j: "j < length ps" for j
  proof -
    have lo: "0 \<le> CellLeft (ps ! j)"
    proof (cases "j = 0")
      case True
      then show ?thesis using f by simp
    next
      case False
      then have "CellRight (ps ! 0) < CellLeft (ps ! j)" using WellSeparated_pairs [OF assms j, of 0] by simp
      moreover have "CellLeft (ps ! 0) < CellRight (ps ! 0)" using lr ne by simp
      ultimately show ?thesis using f by simp
    qed
    have hi: "CellRight (ps ! j) \<le> dmax"
    proof (cases "j = length ps - 1")
      case True
      then show ?thesis using l by simp
    next
      case False
      then have jl: "j < length ps - 1" using j by simp
      have "CellRight (ps ! j) < CellLeft (ps ! (length ps - 1))"
        using WellSeparated_pairs [OF assms, of "length ps - 1" j] jl j by simp
      moreover have "CellLeft (ps ! (length ps - 1)) < CellRight (ps ! (length ps - 1))" using lr j by simp
      ultimately show ?thesis using l by simp
    qed
    have nc: "\<not> PartitionConflict False j (CellLeft (ps ! j)) (CellRight (ps ! j)) (PartitionRegion (ps ! i))"
      if "i < j" for i
      unfolding PartitionConflict_unfold using WellSeparated_pairs [OF assms j that] lr [OF j] by auto
    show ?thesis unfolding PartitionAccepted_def using lo hi nc by auto
  qed
  then show ?thesis unfolding CreatePartitionRegionList_Inr by blast
qed

text \<open>
  All four properties, for a domain without basement coupling whose partitions are well
  separated and whose mesh structure yields positive widths.
\<close>

lemma boundary_points_strictly_increasing:
  assumes ws: "WellSeparated dmax ps"
    and dir: "dir \<in> {RegionType_XDirection, RegionType_YDirection, RegionType_ZDirection}"
    and mesh: "PositiveWidthMesh (ThisMesh mesh dir)"
  shows "\<exists>bs regions.
           DevelopMesh_BoundaryPoints False False mesh dir ps dmax = Inr bs
           \<and> CreateRegionList False mesh (map PartitionRegion ps) dmax dir
                (CreateRegionListCount False (map PartitionRegion ps) dmax True - 1) True = Inr regions
           \<and> hd bs = 0 \<and> last bs = dmax \<and> sorted_wrt (<) bs
           \<and> length bs = (\<Sum>r\<leftarrow>regions. RegionCellCount dir r) + 1"
proof -
  let ?prs = "map PartitionRegion ps"
  let ?T = "fold (CreateRegionList_step False ?prs dmax dir) [0 ..< length ?prs] []"
  have ne: "ps \<noteq> []" using ws by (simp add: WellSeparated_def)
  have acc: "CreatePartitionRegionList False ps True dmax = Inr ?prs" by (rule WellSeparated_accepted [OF ws])
  have regs: "CreateRegionList False mesh ?prs dmax dir (CreateRegionListCount False ?prs dmax True - 1) True
                = Inr (map (Repackage mesh dir) ?T)"
    using CreateRegionList_no_basement [of ?prs mesh dmax dir] ne by simp
  have bs: "DevelopMesh_BoundaryPoints False False mesh dir ps dmax
              = Inr (concat (map (RegionPoints dir) (map (Repackage mesh dir) ?T)) @ [dmax])"
    using ne acc regs by (simp add: DevelopMesh_BoundaryPoints_def Let_def CreateBoundaryList_points)
  have f1: "\<forall>i<length ?prs. Min_r (?prs ! i) < Max_r (?prs ! i)"
    using ws by (simp add: WellSeparated_def PartitionRegion_def CellLeft_def CellRight_def)
  have f2: "0 < Min_r (?prs ! 0)"
    using ws ne by (simp add: WellSeparated_def PartitionRegion_def hd_conv_nth)
  have f3: "\<forall>i. Suc i < length ?prs \<longrightarrow> Max_r (?prs ! i) < Min_r (?prs ! Suc i)"
    using ws by (simp add: WellSeparated_def PartitionRegion_def)
  have f4: "Max_r (?prs ! (length ?prs - 1)) \<le> dmax"
    using ws ne by (simp add: WellSeparated_def PartitionRegion_def last_conv_nth)
  have f5: "length ?prs = 1 \<longrightarrow> Max_r (?prs ! 0) < dmax"
    using ws ne by (simp add: WellSeparated_def PartitionRegion_def hd_conv_nth)
  have f6: "\<forall>i<length ?prs. IsPartitionRegionType (RegionType (?prs ! i))"
    by (simp add: PartitionRegion_def PartitionRegionType_is_partition)
  have pne: "?prs \<noteq> []" using ne by simp
  have cont: "Contiguous 0 ?T dmax"
    using TempRegions_contiguous [OF pne f1 f2 f3 f4 f5, of "length ?prs" dir] ne by simp
  have types: "\<forall>t\<in>set ?T. RegionType t = dir \<or> IsPartitionRegionType (RegionType t)"
    using TempRegions_types [OF f6, of "length ?prs" dmax dir] by simp
  note pts = Contiguous_points_sorted [OF dir mesh cont types]
  have sorted: "sorted_wrt (<) (concat (map (RegionPoints dir) (map (Repackage mesh dir) ?T)) @ [dmax])"
    unfolding sorted_wrt_append using pts by simp
  have cnt: "0 < GetCellWidthsCount mesh dir"
    using dir mesh by (auto simp: GetCellWidthsCount_def ThisMesh_def PositiveWidthMesh_def)
  have ends: "hd (concat (map (RegionPoints dir) (map (Repackage mesh dir) ?T)) @ [dmax]) = 0"
    using boundary_points_ends_and_length [OF bs dir cnt] by simp
  let ?bs = "concat (map (RegionPoints dir) (map (Repackage mesh dir) ?T)) @ [dmax]"
  have len: "length ?bs = (\<Sum>r\<leftarrow>map (Repackage mesh dir) ?T. RegionCellCount dir r) + 1"
    unfolding length_append length_concat_RegionPoints by simp
  have lst: "last ?bs = dmax" by simp
  show ?thesis
    using bs regs ends lst sorted len by blast
qed

text \<open>
  The conditions are satisfiable: a pipe partition from 0.9 to 1.1 on an axis of extent 2
  with a uniform mesh of two cells per region.
\<close>

lemma boundary_points_strictly_increasing_example:
  "\<exists>bs. DevelopMesh_BoundaryPoints False False UniformMeshX2 RegionType_XDirection [PipeAt 1 (1 / 5)] 2 = Inr bs
         \<and> hd bs = 0 \<and> last bs = 2 \<and> sorted_wrt (<) bs"
proof -
  have ws: "WellSeparated 2 [PipeAt 1 (1 / 5)]"
    by (simp add: WellSeparated_def PipeAt_def CellLeft_def CellRight_def)
  have dir: "RegionType_XDirection \<in> {RegionType_XDirection, RegionType_YDirection, RegionType_ZDirection}"
    by simp
  have mesh: "PositiveWidthMesh (ThisMesh UniformMeshX2 RegionType_XDirection)"
    by (simp add: PositiveWidthMesh_def ThisMesh_def UniformMeshX2_def UnsetMesh_def)
  show ?thesis
    using boundary_points_strictly_increasing [OF ws dir mesh] by blast
qed

end
